theory Spec2Isabelle
  imports Complex_Main
begin

section \<open>Numbers and tensors\<close>

text \<open>
  In the tuners Python floats are idealised as real numbers: every arithmetic expression of
  the source is kept as written, but evaluated exactly. A tensor is the list of its elements;
  the only tensor operation of the tuners is the in-place product with a scalar, \<^verbatim>\<open>mul_\<close>
  (\<open>tensor_mul\<close> here). Where an exact value is at stake, the strength the Simple Qwen
  tuner registers in its six-zone scenario and the tensors the exporter writes, the
  arithmetic is that of IEEE 754, in the sections on binary64 and on the export reconciler.
\<close>

type_synonym tensor = "real list"

definition tensor_mul :: "tensor \<Rightarrow> real \<Rightarrow> tensor" where
  "tensor_mul t scale = map (\<lambda>x. x * scale) t"

text \<open>\<^verbatim>\<open>kwargs.get(name, default)\<close> on the keyword dictionary of a call.\<close>

definition kwargs_get :: "(string \<rightharpoonup> real) \<Rightarrow> string \<Rightarrow> real \<Rightarrow> real" where
  "kwargs_get kwargs name dflt = (case kwargs name of Some v \<Rightarrow> v | None \<Rightarrow> dflt)"

text \<open>Decimal rendering of a natural number, \<^verbatim>\<open>str(n)\<close>, and the format \<^verbatim>\<open>{i:02d}\<close>.\<close>

definition digit_char :: "nat \<Rightarrow> char" where
  "digit_char d = ''0123456789'' ! d"

fun str_nat :: "nat \<Rightarrow> string" where
  "str_nat n = (if n < 10 then [digit_char n] else str_nat (n div 10) @ [digit_char (n mod 10)])"

declare str_nat.simps [simp del]

definition fmt_02d :: "nat \<Rightarrow> string" where
  "fmt_02d i = (if i < 10 then CHR ''0'' # str_nat i else str_nat i)"

section \<open>Strings\<close>

text \<open>
  The string operations the tuners use on tensor keys: \<^verbatim>\<open>s.startswith(p)\<close>, \<^verbatim>\<open>p in s\<close>,
  \<^verbatim>\<open>s.split(".")\<close>, \<^verbatim>\<open>s.replace(old, "")\<close>, \<^verbatim>\<open>int(s)\<close> and the two regular
  expressions \<^verbatim>\<open>\.layers\.(\d+)\.\<close> and \<^verbatim>\<open>\.h\.(\d+)\.\<close>. Keys are ASCII strings.
\<close>

fun startswith :: "string \<Rightarrow> string \<Rightarrow> bool" where
  "startswith s [] = True"
| "startswith [] (c # p) = False"
| "startswith (d # s) (c # p) = (d = c \<and> startswith s p)"

fun str_in :: "string \<Rightarrow> string \<Rightarrow> bool" where
  "str_in p [] = (p = [])"
| "str_in p (c # s) = (startswith (c # s) p \<or> str_in p s)"

fun split_dot :: "string \<Rightarrow> string list" where
  "split_dot [] = [[]]"
| "split_dot (c # s) =
     (if c = CHR ''.'' then [] # split_dot s
      else (case split_dot s of p # ps \<Rightarrow> (c # p) # ps | [] \<Rightarrow> [[c]]))"

text \<open>\<^verbatim>\<open>s.replace(old, "")\<close> for a non-empty \<open>old\<close>: every occurrence, left to right.\<close>

function remove_all :: "string \<Rightarrow> string \<Rightarrow> string" where
  "remove_all old [] = []"
| "remove_all old (c # s) =
     (if old \<noteq> [] \<and> startswith (c # s) old then remove_all old (drop (length old - 1) s)
      else c # remove_all old s)"
  by pat_completeness auto
termination
  by (relation "measure (\<lambda>(old, s). length s)") auto

definition is_digit :: "char \<Rightarrow> bool" where
  "is_digit c = (48 \<le> (of_char c :: nat) \<and> (of_char c :: nat) \<le> 57)"

definition digit_val :: "char \<Rightarrow> nat" where
  "digit_val c = of_char c - 48"

definition is_space :: "char \<Rightarrow> bool" where
  "is_space c = ((of_char c :: nat) \<in> set [9, 10, 11, 12, 13, 28, 29, 30, 31, 32])"

definition strip :: "string \<Rightarrow> string" where
  "strip s = dropWhile is_space (rev (dropWhile is_space (rev s)))"

text \<open>
  \<^verbatim>\<open>int(s)\<close> in base ten: surrounding white space is dropped, one sign may lead, and
  single underscores may separate digits. \<open>None\<close> is ValueError.
\<close>

fun digits_from :: "nat \<Rightarrow> string \<Rightarrow> nat option" where
  "digits_from acc [] = Some acc"
| "digits_from acc [c] = (if is_digit c then Some (10 * acc + digit_val c) else None)"
| "digits_from acc (c # d # s) =
     (if is_digit c then digits_from (10 * acc + digit_val c) (d # s)
      else if c = CHR ''_'' \<and> is_digit d then digits_from (10 * acc + digit_val d) s
      else None)"

definition py_digits :: "string \<Rightarrow> nat option" where
  "py_digits s =
     (case s of [] \<Rightarrow> None
      | c # r \<Rightarrow> if is_digit c then digits_from (digit_val c) r else None)"

definition py_int :: "string \<Rightarrow> int option" where
  "py_int s =
     (let t = strip s in
      case t of
        [] \<Rightarrow> None
      | c # r \<Rightarrow>
          if c = CHR ''-'' then map_option (\<lambda>n. - int n) (py_digits r)
          else if c = CHR ''+'' then map_option int (py_digits r)
          else map_option int (py_digits t))"

text \<open>
  \<^verbatim>\<open>re.search\<close> for a literal token followed by \<^verbatim>\<open>(\d+)\.\<close>: the leftmost position
  where the token stands, followed by a non-empty run of digits and a dot. The result is
  the captured group.
\<close>

fun span_digits :: "string \<Rightarrow> string \<times> string" where
  "span_digits [] = ([], [])"
| "span_digits (c # s) =
     (if is_digit c then (case span_digits s of (ds, rest) \<Rightarrow> (c # ds, rest)) else ([], c # s))"

definition match_here :: "string \<Rightarrow> string \<Rightarrow> string option" where
  "match_here tok s =
     (if startswith s tok
      then (case span_digits (drop (length tok) s) of
              (ds, rest) \<Rightarrow> if ds \<noteq> [] \<and> startswith rest ''.'' then Some ds else None)
      else None)"

fun re_search :: "string \<Rightarrow> string \<Rightarrow> string option" where
  "re_search tok [] = match_here tok []"
| "re_search tok (c # s) =
     (case match_here tok (c # s) of Some ds \<Rightarrow> Some ds | None \<Rightarrow> re_search tok s)"

definition int_of_digits :: "string \<Rightarrow> nat" where
  "int_of_digits ds = foldl (\<lambda>acc c. 10 * acc + digit_val c) 0 ds"

section \<open>The live Z-Image tuners (destructive, with backup and restore)\<close>

subsection \<open>The model object and the process state\<close>

text \<open>
  A transformer block is seen through \<^verbatim>\<open>block.named_modules()\<close>: the list of its named
  sub-modules. A \<open>Linear\<close> module holds the address of its weight tensor in the heap, so
  that two modules may share one weight. The backbone carries its identity
  (\<^verbatim>\<open>id(backbone)\<close>) and the three attributes the tuner probes; \<open>None\<close> is an absent
  attribute. The handle's \<open>diffusion_model\<close> is \<open>None\<close> when
  \<^verbatim>\<open>model.model.diffusion_model\<close> raises AttributeError. The state of the process is
  the heap of weight tensors and the class attribute \<^verbatim>\<open>BACKUP_CACHE\<close>; each of the two
  classes has a cache of its own, so a state pairs the heap with the cache of the class
  whose method runs. The phases 1, 2, 3 and 5 are the same text in both classes and are
  modelled once; phase 4, the scale of a layer, is given to them as a function.
\<close>

datatype module = Linear nat | Other

type_synonym block = "(string \<times> module) list"

record backbone =
  ident :: nat
  layers :: "block list option"
  joint_blocks :: "block list option"
  blocks :: "block list option"

record model_handle =
  diffusion_model :: "backbone option"

type_synonym heap = "nat \<Rightarrow> tensor"

type_synonym layer_backup = "string \<rightharpoonup> tensor"

type_synonym model_backup = "nat \<rightharpoonup> layer_backup"

record state =
  heap :: heap
  BACKUP_CACHE :: "nat \<rightharpoonup> model_backup"

subsection \<open>Phase 1: finding the layer container\<close>

definition layer_container :: "backbone \<Rightarrow> block list option" where
  "layer_container b =
     (case layers b of Some c \<Rightarrow> Some c
      | None \<Rightarrow> (case joint_blocks b of Some c \<Rightarrow> Some c
          | None \<Rightarrow> (case blocks b of Some c \<Rightarrow> Some c | None \<Rightarrow> None)))"

subsection \<open>Phase 2: the backup, taken once per model identity\<close>

fun backup_block :: "heap \<Rightarrow> block \<Rightarrow> layer_backup \<Rightarrow> layer_backup" where
  "backup_block h [] layer_backup = layer_backup"
| "backup_block h ((name, m) # rest) layer_backup =
     backup_block h rest
       (case m of Linear a \<Rightarrow> layer_backup(name \<mapsto> h a) | Other \<Rightarrow> layer_backup)"

fun backup_model :: "heap \<Rightarrow> nat \<Rightarrow> block list \<Rightarrow> model_backup \<Rightarrow> model_backup" where
  "backup_model h i [] cache = cache"
| "backup_model h i (blk # rest) cache =
     backup_model h (Suc i) rest (cache(i \<mapsto> backup_block h blk Map.empty))"

subsection \<open>Phase 3: the restore, run on every call\<close>

fun restore_block :: "layer_backup \<Rightarrow> block \<Rightarrow> heap \<Rightarrow> heap" where
  "restore_block backup_dict [] h = h"
| "restore_block backup_dict ((name, m) # rest) h =
     restore_block backup_dict rest
       (case m of
          Linear a \<Rightarrow> (case backup_dict name of Some original_weight \<Rightarrow> h(a := original_weight)
                       | None \<Rightarrow> h)
        | Other \<Rightarrow> h)"

fun restore_model :: "model_backup \<Rightarrow> nat \<Rightarrow> block list \<Rightarrow> heap \<Rightarrow> heap" where
  "restore_model cache i [] h = h"
| "restore_model cache i (blk # rest) h =
     restore_model cache (Suc i) rest
       (case cache i of Some backup_dict \<Rightarrow> restore_block backup_dict blk h | None \<Rightarrow> h)"

subsection \<open>Phase 4: the slider curve and the per-layer weights\<close>

definition get_target_weight :: "string \<Rightarrow> real \<Rightarrow> real" where
  "get_target_weight mode w =
     (if mode = ''Real Value'' then w
      else if w \<le> 1.0 then max 0.0 (- 1.02 * (w ^ 2) + 2.02 * w)
      else 1.0 + (w - 1.0) * 0.133)"

definition GROUP_MAP :: "(string \<times> nat list) list" where
  "GROUP_MAP =
     [(''STAGE_1_Semantic_Seeding'', [0..<6]),
      (''STAGE_2_Spatial_Layout'', [6..<12]),
      (''STAGE_3_Morphological_Form'', [12..<18]),
      (''STAGE_4_Volumetric_Lighting'', [18..<24]),
      (''STAGE_5_Surface_Refinement'', [24..<30])]"

fun assign_all :: "nat list \<Rightarrow> real \<Rightarrow> (nat \<rightharpoonup> real) \<Rightarrow> (nat \<rightharpoonup> real)" where
  "assign_all [] v layer_weights = layer_weights"
| "assign_all (i # rest) v layer_weights = assign_all rest v (layer_weights(i \<mapsto> v))"

fun group_weights ::
  "string \<Rightarrow> real \<Rightarrow> (string \<rightharpoonup> real) \<Rightarrow> (string \<times> nat list) list \<Rightarrow> (nat \<rightharpoonup> real)
     \<Rightarrow> (nat \<rightharpoonup> real)" where
  "group_weights mode w_base kwargs [] layer_weights = layer_weights"
| "group_weights mode w_base kwargs ((group_name, layer_indices) # rest) layer_weights =
     (let slider_val = kwargs_get kwargs group_name 1.0;
          target_val = get_target_weight mode slider_val;
          final_val = target_val * w_base
      in group_weights mode w_base kwargs rest (assign_all layer_indices final_val layer_weights))"

definition layer_weights :: "string \<Rightarrow> real \<Rightarrow> (string \<rightharpoonup> real) \<Rightarrow> (nat \<rightharpoonup> real)" where
  "layer_weights mode base_scale kwargs =
     group_weights mode (get_target_weight mode base_scale) kwargs GROUP_MAP Map.empty"

definition zimage_scale :: "string \<Rightarrow> real \<Rightarrow> (string \<rightharpoonup> real) \<Rightarrow> nat \<Rightarrow> real" where
  "zimage_scale mode base_scale kwargs i =
     (case layer_weights mode base_scale kwargs i of Some v \<Rightarrow> v | None \<Rightarrow> 1.0)"

text \<open>The Lab tuner has one slider per layer, named after the layer's stage.\<close>

fun lab_names :: "string \<Rightarrow> nat list \<Rightarrow> (nat \<rightharpoonup> string) \<Rightarrow> (nat \<rightharpoonup> string)" where
  "lab_names grp [] names = names"
| "lab_names grp (i # rest) names =
     lab_names grp rest (names(i \<mapsto> grp @ ''_L'' @ fmt_02d i))"

fun lab_groups :: "(string \<times> nat list) list \<Rightarrow> (nat \<rightharpoonup> string) \<Rightarrow> (nat \<rightharpoonup> string)" where
  "lab_groups [] names = names"
| "lab_groups ((grp, rng) # rest) names = lab_groups rest (lab_names grp rng names)"

definition LAYER_TO_NAME_MAP :: "nat \<rightharpoonup> string" where
  "LAYER_TO_NAME_MAP = lab_groups GROUP_MAP Map.empty"

definition zimage_lab_scale :: "string \<Rightarrow> real \<Rightarrow> (string \<rightharpoonup> real) \<Rightarrow> nat \<Rightarrow> real" where
  "zimage_lab_scale mode base_scale kwargs i =
     (let w_base = get_target_weight mode base_scale;
          slider_val = (case LAYER_TO_NAME_MAP i of
                          Some slider_key \<Rightarrow>
                            if slider_key \<noteq> [] then kwargs_get kwargs slider_key 1.0 else 1.0
                        | None \<Rightarrow> 1.0);
          target_val = get_target_weight mode slider_val
      in target_val * w_base)"

subsection \<open>Phase 5: the injection\<close>

fun scale_block :: "real \<Rightarrow> block \<Rightarrow> heap \<times> nat \<Rightarrow> heap \<times> nat" where
  "scale_block scale [] (h, layer_hits) = (h, layer_hits)"
| "scale_block scale ((name, m) # rest) (h, layer_hits) =
     scale_block scale rest
       (case m of Linear a \<Rightarrow> (h(a := tensor_mul (h a) scale), layer_hits + 1)
        | Other \<Rightarrow> (h, layer_hits))"

fun inject :: "(nat \<Rightarrow> real) \<Rightarrow> nat \<Rightarrow> block list \<Rightarrow> heap \<times> nat \<Rightarrow> heap \<times> nat" where
  "inject scale_of i [] (h, injected_layers) = (h, injected_layers)"
| "inject scale_of i (blk # rest) (h, injected_layers) =
     inject scale_of (Suc i) rest
       (let scale = scale_of i in
        if scale = 1.0 then (h, injected_layers)
        else (case scale_block scale blk (h, 0) of
                (h', layer_hits) \<Rightarrow>
                  (h', if layer_hits > 0 then injected_layers + 1 else injected_layers)))"

subsection \<open>The two operations\<close>

definition tune_phases :: "(nat \<Rightarrow> real) \<Rightarrow> nat \<Rightarrow> block list \<Rightarrow> state \<Rightarrow> state \<times> nat" where
  "tune_phases scale_of model_id container s =
     (let cache = (if BACKUP_CACHE s model_id = None
                   then (BACKUP_CACHE s)(model_id \<mapsto> backup_model (heap s) 0 container Map.empty)
                   else BACKUP_CACHE s);
          restored = (case cache model_id of
                        Some model_backup \<Rightarrow> restore_model model_backup 0 container (heap s)
                      | None \<Rightarrow> heap s)
      in case inject scale_of 0 container (restored, 0) of
           (h, injected_layers) \<Rightarrow> (\<lparr>heap = h, BACKUP_CACHE = cache\<rparr>, injected_layers))"

definition tune_zimage ::
  "model_handle \<Rightarrow> string \<Rightarrow> real \<Rightarrow> (string \<rightharpoonup> real) \<Rightarrow> state \<Rightarrow> state \<times> string" where
  "tune_zimage model mode base_scale kwargs s =
     (case diffusion_model model of
        None \<Rightarrow> (s, ''Error: Model Access Failed'')
      | Some backbone \<Rightarrow>
          (case layer_container backbone of
             None \<Rightarrow> (s, ''Error: Unknown Model Structure'')
           | Some container \<Rightarrow>
               (case tune_phases (zimage_scale mode base_scale kwargs) (ident backbone) container s of
                  (s', injected_layers) \<Rightarrow>
                    (s', ''Z-Image Active | Mode: '' @ mode @ '' | Layers Modulated: ''
                           @ str_nat injected_layers))))"

definition tune_zimage_lab ::
  "model_handle \<Rightarrow> string \<Rightarrow> real \<Rightarrow> (string \<rightharpoonup> real) \<Rightarrow> state \<Rightarrow> state \<times> string" where
  "tune_zimage_lab model mode base_scale kwargs s =
     (case diffusion_model model of
        None \<Rightarrow> (s, ''Error: Model Access Failed'')
      | Some backbone \<Rightarrow>
          (case layer_container backbone of
             None \<Rightarrow> (s, ''Error: Unknown Model Structure'')
           | Some container \<Rightarrow>
               (case tune_phases (zimage_lab_scale mode base_scale kwargs) (ident backbone) container s of
                  (s', injected_layers) \<Rightarrow>
                    (s', ''Z-Image Lab | Mode: '' @ mode @ '' | Layers Modulated: ''
                           @ str_nat injected_layers))))"

subsection \<open>The backup invariant\<close>

text \<open>
  A backup covers a container when it has an entry for every block index and, in it, a
  snapshot under the name of every \<open>Linear\<close> module of that block. The backup phase
  establishes this, and no later call changes the cache entry of a model that has one.
  \<open>backup_ok\<close> holds of a model the process has not seen yet, and of one whose
  cache entry covers its container.
\<close>

fun covers_block :: "layer_backup \<Rightarrow> block \<Rightarrow> bool" where
  "covers_block d [] = True"
| "covers_block d ((name, m) # rest) =
     ((case m of Linear a \<Rightarrow> d name \<noteq> None | Other \<Rightarrow> True) \<and> covers_block d rest)"

fun covers_model :: "model_backup \<Rightarrow> nat \<Rightarrow> block list \<Rightarrow> bool" where
  "covers_model mb i [] = True"
| "covers_model mb i (blk # rest) =
     ((case mb i of Some d \<Rightarrow> covers_block d blk | None \<Rightarrow> False) \<and> covers_model mb (Suc i) rest)"

definition cache_ok :: "state \<Rightarrow> nat \<Rightarrow> block list \<Rightarrow> bool" where
  "cache_ok s model_id container =
     (case BACKUP_CACHE s model_id of None \<Rightarrow> True
      | Some mb \<Rightarrow> covers_model mb 0 container)"

definition block_addrs :: "block \<Rightarrow> nat set" where
  "block_addrs blk = {a. \<exists>name. (name, Linear a) \<in> set blk}"

definition governed :: "block list \<Rightarrow> nat set" where
  "governed container = (\<Union>blk \<in> set container. block_addrs blk)"

definition backup_ok :: "state \<Rightarrow> model_handle \<Rightarrow> bool" where
  "backup_ok s model =
     (case diffusion_model model of
        None \<Rightarrow> True
      | Some backbone \<Rightarrow>
          (case layer_container backbone of
             None \<Rightarrow> True
           | Some container \<Rightarrow> cache_ok s (ident backbone) container))"

text \<open>A small model for the concrete checks: two blocks, three weights.\<close>

definition demo_container :: "block list" where
  "demo_container =
     [[([], Other), (''attention.qkv'', Linear 0), (''attention_norm'', Other)],
      [(''feed_forward.w1'', Linear 1), (''feed_forward.w2'', Linear 2)]]"

definition demo_model :: model_handle where
  "demo_model = \<lparr>diffusion_model =
     Some \<lparr>ident = 7, layers = Some demo_container, joint_blocks = None, blocks = None\<rparr>\<rparr>"

definition demo_state :: state where
  "demo_state = \<lparr>heap = (\<lambda>a. [])(0 := [1, 2], 1 := [3], 2 := [4, 5]),
                  BACKUP_CACHE = Map.empty\<rparr>"

definition no_container_model :: model_handle where
  "no_container_model = \<lparr>diffusion_model =
     Some \<lparr>ident = 9, layers = None, joint_blocks = None, blocks = None\<rparr>\<rparr>"

section \<open>The block-based Z-Image tuners\<close>

text \<open>
  \<^verbatim>\<open>ArthemyZImage_Tuner_Simple.tune\<close> and \<^verbatim>\<open>ArthemyZImage_Tuner_Lab.tune_lab\<close> walk the
  state dictionary of the diffusion model, a list of keys with their tensors, and multiply
  the tensors they target in place. Each key owns its tensor.
\<close>

subsection \<open>The Simple tuner\<close>

definition get_val_zimage :: "string \<Rightarrow> real \<Rightarrow> real" where
  "get_val_zimage mode v = (if mode = ''Real Value'' then v else 1.0 + ((v - 1.0) * 0.2))"

definition calc_final :: "string \<Rightarrow> real \<Rightarrow> real \<Rightarrow> real" where
  "calc_final mode base_strength val =
     (let v = get_val_zimage mode val in
      if mode = ''Real Value'' then v * base_strength else v)"

record sliders =
  block_1_start_00_04 :: real
  block_2_early_05_09 :: real
  block_3_mid_10_14 :: real
  block_4_core_15_19 :: real
  block_5_late_20_24 :: real
  block_6_end_25_29 :: real
  global_attention :: real
  global_mlp :: real
  embedders_strength :: real
  refiners_strength :: real

record params =
  b1 :: real
  b2 :: real
  b3 :: real
  b4 :: real
  b5 :: real
  b6 :: real
  g_att :: real
  g_mlp :: real
  emb :: real
  ref :: real

definition make_params :: "string \<Rightarrow> real \<Rightarrow> sliders \<Rightarrow> params" where
  "make_params mode base_strength sl =
     \<lparr>b1 = calc_final mode base_strength (block_1_start_00_04 sl),
      b2 = calc_final mode base_strength (block_2_early_05_09 sl),
      b3 = calc_final mode base_strength (block_3_mid_10_14 sl),
      b4 = calc_final mode base_strength (block_4_core_15_19 sl),
      b5 = calc_final mode base_strength (block_5_late_20_24 sl),
      b6 = calc_final mode base_strength (block_6_end_25_29 sl),
      g_att = calc_final mode base_strength (global_attention sl),
      g_mlp = calc_final mode base_strength (global_mlp sl),
      emb = calc_final mode base_strength (embedders_strength sl),
      ref = calc_final mode base_strength (refiners_strength sl)\<rparr>"

text \<open>
  \<^verbatim>\<open>parts = key.split("."); idx = int(parts[1])\<close>. \<open>None\<close> is the exception that the
  surrounding \<^verbatim>\<open>try\<close> swallows.
\<close>

definition layer_idx :: "string \<Rightarrow> int option" where
  "layer_idx key = (case split_dot key of p0 # p1 # rest \<Rightarrow> py_int p1 | _ \<Rightarrow> None)"

definition block_scale :: "params \<Rightarrow> int \<Rightarrow> real" where
  "block_scale p idx =
     (if 0 \<le> idx \<and> idx \<le> 4 then b1 p
      else if 5 \<le> idx \<and> idx \<le> 9 then b2 p
      else if 10 \<le> idx \<and> idx \<le> 14 then b3 p
      else if 15 \<le> idx \<and> idx \<le> 19 then b4 p
      else if 20 \<le> idx \<and> idx \<le> 24 then b5 p
      else if 25 \<le> idx \<and> idx \<le> 29 then b6 p
      else 1.0)"

text \<open>The pair \<open>(scale, is_target)\<close> the loop body computes for a key.\<close>

definition key_scale :: "params \<Rightarrow> string \<Rightarrow> real \<times> bool" where
  "key_scale p key =
     (if startswith key ''layers.'' then
        (case layer_idx key of
           None \<Rightarrow> (1.0, False)
         | Some idx \<Rightarrow>
             (let scale = block_scale p idx in
              if str_in ''attention'' key then (scale * g_att p, True)
              else if str_in ''feed_forward'' key then (scale * g_mlp p, True)
              else (scale, True)))
      else if str_in ''embedder'' key then (emb p, True)
      else if str_in ''refiner'' key then (ref p, True)
      else if str_in ''final_layer'' key then (b6 p, True)
      else (1.0, False))"

definition is_norm_layer :: "string \<Rightarrow> bool" where
  "is_norm_layer key = (str_in ''norm'' key \<or> str_in ''adaLN'' key)"

text \<open>
  The loop over the state dictionary, for any way of computing \<open>(scale, is_target)\<close>;
  it returns the dictionary with the counters \<open>count\<close> and \<open>skipped_norm\<close>.
\<close>

fun tune_loop ::
  "(string \<Rightarrow> real \<times> bool) \<Rightarrow> bool \<Rightarrow> (string \<times> tensor) list \<Rightarrow> nat \<Rightarrow> nat
     \<Rightarrow> (string \<times> tensor) list \<times> nat \<times> nat" where
  "tune_loop scale_for unsafe_tune_normalization [] count skipped_norm =
     ([], count, skipped_norm)"
| "tune_loop scale_for unsafe_tune_normalization ((key, tensor) # rest) count skipped_norm =
     (if \<not> str_in ''weight'' key \<and> \<not> str_in ''bias'' key then
        (case tune_loop scale_for unsafe_tune_normalization rest count skipped_norm of
           (sd, r) \<Rightarrow> ((key, tensor) # sd, r))
      else if is_norm_layer key \<and> \<not> unsafe_tune_normalization then
        (case tune_loop scale_for unsafe_tune_normalization rest count (skipped_norm + 1) of
           (sd, r) \<Rightarrow> ((key, tensor) # sd, r))
      else
        (case scale_for key of
           (scale, is_target) \<Rightarrow>
             if is_target \<and> \<bar>scale - 1.0\<bar> > 0.0001 then
               (case tune_loop scale_for unsafe_tune_normalization rest (count + 1) skipped_norm of
                  (sd, r) \<Rightarrow> ((key, tensor_mul tensor scale) # sd, r))
             else
               (case tune_loop scale_for unsafe_tune_normalization rest count skipped_norm of
                  (sd, r) \<Rightarrow> ((key, tensor) # sd, r))))"

text \<open>What the loop leaves under one key: the tensor, scaled or as it was.\<close>

definition new_tensor :: "(string \<Rightarrow> real \<times> bool) \<Rightarrow> bool \<Rightarrow> string \<Rightarrow> tensor \<Rightarrow> tensor" where
  "new_tensor scale_for unsafe_tune_normalization key tensor =
     (if \<not> str_in ''weight'' key \<and> \<not> str_in ''bias'' key then tensor
      else if is_norm_layer key \<and> \<not> unsafe_tune_normalization then tensor
      else (case scale_for key of
              (scale, is_target) \<Rightarrow>
                if is_target \<and> \<bar>scale - 1.0\<bar> > 0.0001 then tensor_mul tensor scale
                else tensor))"

definition tune ::
  "(string \<times> tensor) list \<Rightarrow> string \<Rightarrow> real \<Rightarrow> sliders \<Rightarrow> bool
     \<Rightarrow> (string \<times> tensor) list \<times> nat \<times> nat" where
  "tune state_dict mode base_strength sl unsafe_tune_normalization =
     tune_loop (key_scale (make_params mode base_strength sl)) unsafe_tune_normalization
       state_dict 0 0"

subsection \<open>The Lab tuner\<close>

definition get_val_zimage_lab :: "string \<Rightarrow> real \<Rightarrow> real \<Rightarrow> real" where
  "get_val_zimage_lab mode base_strength v =
     (if mode = ''Real Value'' then v * base_strength else 1.0 + ((v - 1.0) * 0.2))"

definition LAYER_CONFIG :: "(int \<times> string) list" where
  "LAYER_CONFIG = map (\<lambda>i. (int i, ''Layer_'' @ fmt_02d i)) [0..<30]"

fun scales_of_config ::
  "(real \<Rightarrow> real) \<Rightarrow> (string \<rightharpoonup> real) \<Rightarrow> (int \<times> string) list \<Rightarrow> (int \<rightharpoonup> real)
     \<Rightarrow> (int \<rightharpoonup> real)" where
  "scales_of_config get_val kwargs [] layer_scales = layer_scales"
| "scales_of_config get_val kwargs ((index, name) # rest) layer_scales =
     scales_of_config get_val kwargs rest
       (layer_scales(index \<mapsto> get_val (kwargs_get kwargs name 1.0)))"

definition lab_layer_scales :: "string \<Rightarrow> real \<Rightarrow> (string \<rightharpoonup> real) \<Rightarrow> (int \<rightharpoonup> real)" where
  "lab_layer_scales mode base_strength kwargs =
     scales_of_config (get_val_zimage_lab mode base_strength) kwargs LAYER_CONFIG Map.empty"

definition key_scale_lab ::
  "string \<Rightarrow> real \<Rightarrow> (string \<rightharpoonup> real) \<Rightarrow> string \<Rightarrow> real \<times> bool" where
  "key_scale_lab mode base_strength kwargs key =
     (let layer_scales = lab_layer_scales mode base_strength kwargs;
          val_noise = get_val_zimage_lab mode base_strength (kwargs_get kwargs ''Noise_Refiners'' 1.0);
          val_context =
            get_val_zimage_lab mode base_strength (kwargs_get kwargs ''Context_Refiners'' 1.0);
          val_embed =
            get_val_zimage_lab mode base_strength (kwargs_get kwargs ''Embedders_Global'' 1.0)
      in
      if startswith key ''layers.'' then
        (case layer_idx key of
           None \<Rightarrow> (1.0, False)
         | Some idx \<Rightarrow>
             (case layer_scales idx of Some v \<Rightarrow> (v, True) | None \<Rightarrow> (1.0, False)))
      else if str_in ''noise_refiner'' key then (val_noise, True)
      else if str_in ''context_refiner'' key then (val_context, True)
      else if str_in ''embedder'' key then (val_embed, True)
      else if str_in ''final_layer'' key then
        ((case layer_scales 29 of Some v \<Rightarrow> v | None \<Rightarrow> 1.0), True)
      else (1.0, False))"

definition tune_lab ::
  "(string \<times> tensor) list \<Rightarrow> string \<Rightarrow> real \<Rightarrow> bool \<Rightarrow> (string \<rightharpoonup> real)
     \<Rightarrow> (string \<times> tensor) list \<times> nat \<times> nat" where
  "tune_lab state_dict mode base_strength unsafe_tune_normalization kwargs =
     tune_loop (key_scale_lab mode base_strength kwargs) unsafe_tune_normalization
       state_dict 0 0"

definition unit_sliders :: sliders where
  "unit_sliders =
     \<lparr>block_1_start_00_04 = 1.0, block_2_early_05_09 = 1.0, block_3_mid_10_14 = 1.0,
      block_4_core_15_19 = 1.0, block_5_late_20_24 = 1.0, block_6_end_25_29 = 1.0,
      global_attention = 1.0, global_mlp = 1.0, embedders_strength = 1.0,
      refiners_strength = 1.0\<rparr>"

section \<open>The patch-based Qwen tuners\<close>

text \<open>
  These tuners never change a tensor. They clone the text encoder and call
  \<^verbatim>\<open>add_patches({key: payload}, strength, 1.0)\<close> on the clone; the host applies the
  patches later. The text encoder is modelled by what the tuners read of it, its state
  dictionary and its key patches, and by the list of \<^verbatim>\<open>add_patches\<close> calls made on it
  so far. A payload, like a stored patch, is a nested Python value.
\<close>

datatype pdata = PTensor tensor | PNum real | PList "pdata list" | POther

type_synonym patch_call = "string \<times> pdata \<times> real \<times> real"

record clip =
  state_dict :: "(string \<times> tensor) list"
  key_patches :: "(string \<times> pdata) list"
  patch_calls :: "patch_call list"

text \<open>The layer index of a key: the first of the two regular expressions that matches.\<close>

definition qwen_layer_idx :: "string \<Rightarrow> nat option" where
  "qwen_layer_idx key =
     (case re_search ''.layers.'' key of
        Some ds \<Rightarrow> Some (int_of_digits ds)
      | None \<Rightarrow> (case re_search ''.h.'' key of
                   Some ds \<Rightarrow> Some (int_of_digits ds)
                 | None \<Rightarrow> None))"

text \<open>
  The loop that registers patches, for any rule giving the strength of a key (\<open>None\<close>:
  the key gets no patch); it returns the calls and \<open>active_patches\<close>.
\<close>

fun patch_loop ::
  "(string \<Rightarrow> real option) \<Rightarrow> (string \<times> pdata) list \<Rightarrow> patch_call list \<Rightarrow> nat
     \<Rightarrow> patch_call list \<times> nat" where
  "patch_loop strength_of [] calls active_patches = (calls, active_patches)"
| "patch_loop strength_of ((key, payload) # rest) calls active_patches =
     (case strength_of key of
        None \<Rightarrow> patch_loop strength_of rest calls active_patches
      | Some strength \<Rightarrow>
          patch_loop strength_of rest (calls @ [(key, payload, strength, 1.0)])
            (active_patches + 1))"

subsection \<open>The Simple and Lab tuners of the text encoder\<close>

definition get_val_qwen :: "string \<Rightarrow> real \<Rightarrow> real" where
  "get_val_qwen mode v = (if mode = ''Real Value'' then v else 0.8 + (0.2 * v))"

definition group_inputs :: "(string \<times> nat list) list" where
  "group_inputs =
     [(''Zone_1_Embedding_00_05'', [0..<6]),
      (''Zone_2_Syntax_Low_06_11'', [6..<12]),
      (''Zone_3_Syntax_High_12_17'', [12..<18]),
      (''Zone_4_Semantics_18_23'', [18..<24]),
      (''Zone_5_Context_24_29'', [24..<30]),
      (''Zone_6_Abstract_30_35'', [30..<36])]"

text \<open>
  The two dictionaries the first loop fills: \<open>layer_scales\<close> and the expected strengths
  of \<open>debug_map["layers"]\<close>.
\<close>

fun zone_indices ::
  "real \<Rightarrow> real \<Rightarrow> nat list \<Rightarrow> (nat \<rightharpoonup> real) \<times> (nat \<rightharpoonup> real)
     \<Rightarrow> (nat \<rightharpoonup> real) \<times> (nat \<rightharpoonup> real)" where
  "zone_indices final_val w_base [] (layer_scales, debug_layers) = (layer_scales, debug_layers)"
| "zone_indices final_val w_base (idx # rest) (layer_scales, debug_layers) =
     zone_indices final_val w_base rest
       (layer_scales(idx \<mapsto> final_val), debug_layers(idx \<mapsto> (final_val * w_base) - 1.0))"

fun zone_scales ::
  "string \<Rightarrow> real \<Rightarrow> (string \<rightharpoonup> real) \<Rightarrow> (string \<times> nat list) list
     \<Rightarrow> (nat \<rightharpoonup> real) \<times> (nat \<rightharpoonup> real) \<Rightarrow> (nat \<rightharpoonup> real) \<times> (nat \<rightharpoonup> real)" where
  "zone_scales mode w_base kwargs [] maps = maps"
| "zone_scales mode w_base kwargs ((group_name, layer_range) # rest) maps =
     (let user_val = kwargs_get kwargs group_name 1.0;
          final_val = get_val_qwen mode user_val
      in zone_scales mode w_base kwargs rest (zone_indices final_val w_base layer_range maps))"

definition simple_layer_scales ::
  "string \<Rightarrow> real \<Rightarrow> (string \<rightharpoonup> real) \<Rightarrow> (nat \<rightharpoonup> real) \<times> (nat \<rightharpoonup> real)" where
  "simple_layer_scales mode base_strength kwargs =
     zone_scales mode (get_val_qwen mode base_strength) kwargs group_inputs
       (Map.empty, Map.empty)"

text \<open>
  The body of the patch loop, the same in both tuners: \<open>target_scale\<close> exists for an
  index of \<open>layer_scales\<close>, and the strength of the patch is its distance to one.
\<close>

definition te_target_scale :: "(nat \<rightharpoonup> real) \<Rightarrow> real \<Rightarrow> nat \<Rightarrow> real option" where
  "te_target_scale layer_scales w_base idx =
     (case layer_scales idx of
        None \<Rightarrow> None
      | Some layer_scale \<Rightarrow> Some (layer_scale * w_base))"

definition te_strength :: "(nat \<rightharpoonup> real) \<Rightarrow> real \<Rightarrow> string \<Rightarrow> real option" where
  "te_strength layer_scales w_base key =
     (if str_in ''norm'' key \<or> str_in ''bias'' key then None
      else (case qwen_layer_idx key of
              None \<Rightarrow> None
            | Some idx \<Rightarrow>
                (case te_target_scale layer_scales w_base idx of
                   None \<Rightarrow> None
                 | Some target_scale \<Rightarrow>
                     (let strength = target_scale - 1.0
                      in if strength \<noteq> 0 then Some strength else None))))"

definition weight_payloads :: "(string \<times> tensor) list \<Rightarrow> (string \<times> pdata) list" where
  "weight_payloads sd = map (\<lambda>(key, original_weight). (key, PList [PTensor original_weight])) sd"

record debug_map =
  dbg_base_strength :: real
  dbg_mode :: string
  dbg_layers :: "nat \<rightharpoonup> real"

definition tune_qwen_simple ::
  "clip \<Rightarrow> string \<Rightarrow> real \<Rightarrow> (string \<rightharpoonup> real) \<Rightarrow> clip \<times> string \<times> debug_map" where
  "tune_qwen_simple clip mode base_strength kwargs =
     (let w_base = get_val_qwen mode base_strength in
      case simple_layer_scales mode base_strength kwargs of
        (layer_scales, layers_dbg) \<Rightarrow>
          (case patch_loop (te_strength layer_scales w_base) (weight_payloads (state_dict clip))
                  (patch_calls clip) 0 of
             (calls, active_patches) \<Rightarrow>
               (clip\<lparr>patch_calls := calls\<rparr>,
                ''Simple Tuner (6-Zones) Active | Patches: '' @ str_nat active_patches,
                \<lparr>dbg_base_strength = base_strength, dbg_mode = mode,
                 dbg_layers = layers_dbg\<rparr>)))"

definition qwen_lab_prefix :: "nat \<Rightarrow> string" where
  "qwen_lab_prefix i =
     (if i < 9 then ''LLM_Syntax''
      else if i < 18 then ''LLM_Semantics''
      else if i < 27 then ''LLM_Context''
      else ''LLM_Abstract'')"

definition LAYER_CONFIG_qwen :: "(nat \<times> string) list" where
  "LAYER_CONFIG_qwen = map (\<lambda>i. (i, qwen_lab_prefix i @ ''_L'' @ fmt_02d i)) [0..<36]"

fun lab_scales ::
  "string \<Rightarrow> real \<Rightarrow> (string \<rightharpoonup> real) \<Rightarrow> (nat \<times> string) list
     \<Rightarrow> (nat \<rightharpoonup> real) \<times> (nat \<rightharpoonup> real) \<Rightarrow> (nat \<rightharpoonup> real) \<times> (nat \<rightharpoonup> real)" where
  "lab_scales mode w_base kwargs [] maps = maps"
| "lab_scales mode w_base kwargs ((index, name) # rest) (layer_scales, debug_layers) =
     (let val = kwargs_get kwargs name 1.0;
          final_val = get_val_qwen mode val
      in lab_scales mode w_base kwargs rest
           (layer_scales(index \<mapsto> final_val),
            debug_layers(index \<mapsto> (final_val * w_base) - 1.0)))"

definition lab_layer_scales_qwen ::
  "string \<Rightarrow> real \<Rightarrow> (string \<rightharpoonup> real) \<Rightarrow> (nat \<rightharpoonup> real) \<times> (nat \<rightharpoonup> real)" where
  "lab_layer_scales_qwen mode base_strength kwargs =
     lab_scales mode (get_val_qwen mode base_strength) kwargs LAYER_CONFIG_qwen
       (Map.empty, Map.empty)"

definition tune_qwen_lab_te ::
  "clip \<Rightarrow> string \<Rightarrow> real \<Rightarrow> (string \<rightharpoonup> real) \<Rightarrow> clip \<times> string \<times> debug_map" where
  "tune_qwen_lab_te clip mode base_strength kwargs =
     (let w_base = get_val_qwen mode base_strength in
      case lab_layer_scales_qwen mode base_strength kwargs of
        (layer_scales, layers_dbg) \<Rightarrow>
          (case patch_loop (te_strength layer_scales w_base) (weight_payloads (state_dict clip))
                  (patch_calls clip) 0 of
             (calls, active_patches) \<Rightarrow>
               (clip\<lparr>patch_calls := calls\<rparr>,
                ''Lab Tuner Active | Patches: '' @ str_nat active_patches,
                \<lparr>dbg_base_strength = base_strength, dbg_mode = mode,
                 dbg_layers = layers_dbg\<rparr>)))"

subsection \<open>The live Qwen tuner (four bands)\<close>

definition get_target_weight_qwen :: "string \<Rightarrow> real \<Rightarrow> real" where
  "get_target_weight_qwen mode w = (if mode = ''Real Value'' then w else 0.8 + (0.2 * w))"

definition bands :: "(string \<times> nat list) list" where
  "bands =
     [(''LLM_Syntax_Parsing'', [0..<9]),
      (''LLM_Literal_Meaning'', [9..<18]),
      (''LLM_Contextual_Web'', [18..<27]),
      (''LLM_Abstract_Concept'', [27..<36])]"

fun band_map ::
  "string \<Rightarrow> real \<Rightarrow> (string \<rightharpoonup> real) \<Rightarrow> (string \<times> nat list) list \<Rightarrow> (nat \<rightharpoonup> real)
     \<Rightarrow> (nat \<rightharpoonup> real)" where
  "band_map mode w_base kwargs [] layer_map = layer_map"
| "band_map mode w_base kwargs ((name, rng) # rest) layer_map =
     (let val = get_target_weight_qwen mode (kwargs_get kwargs name 1.0)
      in band_map mode w_base kwargs rest (assign_all rng (val * w_base) layer_map))"

definition layer_map :: "string \<Rightarrow> real \<Rightarrow> (string \<rightharpoonup> real) \<Rightarrow> (nat \<rightharpoonup> real)" where
  "layer_map mode base_scale kwargs =
     band_map mode (get_target_weight_qwen mode base_scale) kwargs bands Map.empty"

definition live_strength :: "(nat \<rightharpoonup> real) \<Rightarrow> string \<Rightarrow> real option" where
  "live_strength lm key =
     (if str_in ''norm'' key \<or> str_in ''bias'' key then None
      else (case qwen_layer_idx key of
              None \<Rightarrow> None
            | Some idx \<Rightarrow>
                (case lm idx of
                   None \<Rightarrow> None
                 | Some target_scale \<Rightarrow>
                     (let strength = target_scale - 1.0
                      in if strength \<noteq> 0 then Some strength else None))))"

definition tune_qwen ::
  "clip \<Rightarrow> string \<Rightarrow> real \<Rightarrow> (string \<rightharpoonup> real) \<Rightarrow> clip \<times> string" where
  "tune_qwen clip mode base_scale kwargs =
     (case patch_loop (live_strength (layer_map mode base_scale kwargs)) (key_patches clip)
             (patch_calls clip) 0 of
        (calls, active_patches) \<Rightarrow>
          (clip\<lparr>patch_calls := calls\<rparr>,
           ''Qwen Tuned | Active Patches: '' @ str_nat active_patches @ '' | Mode: '' @ mode))"

subsection \<open>The live Qwen Lab tuner (one slider per layer)\<close>

definition live_lab_prefix :: "nat \<Rightarrow> string" where
  "live_lab_prefix i =
     (if i < 9 then ''LLM_Syntax_Parsing''
      else if i < 18 then ''LLM_Literal_Meaning''
      else if i < 27 then ''LLM_Contextual_Web''
      else ''LLM_Abstract_Concept'')"

definition LAYER_CONFIG_live :: "(nat \<times> string) list" where
  "LAYER_CONFIG_live = map (\<lambda>i. (i, live_lab_prefix i @ ''_L'' @ fmt_02d i)) [0..<36]"

fun live_lab_scales ::
  "string \<Rightarrow> (string \<rightharpoonup> real) \<Rightarrow> (nat \<times> string) list \<Rightarrow> (nat \<rightharpoonup> real) \<Rightarrow> (nat \<rightharpoonup> real)" where
  "live_lab_scales mode kwargs [] layer_scales = layer_scales"
| "live_lab_scales mode kwargs ((idx, name) # rest) layer_scales =
     (let val = kwargs_get kwargs name 1.0
      in live_lab_scales mode kwargs rest
           (layer_scales(idx \<mapsto> get_target_weight_qwen mode val)))"

text \<open>
  The target scale of a key starts as \<open>w_base\<close> and is replaced when the key carries a
  known layer index; the flag says whether it was (the counter \<open>modulations\<close>).
\<close>

definition live_lab_target :: "(nat \<rightharpoonup> real) \<Rightarrow> real \<Rightarrow> string \<Rightarrow> real \<times> bool" where
  "live_lab_target layer_scales w_base key =
     (case qwen_layer_idx key of
        None \<Rightarrow> (w_base, False)
      | Some idx \<Rightarrow>
          (case layer_scales idx of
             None \<Rightarrow> (w_base, False)
           | Some layer_scale \<Rightarrow> (layer_scale * w_base, True)))"

fun live_lab_loop ::
  "(nat \<rightharpoonup> real) \<Rightarrow> real \<Rightarrow> (string \<times> pdata) list \<Rightarrow> patch_call list \<Rightarrow> nat \<Rightarrow> nat
     \<Rightarrow> patch_call list \<times> nat \<times> nat" where
  "live_lab_loop layer_scales w_base [] calls active_patches modulations =
     (calls, active_patches, modulations)"
| "live_lab_loop layer_scales w_base ((key, payload) # rest) calls active_patches modulations =
     (if str_in ''norm'' key \<or> str_in ''bias'' key then
        live_lab_loop layer_scales w_base rest calls active_patches modulations
      else
        (case live_lab_target layer_scales w_base key of
           (target_scale, hit) \<Rightarrow>
             (let modulations' = (if hit then modulations + 1 else modulations);
                  strength = target_scale - 1.0
              in if strength \<noteq> 0 then
                   live_lab_loop layer_scales w_base rest (calls @ [(key, payload, strength, 1.0)])
                     (active_patches + 1) modulations'
                 else live_lab_loop layer_scales w_base rest calls active_patches modulations')))"

definition tune_qwen_lab ::
  "clip \<Rightarrow> string \<Rightarrow> real \<Rightarrow> (string \<rightharpoonup> real) \<Rightarrow> clip \<times> string" where
  "tune_qwen_lab clip mode base_scale kwargs =
     (let w_base = get_target_weight_qwen mode base_scale;
          layer_scales = live_lab_scales mode kwargs LAYER_CONFIG_live Map.empty
      in case live_lab_loop layer_scales w_base (key_patches clip) (patch_calls clip) 0 0 of
           (calls, active_patches, modulations) \<Rightarrow>
             (clip\<lparr>patch_calls := calls\<rparr>,
              ''Qwen Lab Active | Mode: '' @ mode @ '' | Patches: '' @ str_nat active_patches
                @ '' | Layers Mod: '' @ str_nat (modulations div 3)))"

text \<open>A small text encoder for the concrete checks.\<close>

definition demo_clip :: clip where
  "demo_clip =
     \<lparr>state_dict =
        [(''model.embed_tokens.weight'', [1, 2]),
         (''model.layers.13.self_attn.q_proj.weight'', [3, 4]),
         (''model.layers.13.input_layernorm.weight'', [5]),
         (''model.layers.13.self_attn.q_proj.bias'', [6])],
      key_patches =
        [(''model.embed_tokens.weight'', PList [PTensor [1, 2]]),
         (''model.layers.13.self_attn.q_proj.weight'', PList [PTensor [3, 4]]),
         (''model.layers.13.input_layernorm.weight'', PList [PTensor [5]]),
         (''model.layers.13.self_attn.q_proj.bias'', PList [PTensor [6]])],
      patch_calls = []\<rparr>"

section \<open>IEEE 754 arithmetic\<close>

text \<open>
  Two computations of the program are followed to the last bit: the strength the Simple
  Qwen tuner computes with Python floats, which are binary64 numbers, and the tensors the
  exporter computes in float32 and writes in float32 or float16. A floating-point value is
  a sign with a magnitude, an infinity, or NaN; there are two zeros, and a single NaN
  (payloads are not modelled). A magnitude is never negative. Every operation computes
  exactly and rounds once, to the nearest value of the format, ties to even, with gradual
  underflow and overflow to infinity.
\<close>

datatype fmt = Binary16 | Binary32 | Binary64

fun prec :: "fmt \<Rightarrow> nat" where
  "prec Binary16 = 11"
| "prec Binary32 = 24"
| "prec Binary64 = 53"

fun emin :: "fmt \<Rightarrow> int" where
  "emin Binary16 = - 14"
| "emin Binary32 = - 126"
| "emin Binary64 = - 1022"

fun emax :: "fmt \<Rightarrow> int" where
  "emax Binary16 = 15"
| "emax Binary32 = 127"
| "emax Binary64 = 1023"

datatype fval = Fin bool real | Inf bool | NaN

text \<open>The number of binary digits of a natural number, and the exponent of a positive real.\<close>

fun bitlen :: "nat \<Rightarrow> nat" where
  "bitlen n = (if n = 0 then 0 else Suc (bitlen (n div 2)))"

declare bitlen.simps [simp del]

definition ilog2 :: "real \<Rightarrow> int" where
  "ilog2 m = (if 1 \<le> m then int (bitlen (nat \<lfloor>m\<rfloor>)) - 1
              else - int (bitlen (nat (\<lceil>1 / m\<rceil> - 1))))"

definition pow2 :: "int \<Rightarrow> real" where
  "pow2 e = (if 0 \<le> e then 2 ^ nat e else 1 / 2 ^ nat (- e))"

definition round_half_even :: "real \<Rightarrow> int" where
  "round_half_even q =
     (let n = \<lfloor>q\<rfloor>; d = q - of_int n
      in if d < 1 / 2 then n else if 1 / 2 < d then n + 1 else if even n then n else n + 1)"

text \<open>
  Rounding a magnitude: the unit in the last place is that of the exponent of the magnitude,
  or of the least exponent of the format for a subnormal result.
\<close>

definition round_mag :: "fmt \<Rightarrow> bool \<Rightarrow> real \<Rightarrow> fval" where
  "round_mag f neg m =
     (if m = 0 then Fin neg 0
      else (let e = max (ilog2 m) (emin f);
                ulp = pow2 (e - int (prec f) + 1);
                r = of_int (round_half_even (m / ulp)) * ulp
            in if pow2 (emax f + 1) \<le> r then Inf neg else Fin neg r))"

definition round_real :: "fmt \<Rightarrow> real \<Rightarrow> fval" where
  "round_real f x = round_mag f (x < 0) \<bar>x\<bar>"

definition signed :: "bool \<Rightarrow> real \<Rightarrow> real" where
  "signed neg m = (if neg then - m else m)"

fun fcast :: "fmt \<Rightarrow> fval \<Rightarrow> fval" where
  "fcast f (Fin s m) = round_mag f s m"
| "fcast f (Inf s) = Inf s"
| "fcast f NaN = NaN"

fun fneg :: "fval \<Rightarrow> fval" where
  "fneg (Fin s m) = Fin (\<not> s) m"
| "fneg (Inf s) = Inf (\<not> s)"
| "fneg NaN = NaN"

fun fadd :: "fmt \<Rightarrow> fval \<Rightarrow> fval \<Rightarrow> fval" where
  "fadd f (Fin s a) (Fin t b) =
     (let x = signed s a + signed t b
      in if x = 0 then Fin (s \<and> t) 0 else round_real f x)"
| "fadd f (Fin s a) (Inf t) = Inf t"
| "fadd f (Inf s) (Fin t b) = Inf s"
| "fadd f (Inf s) (Inf t) = (if s = t then Inf s else NaN)"
| "fadd f NaN y = NaN"
| "fadd f x NaN = NaN"

definition fsub :: "fmt \<Rightarrow> fval \<Rightarrow> fval \<Rightarrow> fval" where
  "fsub f x y = fadd f x (fneg y)"

fun fmul :: "fmt \<Rightarrow> fval \<Rightarrow> fval \<Rightarrow> fval" where
  "fmul f (Fin s a) (Fin t b) = round_mag f (s \<noteq> t) (a * b)"
| "fmul f (Fin s a) (Inf t) = (if a = 0 then NaN else Inf (s \<noteq> t))"
| "fmul f (Inf s) (Fin t b) = (if b = 0 then NaN else Inf (s \<noteq> t))"
| "fmul f (Inf s) (Inf t) = Inf (s \<noteq> t)"
| "fmul f NaN y = NaN"
| "fmul f x NaN = NaN"

text \<open>The comparison \<^verbatim>\<open>x != 0\<close>: both zeros are equal to zero, NaN is not.\<close>

fun ne_zero :: "fval \<Rightarrow> bool" where
  "ne_zero (Fin s m) = (m \<noteq> 0)"
| "ne_zero (Inf s) = True"
| "ne_zero NaN = True"

text \<open>A Python float: the decimal of a literal, or of a slider, rounded to binary64.\<close>

definition py_float :: "real \<Rightarrow> fval" where
  "py_float x = round_real Binary64 x"

section \<open>The Simple Qwen tuner in binary64\<close>

text \<open>
  \<^verbatim>\<open>ArthemyQwenTunerSimple.tune_qwen_simple\<close> once more, with the arithmetic of Python:
  the sliders and the base strength are floats, every product, sum and difference is
  rounded to binary64, and the strengths handed to \<^verbatim>\<open>add_patches\<close> are the floats
  computed. The tensors of the payloads are not computed with.
\<close>

type_synonym patch_call_f64 = "string \<times> pdata \<times> fval \<times> fval"

record clip_f64 =
  state_dict_f64 :: "(string \<times> tensor) list"
  patch_calls_f64 :: "patch_call_f64 list"

definition kwargs_get_f64 :: "(string \<rightharpoonup> fval) \<Rightarrow> string \<Rightarrow> fval \<Rightarrow> fval" where
  "kwargs_get_f64 kwargs name dflt = (case kwargs name of Some v \<Rightarrow> v | None \<Rightarrow> dflt)"

definition get_val_f64 :: "string \<Rightarrow> fval \<Rightarrow> fval" where
  "get_val_f64 mode v =
     (if mode = ''Real Value'' then v
      else fadd Binary64 (py_float 0.8) (fmul Binary64 (py_float 0.2) v))"

fun zone_indices_f64 ::
  "fval \<Rightarrow> fval \<Rightarrow> nat list \<Rightarrow> (nat \<rightharpoonup> fval) \<times> (nat \<rightharpoonup> fval)
     \<Rightarrow> (nat \<rightharpoonup> fval) \<times> (nat \<rightharpoonup> fval)" where
  "zone_indices_f64 final_val w_base [] (layer_scales, debug_layers) =
     (layer_scales, debug_layers)"
| "zone_indices_f64 final_val w_base (idx # rest) (layer_scales, debug_layers) =
     zone_indices_f64 final_val w_base rest
       (layer_scales(idx \<mapsto> final_val),
        debug_layers(idx \<mapsto> fsub Binary64 (fmul Binary64 final_val w_base) (py_float 1.0)))"

fun zone_scales_f64 ::
  "string \<Rightarrow> fval \<Rightarrow> (string \<rightharpoonup> fval) \<Rightarrow> (string \<times> nat list) list
     \<Rightarrow> (nat \<rightharpoonup> fval) \<times> (nat \<rightharpoonup> fval) \<Rightarrow> (nat \<rightharpoonup> fval) \<times> (nat \<rightharpoonup> fval)" where
  "zone_scales_f64 mode w_base kwargs [] maps = maps"
| "zone_scales_f64 mode w_base kwargs ((group_name, layer_range) # rest) maps =
     (let user_val = kwargs_get_f64 kwargs group_name (py_float 1.0);
          final_val = get_val_f64 mode user_val
      in zone_scales_f64 mode w_base kwargs rest
           (zone_indices_f64 final_val w_base layer_range maps))"

definition simple_layer_scales_f64 ::
  "string \<Rightarrow> fval \<Rightarrow> (string \<rightharpoonup> fval) \<Rightarrow> (nat \<rightharpoonup> fval) \<times> (nat \<rightharpoonup> fval)" where
  "simple_layer_scales_f64 mode base_strength kwargs =
     zone_scales_f64 mode (get_val_f64 mode base_strength) kwargs group_inputs
       (Map.empty, Map.empty)"

definition te_target_scale_f64 :: "(nat \<rightharpoonup> fval) \<Rightarrow> fval \<Rightarrow> nat \<Rightarrow> fval option" where
  "te_target_scale_f64 layer_scales w_base idx =
     (case layer_scales idx of
        None \<Rightarrow> None
      | Some layer_scale \<Rightarrow> Some (fmul Binary64 layer_scale w_base))"

definition te_strength_f64 :: "(nat \<rightharpoonup> fval) \<Rightarrow> fval \<Rightarrow> string \<Rightarrow> fval option" where
  "te_strength_f64 layer_scales w_base key =
     (if str_in ''norm'' key \<or> str_in ''bias'' key then None
      else (case qwen_layer_idx key of
              None \<Rightarrow> None
            | Some idx \<Rightarrow>
                (case te_target_scale_f64 layer_scales w_base idx of
                   None \<Rightarrow> None
                 | Some target_scale \<Rightarrow>
                     (let strength = fsub Binary64 target_scale (py_float 1.0)
                      in if ne_zero strength then Some strength else None))))"

fun patch_loop_f64 ::
  "(string \<Rightarrow> fval option) \<Rightarrow> (string \<times> pdata) list \<Rightarrow> patch_call_f64 list \<Rightarrow> nat
     \<Rightarrow> patch_call_f64 list \<times> nat" where
  "patch_loop_f64 strength_of [] calls active_patches = (calls, active_patches)"
| "patch_loop_f64 strength_of ((key, payload) # rest) calls active_patches =
     (case strength_of key of
        None \<Rightarrow> patch_loop_f64 strength_of rest calls active_patches
      | Some strength \<Rightarrow>
          patch_loop_f64 strength_of rest (calls @ [(key, payload, strength, py_float 1.0)])
            (active_patches + 1))"

record debug_map_f64 =
  dbg_base_strength_f64 :: fval
  dbg_mode_f64 :: string
  dbg_layers_f64 :: "nat \<rightharpoonup> fval"

definition tune_qwen_simple_f64 ::
  "clip_f64 \<Rightarrow> string \<Rightarrow> fval \<Rightarrow> (string \<rightharpoonup> fval) \<Rightarrow> clip_f64 \<times> string \<times> debug_map_f64" where
  "tune_qwen_simple_f64 clip mode base_strength kwargs =
     (let w_base = get_val_f64 mode base_strength in
      case simple_layer_scales_f64 mode base_strength kwargs of
        (layer_scales, layers_dbg) \<Rightarrow>
          (case patch_loop_f64 (te_strength_f64 layer_scales w_base)
                  (weight_payloads (state_dict_f64 clip)) (patch_calls_f64 clip) 0 of
             (calls, active_patches) \<Rightarrow>
               (clip\<lparr>patch_calls_f64 := calls\<rparr>,
                ''Simple Tuner (6-Zones) Active | Patches: '' @ str_nat active_patches,
                \<lparr>dbg_base_strength_f64 = base_strength, dbg_mode_f64 = mode,
                 dbg_layers_f64 = layers_dbg\<rparr>)))"

definition demo_clip_f64 :: clip_f64 where
  "demo_clip_f64 =
     \<lparr>state_dict_f64 =
        [(''model.layers.13.self_attn.q_proj.weight'', [3, 4]),
         (''model.layers.13.input_layernorm.weight'', [1]),
         (''model.layers.20.self_attn.q_proj.weight'', [5])],
      patch_calls_f64 = []\<rparr>"

section \<open>The export reconciler\<close>

text \<open>
  \<^verbatim>\<open>ArthemyQwenSaver.save_qwen\<close> reads the keys of a template checkpoint, pairs each with a
  key of the state dictionary in memory, adds the stored patches to the tensor in memory
  and casts the sum. A tensor is a shape with its elements in row-major order (tensors are
  contiguous); an element is a floating-point value, whatever the dtype it is stored in.
  The cast \<^verbatim>\<open>tensor.to(dtype)\<close> rounds every element to the format of the dtype, and the
  operations on float32 tensors round every element of the result to binary32.
\<close>

record ftensor =
  shape :: "nat list"
  elems :: "fval list"

datatype dtype = Float32 | Float16

fun fmt_of :: "dtype \<Rightarrow> fmt" where
  "fmt_of Float32 = Binary32"
| "fmt_of Float16 = Binary16"

definition to_dtype :: "dtype \<Rightarrow> ftensor \<Rightarrow> ftensor" where
  "to_dtype dt t = t\<lparr>elems := map (fcast (fmt_of dt)) (elems t)\<rparr>"

definition numel :: "ftensor \<Rightarrow> nat" where
  "numel t = prod_list (shape t)"

text \<open>
  \<^verbatim>\<open>t.view(new_shape)\<close> keeps the elements of a contiguous tensor under a shape with as many
  elements; \<open>None\<close> is the RuntimeError otherwise.
\<close>

definition view :: "ftensor \<Rightarrow> nat list \<Rightarrow> ftensor option" where
  "view t new_shape = (if prod_list new_shape = numel t then Some (t\<lparr>shape := new_shape\<rparr>) else None)"

text \<open>
  The product of a float32 tensor with a Python float: the scalar is converted to float32,
  and every product is rounded to float32.
\<close>

definition mul_scalar :: "ftensor \<Rightarrow> fval \<Rightarrow> ftensor" where
  "mul_scalar t s = t\<lparr>elems := map (\<lambda>x. fmul Binary32 x (fcast Binary32 s)) (elems t)\<rparr>"

text \<open>
  The sum of two float32 tensors broadcasts: the shorter shape is padded with ones on the
  left, and two sizes of one dimension must be equal unless one of them is 1, which is
  then repeated. \<open>None\<close> is the RuntimeError for shapes that do not broadcast.
\<close>

definition pad_shape :: "nat \<Rightarrow> nat list \<Rightarrow> nat list" where
  "pad_shape n s = replicate (n - length s) 1 @ s"

fun broadcast_shapes :: "nat list \<Rightarrow> nat list \<Rightarrow> nat list option" where
  "broadcast_shapes [] [] = Some []"
| "broadcast_shapes (a # as) (b # bs) =
     (if a = b \<or> b = 1 then map_option (Cons a) (broadcast_shapes as bs)
      else if a = 1 then map_option (Cons b) (broadcast_shapes as bs)
      else None)"
| "broadcast_shapes [] (b # bs) = None"
| "broadcast_shapes (a # as) [] = None"

fun chunks :: "nat \<Rightarrow> nat \<Rightarrow> 'a list \<Rightarrow> 'a list list" where
  "chunks k 0 xs = []"
| "chunks k (Suc n) xs = take k xs # chunks k n (drop k xs)"

text \<open>
  The elements of a tensor of shape \<open>src\<close> expanded to the shape \<open>tgt\<close>, to which \<open>src\<close>
  broadcasts: along a dimension of equal sizes each slice is expanded, along a dimension
  of size 1 the one slice is expanded and repeated.
\<close>

fun expand :: "nat list \<Rightarrow> nat list \<Rightarrow> 'a list \<Rightarrow> 'a list" where
  "expand (s # src) (t # tgt) xs =
     (if s = t then concat (map (expand src tgt) (chunks (prod_list src) s xs))
      else concat (replicate t (expand src tgt xs)))"
| "expand src tgt xs = xs"

definition tensor_add :: "ftensor \<Rightarrow> ftensor \<Rightarrow> ftensor option" where
  "tensor_add a b =
     (let n = max (length (shape a)) (length (shape b));
          sa = pad_shape n (shape a);
          sb = pad_shape n (shape b)
      in case broadcast_shapes sa sb of
           None \<Rightarrow> None
         | Some s \<Rightarrow>
             Some \<lparr>shape = s,
                   elems = map2 (fadd Binary32) (expand sa s (elems a)) (expand sb s (elems b))\<rparr>)"

text \<open>
  A stored patch is a nested Python value: a tensor, a number (as \<^verbatim>\<open>float(x)\<close>), a list or
  tuple, or anything else. The two recursive unpackers return the first tensor and the
  first number.
\<close>

datatype pvalue = VTensor ftensor | VNum fval | VList "pvalue list" | VOther

datatype export_error = TemplateNotFound | ExportFailed

fun find_tensor :: "pvalue \<Rightarrow> ftensor option"
  and find_tensor_list :: "pvalue list \<Rightarrow> ftensor option" where
  "find_tensor (VTensor t) = Some t"
| "find_tensor (VNum r) = None"
| "find_tensor (VList xs) = find_tensor_list xs"
| "find_tensor VOther = None"
| "find_tensor_list [] = None"
| "find_tensor_list (x # xs) =
     (case find_tensor x of Some res \<Rightarrow> Some res | None \<Rightarrow> find_tensor_list xs)"

fun find_strength :: "pvalue \<Rightarrow> fval option"
  and find_strength_list :: "pvalue list \<Rightarrow> fval option" where
  "find_strength (VNum r) = Some r"
| "find_strength (VTensor t) = None"
| "find_strength (VList xs) = find_strength_list xs"
| "find_strength VOther = None"
| "find_strength_list [] = None"
| "find_strength_list (x # xs) =
     (case x of
        VNum r \<Rightarrow> Some r
      | _ \<Rightarrow> (case find_strength x of Some res \<Rightarrow> Some res | None \<Rightarrow> find_strength_list xs))"

definition clean_key :: "string \<Rightarrow> string" where
  "clean_key k = remove_all ''model.'' (remove_all ''qwen3_4b.transformer.'' k)"

fun build_suffix_map :: "string list \<Rightarrow> (string \<rightharpoonup> string) \<Rightarrow> (string \<rightharpoonup> string)" where
  "build_suffix_map [] suffix_map = suffix_map"
| "build_suffix_map (k # rest) suffix_map =
     build_suffix_map rest (suffix_map(clean_key k \<mapsto> k))"

text \<open>
  The patches of one key, added in turn to \<open>weight\<close>, which is a float32 tensor: the
  tensor of the patch is cast to float32, viewed under the shape of the weight when the
  shapes differ and the view is possible, multiplied by the strength and added.
\<close>

fun apply_patches :: "pvalue list \<Rightarrow> ftensor \<Rightarrow> nat \<Rightarrow> (ftensor \<times> nat) option" where
  "apply_patches [] weight count_patched = Some (weight, count_patched)"
| "apply_patches (p_data # rest) weight count_patched =
     (case (find_tensor p_data, find_strength p_data) of
        (Some p_tensor, Some p_strength) \<Rightarrow>
          (let p_float = to_dtype Float32 p_tensor;
               p_viewed = (if shape p_float \<noteq> shape weight
                           then (case view p_float (shape weight) of
                                   Some t \<Rightarrow> t
                                 | None \<Rightarrow> p_float)
                           else p_float)
           in case tensor_add weight (mul_scalar p_viewed p_strength) of
                None \<Rightarrow> None
              | Some weight' \<Rightarrow> apply_patches rest weight' (count_patched + 1))
      | _ \<Rightarrow> apply_patches rest weight count_patched)"

text \<open>The stored patches of a key, looked up under the key in memory, then under the clean key.\<close>

definition found_patches :: "(string \<rightharpoonup> pvalue list) \<Rightarrow> string \<Rightarrow> string \<Rightarrow> pvalue list" where
  "found_patches patches ram_key clean_orig =
     (case patches ram_key of
        Some ps \<Rightarrow> ps
      | None \<Rightarrow> (case patches clean_orig of Some ps \<Rightarrow> ps | None \<Rightarrow> []))"

fun export_loop ::
  "dtype \<Rightarrow> (string \<rightharpoonup> string) \<Rightarrow> (string \<times> ftensor) list \<Rightarrow> (string \<rightharpoonup> pvalue list)
     \<Rightarrow> string list \<Rightarrow> (string \<rightharpoonup> ftensor) \<Rightarrow> nat \<Rightarrow> ((string \<rightharpoonup> ftensor) \<times> nat) option" where
  "export_loop dt suffix_map ram_sd patches [] final_sd count_patched =
     Some (final_sd, count_patched)"
| "export_loop dt suffix_map ram_sd patches (orig_key # rest) final_sd count_patched =
     (let clean_orig = clean_key orig_key in
      case suffix_map clean_orig of
        None \<Rightarrow> export_loop dt suffix_map ram_sd patches rest final_sd count_patched
      | Some ram_key \<Rightarrow>
          (case map_of ram_sd ram_key of
             None \<Rightarrow> None
           | Some ram_weight \<Rightarrow>
               (let weight = to_dtype Float32 ram_weight
                in case apply_patches (found_patches patches ram_key clean_orig) weight
                          count_patched of
                     None \<Rightarrow> None
                   | Some (weight', count') \<Rightarrow>
                       export_loop dt suffix_map ram_sd patches rest
                         (final_sd(orig_key \<mapsto> to_dtype dt weight')) count')))"

definition dtype_of :: "string \<Rightarrow> dtype" where
  "dtype_of save_precision = (if save_precision = ''fp32'' then Float32 else Float16)"

text \<open>
  The method: \<open>template\<close> is the list of keys of the template file, \<open>None\<close> when the
  file is not found. The result is the dictionary written to the new file, with
  \<open>count_patched\<close>; an exception raised on the way is caught, and no file is written.
\<close>

definition save_qwen ::
  "string list option \<Rightarrow> (string \<times> ftensor) list \<Rightarrow> (string \<rightharpoonup> pvalue list) \<Rightarrow> string
     \<Rightarrow> export_error + ((string \<rightharpoonup> ftensor) \<times> nat)" where
  "save_qwen template ram_sd patches save_precision =
     (case template of
        None \<Rightarrow> Inl TemplateNotFound
      | Some original_keys \<Rightarrow>
          (case export_loop (dtype_of save_precision)
                  (build_suffix_map (map fst ram_sd) Map.empty) ram_sd patches original_keys
                  Map.empty 0 of
             None \<Rightarrow> Inl ExportFailed
           | Some r \<Rightarrow> Inr r))"

subsection \<open>What the export is expected to write\<close>

text \<open>
  A tensor is well formed when it has as many elements as its shape says. The sum
  \<open>weight + reference * strength\<close> of two tensors with as many elements, element by
  element in float32, and the accumulation of a list of patches on a tensor in memory.
\<close>

definition well_formed :: "ftensor \<Rightarrow> bool" where
  "well_formed t = (length (elems t) = numel t)"

definition add_scaled :: "ftensor \<Rightarrow> ftensor \<times> fval \<Rightarrow> ftensor" where
  "add_scaled w p =
     \<lparr>shape = shape w,
      elems = map2 (\<lambda>x y. fadd Binary32 x (fmul Binary32 (fcast Binary32 y)
                                               (fcast Binary32 (snd p))))
                (elems w) (elems (fst p))\<rparr>"

definition accumulated :: "ftensor \<Rightarrow> (ftensor \<times> fval) list \<Rightarrow> ftensor" where
  "accumulated v rs = foldl add_scaled (to_dtype Float32 v) rs"

definition patch_of :: "ftensor \<Rightarrow> pvalue \<Rightarrow> ftensor \<times> fval \<Rightarrow> bool" where
  "patch_of v p_data p =
     (find_tensor p_data = Some (fst p) \<and> find_strength p_data = Some (snd p)
      \<and> numel (fst p) = numel v \<and> well_formed (fst p))"

text \<open>The patch entry the host stores for \<^verbatim>\<open>add_patches({key: (v,)}, strength, 1.0)\<close>.\<close>

definition demo_patch :: "ftensor \<Rightarrow> fval \<Rightarrow> pvalue" where
  "demo_patch v strength = VList [VNum strength, VList [VTensor v], VNum (py_float 1.0), VOther, VOther]"

definition demo_tensor :: ftensor where
  "demo_tensor = \<lparr>shape = [2], elems = [Fin False 1, Fin False 2]\<rparr>"

definition unit_tensor :: ftensor where
  "unit_tensor = \<lparr>shape = [1], elems = [Fin False 1]\<rparr>"

section \<open>Properties of the live Z-Image tuners\<close>

lemma block_addrs_Nil [simp]: "block_addrs [] = {}"
  by (simp add: block_addrs_def)

lemma block_addrs_Cons [simp]:
  "block_addrs ((name, m) # rest) =
     (case m of Linear a \<Rightarrow> insert a (block_addrs rest) | Other \<Rightarrow> block_addrs rest)"
  by (auto simp: block_addrs_def split: module.splits)

lemma governed_Nil [simp]: "governed [] = {}"
  by (simp add: governed_def)

lemma governed_Cons [simp]: "governed (blk # rest) = block_addrs blk \<union> governed rest"
  by (simp add: governed_def)

lemma restore_block_outside:
  "a \<notin> block_addrs blk \<Longrightarrow> restore_block d blk h a = h a"
  by (induction d blk h rule: restore_block.induct) (auto split: module.splits option.splits)

lemma restore_block_inside:
  "covers_block d blk \<Longrightarrow> a \<in> block_addrs blk \<Longrightarrow>
     restore_block d blk h a = restore_block d blk h' a"
proof (induction blk arbitrary: h h')
  case Nil
  then show ?case by simp
next
  case (Cons p rest)
  obtain name m where p: "p = (name, m)" by (cases p)
  show ?case
  proof (cases m)
    case Other
    with Cons p show ?thesis by simp
  next
    case (Linear b)
    with Cons.prems p obtain w where w: "d name = Some w" by auto
    show ?thesis
    proof (cases "a \<in> block_addrs rest")
      case True
      with Cons p Linear w show ?thesis by simp
    next
      case False
      with Cons.prems p Linear have "a = b" by simp
      with False p Linear w show ?thesis by (simp add: restore_block_outside)
    qed
  qed
qed

lemma restore_model_outside:
  "a \<notin> governed container \<Longrightarrow> restore_model mb i container h a = h a"
  by (induction mb i container h rule: restore_model.induct)
     (auto simp: restore_block_outside split: option.splits)

lemma restore_model_inside:
  "covers_model mb i container \<Longrightarrow> a \<in> governed container \<Longrightarrow>
     restore_model mb i container h a = restore_model mb i container h' a"
proof (induction container arbitrary: i h h')
  case Nil
  then show ?case by simp
next
  case (Cons blk rest)
  from Cons.prems obtain d where d: "mb i = Some d" "covers_block d blk" "covers_model mb (Suc i) rest"
    by (auto split: option.splits)
  show ?case
  proof (cases "a \<in> governed rest")
    case True
    with Cons.IH d show ?thesis by simp
  next
    case False
    with Cons.prems have "a \<in> block_addrs blk" by simp
    with False d show ?thesis
      by (simp add: restore_model_outside restore_block_inside [of d blk a h h'])
  qed
qed

lemma restore_model_agree:
  assumes "covers_model mb i container" and "\<And>a. a \<notin> governed container \<Longrightarrow> h a = h' a"
  shows "restore_model mb i container h = restore_model mb i container h'"
proof
  fix a
  show "restore_model mb i container h a = restore_model mb i container h' a"
  proof (cases "a \<in> governed container")
    case True
    with assms(1) show ?thesis by (rule restore_model_inside)
  next
    case False
    with assms(2) show ?thesis by (simp add: restore_model_outside)
  qed
qed

lemma scale_block_outside:
  "a \<notin> block_addrs blk \<Longrightarrow> fst (scale_block scale blk (h, n)) a = h a"
  by (induction scale blk "(h, n)" arbitrary: h n rule: scale_block.induct)
     (auto split: module.splits)

lemma inject_outside:
  "a \<notin> governed container \<Longrightarrow> fst (inject scale_of i container (h, n)) a = h a"
proof (induction container arbitrary: i h n)
  case Nil
  then show ?case by simp
next
  case (Cons blk rest)
  then show ?case
    using scale_block_outside [of a blk "scale_of i" h 0]
    by (auto simp: Let_def split: prod.splits)
qed

lemma backup_block_keeps: "lb name \<noteq> None \<Longrightarrow> backup_block h blk lb name \<noteq> None"
  by (induction h blk lb rule: backup_block.induct) (auto split: module.splits)

lemma backup_block_covers: "covers_block (backup_block h blk lb) blk"
proof (induction blk arbitrary: lb)
  case Nil
  show ?case by simp
next
  case (Cons p rest)
  obtain name m where p: "p = (name, m)" by (cases p)
  show ?case
    using Cons.IH p by (cases m) (simp_all add: backup_block_keeps)
qed

lemma backup_model_below: "j < i \<Longrightarrow> backup_model h i container cache j = cache j"
  by (induction h i container cache rule: backup_model.induct) auto

lemma backup_model_covers: "covers_model (backup_model h i container cache) i container"
proof (induction container arbitrary: i cache)
  case Nil
  show ?case by simp
next
  case (Cons blk rest)
  show ?case
    using Cons.IH [of "Suc i"] by (simp add: backup_model_below backup_block_covers)
qed

lemma tune_phases_cache:
  "BACKUP_CACHE (fst (tune_phases f model_id container s)) =
     (if BACKUP_CACHE s model_id = None
      then (BACKUP_CACHE s)(model_id \<mapsto> backup_model (heap s) 0 container Map.empty)
      else BACKUP_CACHE s)"
  by (simp add: tune_phases_def Let_def split: prod.splits)

lemma tune_phases_outside:
  assumes "a \<notin> governed container"
  shows "heap (fst (tune_phases f model_id container s)) a = heap s a"
proof -
  define cache where "cache =
     (if BACKUP_CACHE s model_id = None
      then (BACKUP_CACHE s)(model_id \<mapsto> backup_model (heap s) 0 container Map.empty)
      else BACKUP_CACHE s)"
  define restored where "restored =
     (case cache model_id of
        Some model_backup \<Rightarrow> restore_model model_backup 0 container (heap s)
      | None \<Rightarrow> heap s)"
  have r: "restored a = heap s a"
    using assms by (simp add: restored_def restore_model_outside split: option.splits)
  have "heap (fst (tune_phases f model_id container s)) =
          fst (inject f 0 container (restored, 0))"
    by (simp add: tune_phases_def Let_def cache_def restored_def split: prod.splits)
  with r assms show ?thesis by (simp add: inject_outside)
qed

lemma tune_phases_covered:
  assumes "cache_ok s model_id container"
  shows "\<exists>mb. BACKUP_CACHE (fst (tune_phases f model_id container s)) model_id = Some mb
            \<and> covers_model mb 0 container"
  using assms
  by (auto simp: tune_phases_cache cache_ok_def backup_model_covers split: option.splits)

lemma tune_phases_eq:
  assumes "BACKUP_CACHE s model_id = Some mb" and "BACKUP_CACHE s' = BACKUP_CACHE s"
    and "restore_model mb 0 container (heap s') = restore_model mb 0 container (heap s)"
  shows "tune_phases g model_id container s' = tune_phases g model_id container s"
  using assms by (simp add: tune_phases_def Let_def)

lemma tune_phases_unseen:
  assumes "BACKUP_CACHE s model_id = None"
  shows "tune_phases g model_id container s =
         tune_phases g model_id container
           (s\<lparr>BACKUP_CACHE :=
                (BACKUP_CACHE s)(model_id \<mapsto> backup_model (heap s) 0 container Map.empty)\<rparr>)"
  using assms by (simp add: tune_phases_def Let_def)

lemma tune_phases_after:
  assumes "cache_ok s model_id container"
  shows "tune_phases g model_id container (fst (tune_phases f model_id container s)) =
         tune_phases g model_id container s"
proof -
  define s1 where "s1 = fst (tune_phases f model_id container s)"
  from assms obtain mb where mb: "BACKUP_CACHE s1 model_id = Some mb"
    "covers_model mb 0 container"
    unfolding s1_def using tune_phases_covered by blast
  have "\<And>a. a \<notin> governed container \<Longrightarrow> heap s1 a = heap s a"
    unfolding s1_def by (rule tune_phases_outside)
  with mb(2) have agree:
    "restore_model mb 0 container (heap s1) = restore_model mb 0 container (heap s)"
    by (rule restore_model_agree)
  have c1: "BACKUP_CACHE s1 =
     (if BACKUP_CACHE s model_id = None
      then (BACKUP_CACHE s)(model_id \<mapsto> backup_model (heap s) 0 container Map.empty)
      else BACKUP_CACHE s)"
    unfolding s1_def by (rule tune_phases_cache)
  show ?thesis
  proof (cases "BACKUP_CACHE s model_id")
    case (Some mb')
    with c1 have same: "BACKUP_CACHE s1 = BACKUP_CACHE s" by simp
    with mb(1) have "BACKUP_CACHE s model_id = Some mb" by simp
    from this same agree have "tune_phases g model_id container s1 =
        tune_phases g model_id container s"
      by (rule tune_phases_eq)
    then show ?thesis by (simp only: s1_def)
  next
    case None
    define s0 where "s0 = s\<lparr>BACKUP_CACHE :=
        (BACKUP_CACHE s)(model_id \<mapsto> backup_model (heap s) 0 container Map.empty)\<rparr>"
    have s0: "BACKUP_CACHE s1 = BACKUP_CACHE s0" "heap s0 = heap s"
      using None c1 by (simp_all add: s0_def)
    have "tune_phases g model_id container s = tune_phases g model_id container s0"
      unfolding s0_def using None by (rule tune_phases_unseen)
    moreover have "tune_phases g model_id container s1 = tune_phases g model_id container s0"
    proof (rule tune_phases_eq)
      show "BACKUP_CACHE s0 model_id = Some mb" using mb(1) s0(1) by simp
      show "BACKUP_CACHE s1 = BACKUP_CACHE s0" by (rule s0(1))
      show "restore_model mb 0 container (heap s1) = restore_model mb 0 container (heap s0)"
        using agree s0(2) by simp
    qed
    ultimately show ?thesis by (simp only: s1_def)
  qed
qed


lemma tune_phases_restores_then_scales:
  assumes "BACKUP_CACHE (fst (tune_phases f model_id container s)) model_id = Some mb"
  shows "heap (fst (tune_phases f model_id container s)) =
           fst (inject f 0 container (restore_model mb 0 container (heap s), 0))"
  using assms by (auto simp: tune_phases_def Let_def split: prod.splits if_splits)

lemma backup_ok_unseen: "BACKUP_CACHE s = Map.empty \<Longrightarrow> backup_ok s model"
  by (simp add: backup_ok_def cache_ok_def split: option.splits)

lemma tune_zimage_found:
  assumes "diffusion_model model = Some backbone" and "layer_container backbone = Some container"
  shows "tune_zimage model mode base_scale kwargs s =
     (fst (tune_phases (zimage_scale mode base_scale kwargs) (ident backbone) container s),
      ''Z-Image Active | Mode: '' @ mode @ '' | Layers Modulated: '' @
        str_nat (snd (tune_phases (zimage_scale mode base_scale kwargs) (ident backbone)
                   container s)))"
  using assms by (simp add: tune_zimage_def split: prod.splits)

lemma tune_zimage_lab_found:
  assumes "diffusion_model model = Some backbone" and "layer_container backbone = Some container"
  shows "tune_zimage_lab model mode base_scale kwargs s =
     (fst (tune_phases (zimage_lab_scale mode base_scale kwargs) (ident backbone) container s),
      ''Z-Image Lab | Mode: '' @ mode @ '' | Layers Modulated: '' @
        str_nat (snd (tune_phases (zimage_lab_scale mode base_scale kwargs) (ident backbone)
                   container s)))"
  using assms by (simp add: tune_zimage_lab_def split: prod.splits)

lemma tune_zimage_after:
  assumes "backup_ok s model"
  shows "tune_zimage model mode_b base_b kwargs_b (fst (tune_zimage model mode_a base_a kwargs_a s))
         = tune_zimage model mode_b base_b kwargs_b s"
proof (cases "diffusion_model model")
  case None
  then show ?thesis by (simp add: tune_zimage_def)
next
  case (Some backbone)
  note bb = this
  show ?thesis
  proof (cases "layer_container backbone")
    case None
    with bb show ?thesis by (simp add: tune_zimage_def)
  next
    case (Some container)
    with assms bb have "cache_ok s (ident backbone) container" by (simp add: backup_ok_def)
    then have "tune_phases (zimage_scale mode_b base_b kwargs_b) (ident backbone) container
                 (fst (tune_phases (zimage_scale mode_a base_a kwargs_a) (ident backbone) container s))
               = tune_phases (zimage_scale mode_b base_b kwargs_b) (ident backbone) container s"
      by (rule tune_phases_after)
    then show ?thesis by (simp add: tune_zimage_found [OF bb Some])
  qed
qed

lemma tune_zimage_lab_after:
  assumes "backup_ok s model"
  shows "tune_zimage_lab model mode_b base_b kwargs_b
           (fst (tune_zimage_lab model mode_a base_a kwargs_a s))
         = tune_zimage_lab model mode_b base_b kwargs_b s"
proof (cases "diffusion_model model")
  case None
  then show ?thesis by (simp add: tune_zimage_lab_def)
next
  case (Some backbone)
  note bb = this
  show ?thesis
  proof (cases "layer_container backbone")
    case None
    with bb show ?thesis by (simp add: tune_zimage_lab_def)
  next
    case (Some container)
    with assms bb have "cache_ok s (ident backbone) container" by (simp add: backup_ok_def)
    then have "tune_phases (zimage_lab_scale mode_b base_b kwargs_b) (ident backbone) container
                 (fst (tune_phases (zimage_lab_scale mode_a base_a kwargs_a) (ident backbone)
                         container s))
               = tune_phases (zimage_lab_scale mode_b base_b kwargs_b) (ident backbone) container s"
      by (rule tune_phases_after)
    then show ?thesis by (simp add: tune_zimage_lab_found [OF bb Some])
  qed
qed

lemma cache_ok_kept:
  assumes "cache_ok s model_id container"
  shows "cache_ok (fst (tune_phases f model_id container s)) model_id container"
  using tune_phases_covered [OF assms, of f] by (auto simp: cache_ok_def)

lemma backup_ok_kept:
  assumes "backup_ok s model"
  shows "backup_ok (fst (tune_zimage model mode base_scale kwargs s)) model"
proof (cases "diffusion_model model")
  case None
  then show ?thesis by (simp add: backup_ok_def)
next
  case (Some backbone)
  note bb = this
  show ?thesis
  proof (cases "layer_container backbone")
    case None
    with bb show ?thesis by (simp add: backup_ok_def)
  next
    case (Some container)
    with assms bb have "cache_ok s (ident backbone) container" by (simp add: backup_ok_def)
    then show ?thesis
      by (simp add: tune_zimage_found [OF bb Some] backup_ok_def bb Some cache_ok_kept)
  qed
qed

lemma backup_ok_kept_lab:
  assumes "backup_ok s model"
  shows "backup_ok (fst (tune_zimage_lab model mode base_scale kwargs s)) model"
proof (cases "diffusion_model model")
  case None
  then show ?thesis by (simp add: backup_ok_def)
next
  case (Some backbone)
  note bb = this
  show ?thesis
  proof (cases "layer_container backbone")
    case None
    with bb show ?thesis by (simp add: backup_ok_def)
  next
    case (Some container)
    with assms bb have "cache_ok s (ident backbone) container" by (simp add: backup_ok_def)
    then show ?thesis
      by (simp add: tune_zimage_lab_found [OF bb Some] backup_ok_def bb Some cache_ok_kept)
  qed
qed

text \<open>
  C7. When none of the attributes \<^verbatim>\<open>layers\<close>, \<^verbatim>\<open>joint_blocks\<close>, \<^verbatim>\<open>blocks\<close> exists on
  the backbone, both live tuners return the state as it was (every tensor and the backup
  cache unchanged) with the diagnostic string; so they do, with another string, when the
  backbone itself cannot be reached. The result is an ordinary value: nothing is raised.
\<close>

theorem structure_not_found_returns_unchanged:
  "(diffusion_model model = Some backbone
      \<and> layers backbone = None \<and> joint_blocks backbone = None \<and> blocks backbone = None
    \<longrightarrow> tune_zimage model mode base_scale kwargs s = (s, ''Error: Unknown Model Structure'')
      \<and> tune_zimage_lab model mode base_scale kwargs s = (s, ''Error: Unknown Model Structure''))
   \<and> (diffusion_model model = None
    \<longrightarrow> tune_zimage model mode base_scale kwargs s = (s, ''Error: Model Access Failed'')
      \<and> tune_zimage_lab model mode base_scale kwargs s = (s, ''Error: Model Access Failed''))"
  by (simp add: tune_zimage_def tune_zimage_lab_def layer_container_def)

theorem structure_not_found_witness:
  "tune_zimage no_container_model ''Soft Value'' 1.5 Map.empty demo_state
     = (demo_state, ''Error: Unknown Model Structure'')
   \<and> tune_zimage_lab no_container_model ''Soft Value'' 1.5 Map.empty demo_state
     = (demo_state, ''Error: Unknown Model Structure'')
   \<and> tune_zimage \<lparr>diffusion_model = None\<rparr> ''Soft Value'' 1.5 Map.empty demo_state
     = (demo_state, ''Error: Model Access Failed'')
   \<and> tune_zimage_lab \<lparr>diffusion_model = None\<rparr> ''Soft Value'' 1.5 Map.empty demo_state
     = (demo_state, ''Error: Model Access Failed'')"
  using structure_not_found_returns_unchanged
          [of no_container_model
              "\<lparr>ident = 9, layers = None, joint_blocks = None, blocks = None\<rparr>"
              "''Soft Value''" "1.5" Map.empty demo_state]
        structure_not_found_returns_unchanged
          [of "\<lparr>diffusion_model = None\<rparr>" _ "''Soft Value''" "1.5" Map.empty demo_state]
  by (simp add: no_container_model_def)

text \<open>
  C1. On a state whose backup cache is sound for the model (not seen yet, or backed up
  from this container), tuning twice with the same inputs leaves exactly the state, and
  the status string, of tuning once. This holds for both live tuners. The hypothesis
  holds of every model in a fresh process (\<open>backup_ok_unseen\<close>) and each call keeps it
  (\<open>backup_ok_kept\<close>, \<open>backup_ok_kept_lab\<close>).
\<close>

theorem tune_twice_same_as_once:
  assumes "backup_ok s model"
  shows "tune_zimage model mode base_scale kwargs
           (fst (tune_zimage model mode base_scale kwargs s))
         = tune_zimage model mode base_scale kwargs s
       \<and> tune_zimage_lab model mode base_scale kwargs
           (fst (tune_zimage_lab model mode base_scale kwargs s))
         = tune_zimage_lab model mode base_scale kwargs s"
  using assms by (simp add: tune_zimage_after tune_zimage_lab_after)

theorem tune_twice_witness:
  "backup_ok demo_state demo_model
   \<and> heap (fst (tune_zimage demo_model ''Real Value'' 1.0 [''STAGE_1_Semantic_Seeding'' \<mapsto> 2]
          (fst (tune_zimage demo_model ''Real Value'' 1.0 [''STAGE_1_Semantic_Seeding'' \<mapsto> 2]
                  demo_state)))) 0 = [2, 4]
   \<and> heap (fst (tune_zimage_lab demo_model ''Real Value'' 1.0
                  [''STAGE_1_Semantic_Seeding_L00'' \<mapsto> 2]
          (fst (tune_zimage_lab demo_model ''Real Value'' 1.0
                  [''STAGE_1_Semantic_Seeding_L00'' \<mapsto> 2] demo_state)))) 0 = [2, 4]"
proof -
  have ok: "backup_ok demo_state demo_model"
    by (simp add: backup_ok_unseen demo_state_def)
  have once: "heap (fst (tune_zimage demo_model ''Real Value'' 1.0
                  [''STAGE_1_Semantic_Seeding'' \<mapsto> 2] demo_state)) 0 = [2, 4]"
    by (simp add: tune_zimage_def demo_model_def demo_state_def demo_container_def
          layer_container_def tune_phases_def zimage_scale_def layer_weights_def GROUP_MAP_def
          kwargs_get_def get_target_weight_def tensor_mul_def upt_rec Let_def)
  have once_lab: "heap (fst (tune_zimage_lab demo_model ''Real Value'' 1.0
                  [''STAGE_1_Semantic_Seeding_L00'' \<mapsto> 2] demo_state)) 0 = [2, 4]"
    by (simp add: tune_zimage_lab_def demo_model_def demo_state_def demo_container_def
          layer_container_def tune_phases_def zimage_lab_scale_def LAYER_TO_NAME_MAP_def
          GROUP_MAP_def kwargs_get_def get_target_weight_def tensor_mul_def upt_rec fmt_02d_def
          str_nat.simps digit_char_def Let_def)
  from tune_twice_same_as_once [OF ok] once once_lab ok show ?thesis by simp
qed

text \<open>
  C4. On a state whose backup cache is sound for the model, tuning with inputs A and then
  with inputs B leaves exactly the state, and the status string, of tuning with B alone:
  the second call restores from the snapshot, so nothing of A survives. This holds for
  both live tuners.
\<close>

theorem tune_a_then_b_same_as_b:
  assumes "backup_ok s model"
  shows "tune_zimage model mode_b base_b kwargs_b
           (fst (tune_zimage model mode_a base_a kwargs_a s))
         = tune_zimage model mode_b base_b kwargs_b s
       \<and> tune_zimage_lab model mode_b base_b kwargs_b
           (fst (tune_zimage_lab model mode_a base_a kwargs_a s))
         = tune_zimage_lab model mode_b base_b kwargs_b s"
  using assms by (simp add: tune_zimage_after tune_zimage_lab_after)

theorem tune_a_then_b_witness:
  "backup_ok demo_state demo_model
   \<and> heap (fst (tune_zimage demo_model ''Real Value'' 1.0 [''STAGE_1_Semantic_Seeding'' \<mapsto> 0.5]
          (fst (tune_zimage demo_model ''Soft Value'' 1.5 [''STAGE_1_Semantic_Seeding'' \<mapsto> 2]
                  demo_state)))) 2 = [2, 2.5]
   \<and> heap (fst (tune_zimage_lab demo_model ''Real Value'' 1.0
                  [''STAGE_1_Semantic_Seeding_L01'' \<mapsto> 0.5]
          (fst (tune_zimage_lab demo_model ''Soft Value'' 1.5
                  [''STAGE_1_Semantic_Seeding_L01'' \<mapsto> 2] demo_state)))) 2 = [2, 2.5]"
proof -
  have ok: "backup_ok demo_state demo_model"
    by (simp add: backup_ok_unseen demo_state_def)
  have b: "heap (fst (tune_zimage demo_model ''Real Value'' 1.0
                  [''STAGE_1_Semantic_Seeding'' \<mapsto> 0.5] demo_state)) 2 = [2, 2.5]"
    by (simp add: tune_zimage_def demo_model_def demo_state_def demo_container_def
          layer_container_def tune_phases_def zimage_scale_def layer_weights_def GROUP_MAP_def
          kwargs_get_def get_target_weight_def tensor_mul_def upt_rec Let_def)
  have b_lab: "heap (fst (tune_zimage_lab demo_model ''Real Value'' 1.0
                  [''STAGE_1_Semantic_Seeding_L01'' \<mapsto> 0.5] demo_state)) 2 = [2, 2.5]"
    by (simp add: tune_zimage_lab_def demo_model_def demo_state_def demo_container_def
          layer_container_def tune_phases_def zimage_lab_scale_def LAYER_TO_NAME_MAP_def
          GROUP_MAP_def kwargs_get_def get_target_weight_def tensor_mul_def upt_rec fmt_02d_def
          str_nat.simps digit_char_def Let_def)
  from tune_a_then_b_same_as_b [OF ok] b b_lab ok show ?thesis by simp
qed

section \<open>Properties of the loops over keys\<close>

lemma tune_loop_map:
  "fst (tune_loop f u sd c k) = map (\<lambda>(key, t). (key, new_tensor f u key t)) sd"
  by (induction f u sd c k rule: tune_loop.induct)
     (auto simp: new_tensor_def split: prod.splits)

lemma tune_loop_nth:
  assumes "i < length sd" and "sd ! i = (key, t)"
  shows "fst (tune_loop f u sd c k) ! i = (key, new_tensor f u key t)"
  using assms by (simp add: tune_loop_map)

lemma patch_loop_calls:
  "fst (patch_loop f es calls n) =
     calls @ map (\<lambda>(key, payload). (key, payload, the (f key), 1.0))
               (filter (\<lambda>(key, payload). f key \<noteq> None) es)"
  by (induction f es calls n rule: patch_loop.induct) (auto split: option.splits)

lemma live_lab_loop_calls:
  "fst (live_lab_loop ls w es calls n m) =
     calls @ map (\<lambda>(key, payload). (key, payload, fst (live_lab_target ls w key) - 1.0, 1.0))
               (filter (\<lambda>(key, payload). \<not> (str_in ''norm'' key \<or> str_in ''bias'' key)
                          \<and> fst (live_lab_target ls w key) - 1.0 \<noteq> 0) es)"
  by (induction ls w es calls n m rule: live_lab_loop.induct)
     (auto simp: Let_def split: prod.splits)


lemma new_calls:
  "drop (length calls) (fst (patch_loop f es calls n)) =
     map (\<lambda>(key, payload). (key, payload, the (f key), 1.0))
         (filter (\<lambda>(key, payload). f key \<noteq> None) es)"
  by (simp add: patch_loop_calls)

lemma patch_loop_skips:
  assumes "f key = None"
  shows "key \<notin> fst ` set (drop (length calls) (fst (patch_loop f es calls n)))"
  using assms by (auto simp: new_calls)

lemma patch_loop_registers:
  assumes "(key, payload) \<in> set es" and "f key = Some strength"
  shows "(key, payload, strength, 1.0) \<in> set (fst (patch_loop f es calls n))"
proof -
  let ?g = "\<lambda>(key, payload). (key, payload, the (f key), 1.0::real)"
  from assms have "(key, payload) \<in> set (filter (\<lambda>(key, payload). f key \<noteq> None) es)"
    by simp
  then have "?g (key, payload) \<in> ?g ` set (filter (\<lambda>(key, payload). f key \<noteq> None) es)"
    by (rule imageI)
  with assms(2) show ?thesis by (simp add: patch_loop_calls)
qed

lemma tune_qwen_simple_calls:
  "patch_calls (fst (tune_qwen_simple clip mode base_strength kwargs)) =
     fst (patch_loop (te_strength (fst (simple_layer_scales mode base_strength kwargs))
                        (get_val_qwen mode base_strength))
            (weight_payloads (state_dict clip)) (patch_calls clip) 0)"
  by (simp add: tune_qwen_simple_def Let_def split: prod.splits)

lemma tune_qwen_lab_te_calls:
  "patch_calls (fst (tune_qwen_lab_te clip mode base_strength kwargs)) =
     fst (patch_loop (te_strength (fst (lab_layer_scales_qwen mode base_strength kwargs))
                        (get_val_qwen mode base_strength))
            (weight_payloads (state_dict clip)) (patch_calls clip) 0)"
  by (simp add: tune_qwen_lab_te_def Let_def split: prod.splits)

lemma tune_qwen_calls:
  "patch_calls (fst (tune_qwen clip mode base_scale kwargs)) =
     fst (patch_loop (live_strength (layer_map mode base_scale kwargs)) (key_patches clip)
            (patch_calls clip) 0)"
  by (simp add: tune_qwen_def split: prod.splits)

lemma tune_qwen_lab_calls:
  "patch_calls (fst (tune_qwen_lab clip mode base_scale kwargs)) =
     fst (live_lab_loop (live_lab_scales mode kwargs LAYER_CONFIG_live Map.empty)
            (get_target_weight_qwen mode base_scale) (key_patches clip) (patch_calls clip) 0 0)"
  by (simp add: tune_qwen_lab_def Let_def split: prod.splits)

section \<open>Properties of the scale maps and of key resolution\<close>

lemma assign_all_lookup:
  "assign_all rng v m i = (if i \<in> set rng then Some v else m i)"
  by (induction rng arbitrary: m) simp_all

lemma zone_indices_lookup:
  "fst (zone_indices final_val w_base rng (ls, dl)) i =
     (if i \<in> set rng then Some final_val else ls i)"
  by (induction rng arbitrary: ls dl) simp_all

lemma zone_indices_pair:
  "zone_indices final_val w_base rng maps =
     (fst (zone_indices final_val w_base rng maps), snd (zone_indices final_val w_base rng maps))"
  by simp

lemma zimage_scale_group:
  assumes "(name, rng) \<in> set GROUP_MAP" and "i \<in> set rng"
  shows "zimage_scale mode base_scale kwargs i =
           get_target_weight mode (kwargs_get kwargs name 1.0) * get_target_weight mode base_scale"
proof -
  from assms(1) have "(name, rng) = (''STAGE_1_Semantic_Seeding'', [0..<6])
      \<or> (name, rng) = (''STAGE_2_Spatial_Layout'', [6..<12])
      \<or> (name, rng) = (''STAGE_3_Morphological_Form'', [12..<18])
      \<or> (name, rng) = (''STAGE_4_Volumetric_Lighting'', [18..<24])
      \<or> (name, rng) = (''STAGE_5_Surface_Refinement'', [24..<30])"
    by (simp add: GROUP_MAP_def del: upt_rec_numeral)
  then show ?thesis
    using assms(2)
    by (elim disjE)
       (simp_all add: zimage_scale_def layer_weights_def GROUP_MAP_def Let_def assign_all_lookup
          del: upt_rec_numeral)
qed

lemma lab_names_nonempty:
  assumes "\<And>j n. names j = Some n \<Longrightarrow> n \<noteq> []" and "lab_names grp rng names i = Some name"
  shows "name \<noteq> []"
  using assms
proof (induction grp rng names rule: lab_names.induct)
  case (1 grp names)
  then show ?case by simp
next
  case (2 grp j rest names)
  show ?case
  proof (rule "2.IH")
    show "lab_names grp rest (names(j \<mapsto> grp @ ''_L'' @ fmt_02d j)) i = Some name"
      using "2.prems"(2) by simp
    fix k n assume "(names(j \<mapsto> grp @ ''_L'' @ fmt_02d j)) k = Some n"
    then show "n \<noteq> []" using "2.prems"(1) by (auto split: if_splits)
  qed
qed

lemma lab_groups_nonempty:
  assumes "\<And>j n. names j = Some n \<Longrightarrow> n \<noteq> []" and "lab_groups gs names i = Some name"
  shows "name \<noteq> []"
  using assms
proof (induction gs names rule: lab_groups.induct)
  case (1 names)
  then show ?case by simp
next
  case (2 grp rng rest names)
  show ?case
  proof (rule "2.IH")
    show "lab_groups rest (lab_names grp rng names) i = Some name" using "2.prems"(2) by simp
    fix k n assume "lab_names grp rng names k = Some n"
    with "2.prems"(1) show "n \<noteq> []" by (rule lab_names_nonempty)
  qed
qed

lemma zimage_lab_scale_name:
  assumes "LAYER_TO_NAME_MAP i = Some name"
  shows "zimage_lab_scale mode base_scale kwargs i =
           get_target_weight mode (kwargs_get kwargs name 1.0) * get_target_weight mode base_scale"
proof -
  have "name \<noteq> []"
    using assms unfolding LAYER_TO_NAME_MAP_def by (rule lab_groups_nonempty [rotated]) simp
  with assms show ?thesis by (simp add: zimage_lab_scale_def Let_def)
qed

lemma simple_scales_zone:
  assumes "(name, rng) \<in> set group_inputs" and "i \<in> set rng"
  shows "fst (simple_layer_scales mode base_strength kwargs) i =
           Some (get_val_qwen mode (kwargs_get kwargs name 1.0))"
proof -
  have step: "\<And>f w r maps j. fst (zone_indices f w r maps) j =
      (if j \<in> set r then Some f else fst maps j)"
    by (metis zone_indices_lookup prod.collapse)
  from assms(1) have "(name, rng) = (''Zone_1_Embedding_00_05'', [0..<6])
      \<or> (name, rng) = (''Zone_2_Syntax_Low_06_11'', [6..<12])
      \<or> (name, rng) = (''Zone_3_Syntax_High_12_17'', [12..<18])
      \<or> (name, rng) = (''Zone_4_Semantics_18_23'', [18..<24])
      \<or> (name, rng) = (''Zone_5_Context_24_29'', [24..<30])
      \<or> (name, rng) = (''Zone_6_Abstract_30_35'', [30..<36])"
    by (simp add: group_inputs_def del: upt_rec_numeral)
  then show ?thesis
    using assms(2)
    by (elim disjE)
       (simp_all add: group_inputs_def simple_layer_scales_def Let_def step del: upt_rec_numeral)
qed

lemma layer_map_band:
  assumes "(name, rng) \<in> set bands" and "i \<in> set rng"
  shows "layer_map mode base_scale kwargs i =
           Some (get_target_weight_qwen mode (kwargs_get kwargs name 1.0)
                 * get_target_weight_qwen mode base_scale)"
proof -
  from assms(1) have "(name, rng) = (''LLM_Syntax_Parsing'', [0..<9])
      \<or> (name, rng) = (''LLM_Literal_Meaning'', [9..<18])
      \<or> (name, rng) = (''LLM_Contextual_Web'', [18..<27])
      \<or> (name, rng) = (''LLM_Abstract_Concept'', [27..<36])"
    by (simp add: bands_def del: upt_rec_numeral)
  then show ?thesis
    using assms(2)
    by (elim disjE)
       (simp_all add: bands_def layer_map_def Let_def assign_all_lookup del: upt_rec_numeral)
qed


lemma lab_scales_other:
  "i \<notin> fst ` set cfg \<Longrightarrow> fst (lab_scales mode w kwargs cfg (ls, dl)) i = ls i"
  by (induction cfg arbitrary: ls dl) (auto simp: Let_def)

lemma lab_scales_lookup:
  "distinct (map fst cfg) \<Longrightarrow> (i, name) \<in> set cfg \<Longrightarrow>
     fst (lab_scales mode w kwargs cfg (ls, dl)) i =
       Some (get_val_qwen mode (kwargs_get kwargs name 1.0))"
proof (induction cfg arbitrary: ls dl)
  case Nil
  then show ?case by simp
next
  case (Cons p cfg)
  obtain j n where p: "p = (j, n)" by (cases p)
  show ?case
  proof (cases "(i, name) = (j, n)")
    case True
    with Cons.prems p have "i \<notin> fst ` set cfg" by auto
    with True p show ?thesis by (simp add: Let_def lab_scales_other)
  next
    case False
    with Cons.prems p have "(i, name) \<in> set cfg" "distinct (map fst cfg)" by auto
    with Cons.IH p show ?thesis by (simp add: Let_def)
  qed
qed

lemma live_lab_scales_other:
  "i \<notin> fst ` set cfg \<Longrightarrow> live_lab_scales mode kwargs cfg ls i = ls i"
  by (induction cfg arbitrary: ls) (auto simp: Let_def)

lemma live_lab_scales_lookup:
  "distinct (map fst cfg) \<Longrightarrow> (i, name) \<in> set cfg \<Longrightarrow>
     live_lab_scales mode kwargs cfg ls i =
       Some (get_target_weight_qwen mode (kwargs_get kwargs name 1.0))"
proof (induction cfg arbitrary: ls)
  case Nil
  then show ?case by simp
next
  case (Cons p cfg)
  obtain j n where p: "p = (j, n)" by (cases p)
  show ?case
  proof (cases "(i, name) = (j, n)")
    case True
    with Cons.prems p have "i \<notin> fst ` set cfg" by auto
    with True p show ?thesis by (simp add: Let_def live_lab_scales_other)
  next
    case False
    with Cons.prems p have "(i, name) \<in> set cfg" "distinct (map fst cfg)" by auto
    with Cons.IH p show ?thesis by (simp add: Let_def)
  qed
qed

lemma scales_of_config_other:
  "i \<notin> fst ` set cfg \<Longrightarrow> scales_of_config g kwargs cfg ls i = ls i"
  by (induction cfg arbitrary: ls) auto

lemma scales_of_config_lookup:
  "distinct (map fst cfg) \<Longrightarrow> (i, name) \<in> set cfg \<Longrightarrow>
     scales_of_config g kwargs cfg ls i = Some (g (kwargs_get kwargs name 1.0))"
proof (induction cfg arbitrary: ls)
  case Nil
  then show ?case by simp
next
  case (Cons p cfg)
  obtain j n where p: "p = (j, n)" by (cases p)
  show ?case
  proof (cases "(i, name) = (j, n)")
    case True
    with Cons.prems p have "i \<notin> fst ` set cfg" by auto
    with True p show ?thesis by (simp add: scales_of_config_other)
  next
    case False
    with Cons.prems p have "(i, name) \<in> set cfg" "distinct (map fst cfg)" by auto
    with Cons.IH p show ?thesis by simp
  qed
qed

lemma distinct_LAYER_CONFIG_qwen: "distinct (map fst LAYER_CONFIG_qwen)"
  by (simp add: LAYER_CONFIG_qwen_def comp_def del: upt_rec_numeral)

lemma distinct_LAYER_CONFIG_live: "distinct (map fst LAYER_CONFIG_live)"
  by (simp add: LAYER_CONFIG_live_def comp_def del: upt_rec_numeral)

lemma distinct_LAYER_CONFIG: "distinct (map fst LAYER_CONFIG)"
  by (simp add: LAYER_CONFIG_def comp_def distinct_map del: upt_rec_numeral)

lemma lab_te_scales_index:
  assumes "(i, name) \<in> set LAYER_CONFIG_qwen"
  shows "fst (lab_layer_scales_qwen mode base_strength kwargs) i =
           Some (get_val_qwen mode (kwargs_get kwargs name 1.0))"
  unfolding lab_layer_scales_qwen_def
  using distinct_LAYER_CONFIG_qwen assms by (rule lab_scales_lookup)

lemma live_lab_target_index:
  assumes "(i, name) \<in> set LAYER_CONFIG_live" and "qwen_layer_idx key = Some i"
  shows "live_lab_target (live_lab_scales mode kwargs LAYER_CONFIG_live Map.empty) w key =
           (get_target_weight_qwen mode (kwargs_get kwargs name 1.0) * w, True)"
  using assms(2) live_lab_scales_lookup [OF distinct_LAYER_CONFIG_live assms(1)]
  by (simp add: live_lab_target_def)

lemma layer_29_in_config: "(29, ''Layer_29'') \<in> set LAYER_CONFIG"
proof -
  have "(29, ''Layer_29'') = (\<lambda>i. (int i, ''Layer_'' @ fmt_02d i)) 29"
    by (simp add: fmt_02d_def str_nat.simps digit_char_def)
  moreover have "(29::nat) \<in> set [0..<30]" by (simp del: upt_rec_numeral)
  ultimately show ?thesis
    unfolding LAYER_CONFIG_def set_map by (rule image_eqI)
qed

lemma lab_layer_scales_29:
  "lab_layer_scales mode base_strength kwargs 29 =
     Some (get_val_zimage_lab mode base_strength (kwargs_get kwargs ''Layer_29'' 1.0))"
  unfolding lab_layer_scales_def
  using distinct_LAYER_CONFIG layer_29_in_config by (rule scales_of_config_lookup)

lemma final_layer_simple: "key_scale p ''final_layer.weight'' = (b6 p, True)"
  by (simp add: key_scale_def)

lemma final_layer_lab:
  "key_scale_lab mode base_strength kwargs ''final_layer.weight'' =
     (get_val_zimage_lab mode base_strength (kwargs_get kwargs ''Layer_29'' 1.0), True)"
  by (simp add: key_scale_lab_def Let_def lab_layer_scales_29)

lemma layer_7_positional:
  "startswith ''layers.7.attention.q_proj.weight'' ''layers.''
   \<and> layer_idx ''layers.7.attention.q_proj.weight'' = Some 7"
  by (simp add: layer_idx_def py_int_def strip_def is_space_def py_digits_def is_digit_def
        digit_val_def)

lemma layer_7_key_scale:
  "key_scale p ''layers.7.attention.q_proj.weight'' = (b2 p * g_att p, True)"
  using layer_7_positional by (simp add: key_scale_def block_scale_def Let_def)

lemma layer_7_regex: "qwen_layer_idx ''model.layers.7.q_proj.weight'' = Some 7"
  by (simp add: qwen_layer_idx_def match_here_def is_digit_def int_of_digits_def digit_val_def)

lemma no_prefix_regex: "qwen_layer_idx ''layers.7.attention.q_proj.weight'' = None"
  by (simp add: qwen_layer_idx_def match_here_def is_digit_def)

lemma prefixed_positional: "key_scale p ''model.layers.7.q_proj.weight'' = (1.0, False)"
  by (simp add: key_scale_def)

lemma final_layer_regex: "qwen_layer_idx ''final_layer.weight'' = None"
  by (simp add: qwen_layer_idx_def match_here_def is_digit_def)

section \<open>The claims about thresholds, exclusions and composition\<close>

text \<open>
  C2 as stated fails: only the block-based Z-Image tuners have an epsilon. The Qwen tuners
  compare the strength with zero: with the third zone at \<open>1.00005\<close> in Real mode the
  resolved scale of layer 13 is \<open>1 + 5e-5\<close>, and the Simple tuner registers a patch of
  strength \<open>5e-5\<close>. The live Z-Image tuners compare the scale with one: with the first
  stage at \<open>1.00005\<close> the weight \<open>[3]\<close> of the second block becomes \<open>[3.00015]\<close>.
\<close>

theorem epsilon_not_used_counterexample:
  "te_target_scale (fst (simple_layer_scales ''Real Value'' 1.0
                           [''Zone_3_Syntax_High_12_17'' \<mapsto> 1.00005]))
     (get_val_qwen ''Real Value'' 1.0) 13 = Some (1.0 + 0.00005)
   \<and> patch_calls (fst (tune_qwen_simple demo_clip ''Real Value'' 1.0
                         [''Zone_3_Syntax_High_12_17'' \<mapsto> 1.00005]))
       = [(''model.layers.13.self_attn.q_proj.weight'', PList [PTensor [3, 4]], 0.00005, 1.0)]
   \<and> zimage_scale ''Real Value'' 1.0 [''STAGE_1_Semantic_Seeding'' \<mapsto> 1.00005] 1 = 1.0 + 0.00005
   \<and> heap demo_state 1 = [3]
   \<and> heap (fst (tune_zimage demo_model ''Real Value'' 1.0
                  [''STAGE_1_Semantic_Seeding'' \<mapsto> 1.00005] demo_state)) 1 = [3.00015]"
proof -
  have q: "te_target_scale (fst (simple_layer_scales ''Real Value'' 1.0
                           [''Zone_3_Syntax_High_12_17'' \<mapsto> 1.00005]))
     (get_val_qwen ''Real Value'' 1.0) 13 = Some (1.0 + 0.00005)
   \<and> patch_calls (fst (tune_qwen_simple demo_clip ''Real Value'' 1.0
                         [''Zone_3_Syntax_High_12_17'' \<mapsto> 1.00005]))
       = [(''model.layers.13.self_attn.q_proj.weight'', PList [PTensor [3, 4]], 0.00005, 1.0)]"
    by (simp add: tune_qwen_simple_def demo_clip_def simple_layer_scales_def group_inputs_def
          Let_def kwargs_get_def get_val_qwen_def weight_payloads_def te_strength_def
          te_target_scale_def qwen_layer_idx_def match_here_def is_digit_def int_of_digits_def
          digit_val_def upt_rec)
  have z: "zimage_scale ''Real Value'' 1.0 [''STAGE_1_Semantic_Seeding'' \<mapsto> 1.00005] 1
             = 1.0 + 0.00005
   \<and> heap demo_state 1 = [3]
   \<and> heap (fst (tune_zimage demo_model ''Real Value'' 1.0
                  [''STAGE_1_Semantic_Seeding'' \<mapsto> 1.00005] demo_state)) 1 = [3.00015]"
    by (simp add: tune_zimage_def demo_model_def demo_state_def demo_container_def
          layer_container_def tune_phases_def zimage_scale_def layer_weights_def GROUP_MAP_def
          kwargs_get_def get_target_weight_def tensor_mul_def upt_rec Let_def)
  from q z show ?thesis by simp
qed

text \<open>
  C2, amended. In the block-based Z-Image tuners (Simple and Lab) a tensor whose resolved
  scale lies within \<open>1e-4\<close> of one, \<open>1 + 5e-5\<close> included, is left as it was.
\<close>

theorem near_identity_scale_untouched:
  assumes "i < length sd" and "sd ! i = (key, t)"
  shows "(\<bar>fst (key_scale (make_params mode base_strength sl) key) - 1.0\<bar> \<le> 0.0001
            \<longrightarrow> fst (tune sd mode base_strength sl unsafe) ! i = (key, t))
       \<and> (\<bar>fst (key_scale_lab mode base_strength kwargs key) - 1.0\<bar> \<le> 0.0001
            \<longrightarrow> fst (tune_lab sd mode base_strength unsafe kwargs) ! i = (key, t))"
  using assms
  by (auto simp: tune_def tune_lab_def tune_loop_nth new_tensor_def split: prod.splits)

theorem near_identity_scale_witness:
  "fst (key_scale (make_params ''Real Value'' 1.0
          (unit_sliders\<lparr>block_2_early_05_09 := 1.00005\<rparr>)) ''layers.7.mlp.weight'') = 1.0 + 0.00005
   \<and> fst (tune [(''layers.7.mlp.weight'', [3, 4])] ''Real Value'' 1.0
          (unit_sliders\<lparr>block_2_early_05_09 := 1.00005\<rparr>) False) ! 0
       = (''layers.7.mlp.weight'', [3, 4])
   \<and> fst (key_scale_lab ''Real Value'' 1.0 [''Layer_29'' \<mapsto> 1.00005] ''final_layer.weight'')
       = 1.0 + 0.00005
   \<and> fst (tune_lab [(''final_layer.weight'', [3, 4])] ''Real Value'' 1.0 False
          [''Layer_29'' \<mapsto> 1.00005]) ! 0
       = (''final_layer.weight'', [3, 4])"
proof -
  have k: "fst (key_scale (make_params ''Real Value'' 1.0
          (unit_sliders\<lparr>block_2_early_05_09 := 1.00005\<rparr>)) ''layers.7.mlp.weight'') = 1.0 + 0.00005"
    by (simp add: key_scale_def make_params_def unit_sliders_def calc_final_def
          get_val_zimage_def block_scale_def layer_idx_def py_int_def strip_def is_space_def
          py_digits_def is_digit_def digit_val_def Let_def)
  have l: "fst (key_scale_lab ''Real Value'' 1.0 [''Layer_29'' \<mapsto> 1.00005] ''final_layer.weight'')
       = 1.0 + 0.00005"
    by (simp add: final_layer_lab get_val_zimage_lab_def kwargs_get_def)
  from near_identity_scale_untouched
         [of 0 "[(''layers.7.mlp.weight'', [3, 4])]" "''layers.7.mlp.weight''" "[3, 4]"
             "''Real Value''" "1.0" "unit_sliders\<lparr>block_2_early_05_09 := 1.00005\<rparr>" False]
       near_identity_scale_untouched
         [of 0 "[(''final_layer.weight'', [3, 4])]" "''final_layer.weight''" "[3, 4]"
             "''Real Value''" "1.0" _ False "[''Layer_29'' \<mapsto> 1.00005]"]
       k l
  show ?thesis by simp
qed

text \<open>
  C5 as stated fails: the block-based Z-Image tuners skip a key only when it holds neither
  \<open>weight\<close> nor \<open>bias\<close>, so a bias tensor of a layer is scaled like a weight, with
  normalization locked.
\<close>

theorem bias_is_scaled_counterexample:
  "str_in ''bias'' ''layers.0.attention.qkv.bias''
   \<and> tune [(''layers.0.attention.qkv.bias'', [1, 2])] ''Real Value'' 1.0
         (unit_sliders\<lparr>block_1_start_00_04 := 2\<rparr>) False
       = ([(''layers.0.attention.qkv.bias'', [2, 4])], 1, 0)"
  by (simp add: tune_def make_params_def unit_sliders_def calc_final_def get_val_zimage_def
        key_scale_def block_scale_def layer_idx_def py_int_def strip_def is_space_def
        py_digits_def is_digit_def digit_val_def is_norm_layer_def tensor_mul_def Let_def)

text \<open>
  C5, amended. The four Qwen tuners register no patch for a key that contains \<open>norm\<close>
  or \<open>bias\<close> (they have no override). The block-based Z-Image tuners, with
  \<open>unsafe_tune_normalization\<close> off, leave unchanged every tensor whose key contains
  \<open>norm\<close> or \<open>adaLN\<close>. Nothing is claimed of the bias tensors of the Z-Image tuners.
\<close>

theorem exclusion_by_default:
  "(str_in ''norm'' key \<or> str_in ''bias'' key \<longrightarrow>
      key \<notin> fst ` set (drop (length (patch_calls clip))
                 (patch_calls (fst (tune_qwen_simple clip mode base kwargs))))
    \<and> key \<notin> fst ` set (drop (length (patch_calls clip))
                 (patch_calls (fst (tune_qwen_lab_te clip mode base kwargs))))
    \<and> key \<notin> fst ` set (drop (length (patch_calls clip))
                 (patch_calls (fst (tune_qwen clip mode base kwargs))))
    \<and> key \<notin> fst ` set (drop (length (patch_calls clip))
                 (patch_calls (fst (tune_qwen_lab clip mode base kwargs)))))
   \<and> (is_norm_layer key \<and> i < length sd \<and> sd ! i = (key, t) \<longrightarrow>
      fst (tune sd mode base sl False) ! i = (key, t)
    \<and> fst (tune_lab sd mode base False kwargs) ! i = (key, t))"
proof (intro conjI impI)
  assume a: "str_in ''norm'' key \<or> str_in ''bias'' key"
  show "key \<notin> fst ` set (drop (length (patch_calls clip))
                     (patch_calls (fst (tune_qwen_simple clip mode base kwargs))))"
    unfolding tune_qwen_simple_calls using a
    by (intro patch_loop_skips) (simp add: te_strength_def)
  show "key \<notin> fst ` set (drop (length (patch_calls clip))
                     (patch_calls (fst (tune_qwen_lab_te clip mode base kwargs))))"
    unfolding tune_qwen_lab_te_calls using a
    by (intro patch_loop_skips) (simp add: te_strength_def)
  show "key \<notin> fst ` set (drop (length (patch_calls clip))
                     (patch_calls (fst (tune_qwen clip mode base kwargs))))"
    unfolding tune_qwen_calls using a
    by (intro patch_loop_skips) (simp add: live_strength_def)
  show "key \<notin> fst ` set (drop (length (patch_calls clip))
                     (patch_calls (fst (tune_qwen_lab clip mode base kwargs))))"
    unfolding tune_qwen_lab_calls using a
    by (auto simp: live_lab_loop_calls)
next
  assume b: "is_norm_layer key \<and> i < length sd \<and> sd ! i = (key, t)"
  then show "fst (tune sd mode base sl False) ! i = (key, t)"
    by (simp add: tune_def tune_loop_nth new_tensor_def)
  from b show "fst (tune_lab sd mode base False kwargs) ! i = (key, t)"
    by (simp add: tune_lab_def tune_loop_nth new_tensor_def)
qed

theorem exclusion_by_default_witness:
  "str_in ''norm'' ''model.layers.13.input_layernorm.weight''
   \<and> ''model.layers.13.input_layernorm.weight'' \<notin> fst ` set
         (patch_calls (fst (tune_qwen_simple demo_clip ''Real Value'' 2 Map.empty)))
   \<and> ''model.layers.13.input_layernorm.weight'' \<notin> fst ` set
         (patch_calls (fst (tune_qwen_lab_te demo_clip ''Real Value'' 2 Map.empty)))
   \<and> ''model.layers.13.input_layernorm.weight'' \<notin> fst ` set
         (patch_calls (fst (tune_qwen demo_clip ''Real Value'' 2 Map.empty)))
   \<and> ''model.layers.13.input_layernorm.weight'' \<notin> fst ` set
         (patch_calls (fst (tune_qwen_lab demo_clip ''Real Value'' 2 Map.empty)))
   \<and> is_norm_layer ''layers.3.attention_norm.weight''
   \<and> fst (tune [(''layers.3.attention_norm.weight'', [1, 2])] ''Real Value'' 2 unit_sliders
            False) ! 0 = (''layers.3.attention_norm.weight'', [1, 2])
   \<and> fst (tune_lab [(''layers.3.attention_norm.weight'', [1, 2])] ''Real Value'' 2 False
            Map.empty) ! 0 = (''layers.3.attention_norm.weight'', [1, 2])"
proof -
  have n: "str_in ''norm'' ''model.layers.13.input_layernorm.weight''" by simp
  have m: "is_norm_layer ''layers.3.attention_norm.weight''" by (simp add: is_norm_layer_def)
  have e: "patch_calls demo_clip = []" by (simp add: demo_clip_def)
  from exclusion_by_default
         [of "''model.layers.13.input_layernorm.weight''" demo_clip "''Real Value''" 2
             Map.empty]
       n e
  have q: "''model.layers.13.input_layernorm.weight'' \<notin> fst ` set
         (patch_calls (fst (tune_qwen_simple demo_clip ''Real Value'' 2 Map.empty)))
   \<and> ''model.layers.13.input_layernorm.weight'' \<notin> fst ` set
         (patch_calls (fst (tune_qwen_lab_te demo_clip ''Real Value'' 2 Map.empty)))
   \<and> ''model.layers.13.input_layernorm.weight'' \<notin> fst ` set
         (patch_calls (fst (tune_qwen demo_clip ''Real Value'' 2 Map.empty)))
   \<and> ''model.layers.13.input_layernorm.weight'' \<notin> fst ` set
         (patch_calls (fst (tune_qwen_lab demo_clip ''Real Value'' 2 Map.empty)))"
    by simp
  from exclusion_by_default
         [of "''layers.3.attention_norm.weight''" _ "''Real Value''" 2 Map.empty 0
             "[(''layers.3.attention_norm.weight'', [1, 2])]" "[1, 2]" unit_sliders]
       m
  have z: "fst (tune [(''layers.3.attention_norm.weight'', [1, 2])] ''Real Value'' 2 unit_sliders
            False) ! 0 = (''layers.3.attention_norm.weight'', [1, 2])
   \<and> fst (tune_lab [(''layers.3.attention_norm.weight'', [1, 2])] ''Real Value'' 2 False
            Map.empty) ! 0 = (''layers.3.attention_norm.weight'', [1, 2])"
    by simp
  from n m q z show ?thesis by simp
qed

text \<open>
  C3 as stated fails: the block-based Z-Image tuners apply the base strength in Real mode
  only. In Soft mode with base strength 2 and every slider at 1, the scale of a tensor of
  layer 0 is 1, while the product of the two transformed values is 1.2.
\<close>

theorem soft_base_ignored_counterexample:
  "key_scale (make_params ''Soft Value'' 2 unit_sliders) ''layers.0.mlp.weight'' = (1, True)
   \<and> get_val_zimage ''Soft Value'' 1 * get_val_zimage ''Soft Value'' 2 = 1.2
   \<and> key_scale_lab ''Soft Value'' 2 Map.empty ''final_layer.weight'' = (1, True)"
  by (simp add: key_scale_def make_params_def unit_sliders_def calc_final_def
        get_val_zimage_def block_scale_def layer_idx_def py_int_def strip_def is_space_def
        py_digits_def is_digit_def digit_val_def Let_def final_layer_lab
        get_val_zimage_lab_def kwargs_get_def)

text \<open>
  C3, amended. In Soft mode the final scale of a layer index is the product of the
  transformed slider of its group and the transformed base in the two live Z-Image tuners
  and in the four Qwen tuners. The two block-based Z-Image tuners leave the base out in
  Soft mode: their value is the transformed slider alone.
\<close>

theorem soft_composition:
  assumes "mode \<noteq> ''Real Value''"
  shows "((name, rng) \<in> set GROUP_MAP \<and> i \<in> set rng \<longrightarrow>
            zimage_scale mode base kwargs i =
              get_target_weight mode (kwargs_get kwargs name 1.0) * get_target_weight mode base)
       \<and> (LAYER_TO_NAME_MAP i = Some name \<longrightarrow>
            zimage_lab_scale mode base kwargs i =
              get_target_weight mode (kwargs_get kwargs name 1.0) * get_target_weight mode base)
       \<and> ((name, rng) \<in> set group_inputs \<and> i \<in> set rng \<longrightarrow>
            te_target_scale (fst (simple_layer_scales mode base kwargs)) (get_val_qwen mode base) i
              = Some (get_val_qwen mode (kwargs_get kwargs name 1.0) * get_val_qwen mode base))
       \<and> ((i, name) \<in> set LAYER_CONFIG_qwen \<longrightarrow>
            te_target_scale (fst (lab_layer_scales_qwen mode base kwargs)) (get_val_qwen mode base) i
              = Some (get_val_qwen mode (kwargs_get kwargs name 1.0) * get_val_qwen mode base))
       \<and> ((name, rng) \<in> set bands \<and> i \<in> set rng \<longrightarrow>
            layer_map mode base kwargs i =
              Some (get_target_weight_qwen mode (kwargs_get kwargs name 1.0)
                    * get_target_weight_qwen mode base))
       \<and> ((i, name) \<in> set LAYER_CONFIG_live \<and> qwen_layer_idx key = Some i \<longrightarrow>
            fst (live_lab_target (live_lab_scales mode kwargs LAYER_CONFIG_live Map.empty)
                   (get_target_weight_qwen mode base) key)
              = get_target_weight_qwen mode (kwargs_get kwargs name 1.0)
                * get_target_weight_qwen mode base)
       \<and> calc_final mode base v = get_val_zimage mode v
       \<and> get_val_zimage_lab mode base v = 1.0 + ((v - 1.0) * 0.2)"
proof (intro conjI impI)
  assume "(name, rng) \<in> set GROUP_MAP \<and> i \<in> set rng"
  then show "zimage_scale mode base kwargs i =
      get_target_weight mode (kwargs_get kwargs name 1.0) * get_target_weight mode base"
    by (elim conjE) (rule zimage_scale_group)
next
  assume "LAYER_TO_NAME_MAP i = Some name"
  then show "zimage_lab_scale mode base kwargs i =
      get_target_weight mode (kwargs_get kwargs name 1.0) * get_target_weight mode base"
    by (rule zimage_lab_scale_name)
next
  assume "(name, rng) \<in> set group_inputs \<and> i \<in> set rng"
  then show "te_target_scale (fst (simple_layer_scales mode base kwargs))
        (get_val_qwen mode base) i
      = Some (get_val_qwen mode (kwargs_get kwargs name 1.0) * get_val_qwen mode base)"
    by (elim conjE) (simp add: te_target_scale_def simple_scales_zone [of name rng])
next
  assume "(i, name) \<in> set LAYER_CONFIG_qwen"
  then show "te_target_scale (fst (lab_layer_scales_qwen mode base kwargs))
        (get_val_qwen mode base) i
      = Some (get_val_qwen mode (kwargs_get kwargs name 1.0) * get_val_qwen mode base)"
    by (simp add: te_target_scale_def lab_te_scales_index [of i name])
next
  assume "(name, rng) \<in> set bands \<and> i \<in> set rng"
  then show "layer_map mode base kwargs i =
      Some (get_target_weight_qwen mode (kwargs_get kwargs name 1.0)
            * get_target_weight_qwen mode base)"
    by (elim conjE) (rule layer_map_band)
next
  assume "(i, name) \<in> set LAYER_CONFIG_live \<and> qwen_layer_idx key = Some i"
  then show "fst (live_lab_target (live_lab_scales mode kwargs LAYER_CONFIG_live Map.empty)
                   (get_target_weight_qwen mode base) key)
      = get_target_weight_qwen mode (kwargs_get kwargs name 1.0)
        * get_target_weight_qwen mode base"
    by (elim conjE) (simp add: live_lab_target_index [of i name])
next
  show "calc_final mode base v = get_val_zimage mode v"
    using assms by (simp add: calc_final_def)
  show "get_val_zimage_lab mode base v = 1.0 + ((v - 1.0) * 0.2)"
    using assms by (simp add: get_val_zimage_lab_def)
qed

theorem soft_composition_witness:
  "zimage_scale ''Soft Value'' 1.5 [''STAGE_2_Spatial_Layout'' \<mapsto> 0.5] 7 = 0.755 * 1.0665
   \<and> zimage_lab_scale ''Soft Value'' 1.5 [''STAGE_2_Spatial_Layout_L07'' \<mapsto> 0.5] 7
       = 0.755 * 1.0665
   \<and> te_target_scale (fst (simple_layer_scales ''Soft Value'' 1.5
                               [''Zone_2_Syntax_Low_06_11'' \<mapsto> 0.5]))
        (get_val_qwen ''Soft Value'' 1.5) 7 = Some (0.9 * 1.1)
   \<and> te_target_scale (fst (lab_layer_scales_qwen ''Soft Value'' 1.5 [''LLM_Syntax_L07'' \<mapsto> 0.5]))
        (get_val_qwen ''Soft Value'' 1.5) 7 = Some (0.9 * 1.1)
   \<and> layer_map ''Soft Value'' 1.5 [''LLM_Syntax_Parsing'' \<mapsto> 0.5] 7 = Some (0.9 * 1.1)
   \<and> fst (live_lab_target
            (live_lab_scales ''Soft Value'' [''LLM_Syntax_Parsing_L07'' \<mapsto> 0.5]
               LAYER_CONFIG_live Map.empty)
            (get_target_weight_qwen ''Soft Value'' 1.5) ''model.layers.7.q_proj.weight'')
       = 0.9 * 1.1
   \<and> calc_final ''Soft Value'' 1.5 0.5 = 0.9"
proof -
  have m: "''Soft Value'' \<noteq> ''Real Value''" by simp
  have g1: "(''STAGE_2_Spatial_Layout'', [6..<12]) \<in> set GROUP_MAP"
    by (simp add: GROUP_MAP_def del: upt_rec_numeral)
  have g2: "LAYER_TO_NAME_MAP 7 = Some ''STAGE_2_Spatial_Layout_L07''"
    by (simp add: LAYER_TO_NAME_MAP_def GROUP_MAP_def upt_rec fmt_02d_def str_nat.simps
          digit_char_def)
  have g3: "(''Zone_2_Syntax_Low_06_11'', [6..<12]) \<in> set group_inputs"
    by (simp add: group_inputs_def del: upt_rec_numeral)
  have g4: "(7, ''LLM_Syntax_L07'') \<in> set LAYER_CONFIG_qwen"
  proof -
    have "(7, ''LLM_Syntax_L07'') = (\<lambda>i. (i, qwen_lab_prefix i @ ''_L'' @ fmt_02d i)) 7"
      by (simp add: qwen_lab_prefix_def fmt_02d_def str_nat.simps digit_char_def)
    moreover have "(7::nat) \<in> set [0..<36]" by (simp del: upt_rec_numeral)
    ultimately show ?thesis unfolding LAYER_CONFIG_qwen_def set_map by (rule image_eqI)
  qed
  have g5: "(''LLM_Syntax_Parsing'', [0..<9]) \<in> set bands"
    by (simp add: bands_def del: upt_rec_numeral)
  have g6: "(7, ''LLM_Syntax_Parsing_L07'') \<in> set LAYER_CONFIG_live"
  proof -
    have "(7, ''LLM_Syntax_Parsing_L07'') = (\<lambda>i. (i, live_lab_prefix i @ ''_L'' @ fmt_02d i)) 7"
      by (simp add: live_lab_prefix_def fmt_02d_def str_nat.simps digit_char_def)
    moreover have "(7::nat) \<in> set [0..<36]" by (simp del: upt_rec_numeral)
    ultimately show ?thesis unfolding LAYER_CONFIG_live_def set_map by (rule image_eqI)
  qed
  have r: "(7::nat) \<in> set [6..<12]" "(7::nat) \<in> set [0..<9]" by (simp_all del: upt_rec_numeral)
  note t = soft_composition [OF m, where i = 7 and base = "1.5" and v = "0.5"
             and key = "''model.layers.7.q_proj.weight''"]
  from t [of "''STAGE_2_Spatial_Layout''" "[6..<12]" "[''STAGE_2_Spatial_Layout'' \<mapsto> 0.5]"] g1 r
  have c1: "zimage_scale ''Soft Value'' 1.5 [''STAGE_2_Spatial_Layout'' \<mapsto> 0.5] 7 = 0.755 * 1.0665"
    by (simp add: get_target_weight_def kwargs_get_def power2_eq_square)
  from t [of "''STAGE_2_Spatial_Layout_L07''" _ "[''STAGE_2_Spatial_Layout_L07'' \<mapsto> 0.5]"] g2
  have c2: "zimage_lab_scale ''Soft Value'' 1.5 [''STAGE_2_Spatial_Layout_L07'' \<mapsto> 0.5] 7
       = 0.755 * 1.0665"
    by (simp add: get_target_weight_def kwargs_get_def power2_eq_square)
  from t [of "''Zone_2_Syntax_Low_06_11''" "[6..<12]" "[''Zone_2_Syntax_Low_06_11'' \<mapsto> 0.5]"] g3 r
  have c3: "te_target_scale (fst (simple_layer_scales ''Soft Value'' 1.5
                               [''Zone_2_Syntax_Low_06_11'' \<mapsto> 0.5]))
        (get_val_qwen ''Soft Value'' 1.5) 7 = Some (0.9 * 1.1)"
    by (simp add: get_val_qwen_def kwargs_get_def)
  from t [of "''LLM_Syntax_L07''" _ "[''LLM_Syntax_L07'' \<mapsto> 0.5]"] g4
  have c4: "te_target_scale (fst (lab_layer_scales_qwen ''Soft Value'' 1.5 [''LLM_Syntax_L07'' \<mapsto> 0.5]))
        (get_val_qwen ''Soft Value'' 1.5) 7 = Some (0.9 * 1.1)"
    by (simp add: get_val_qwen_def kwargs_get_def)
  from t [of "''LLM_Syntax_Parsing''" "[0..<9]" "[''LLM_Syntax_Parsing'' \<mapsto> 0.5]"] g5 r
  have c5: "layer_map ''Soft Value'' 1.5 [''LLM_Syntax_Parsing'' \<mapsto> 0.5] 7 = Some (0.9 * 1.1)"
    by (simp add: get_target_weight_qwen_def kwargs_get_def)
  from t [of "''LLM_Syntax_Parsing_L07''" _ "[''LLM_Syntax_Parsing_L07'' \<mapsto> 0.5]"] g6
       layer_7_regex
  have c6: "fst (live_lab_target
            (live_lab_scales ''Soft Value'' [''LLM_Syntax_Parsing_L07'' \<mapsto> 0.5]
               LAYER_CONFIG_live Map.empty)
            (get_target_weight_qwen ''Soft Value'' 1.5) ''model.layers.7.q_proj.weight'')
       = 0.9 * 1.1"
    by (simp add: get_target_weight_qwen_def kwargs_get_def)
  from t [of _ _ Map.empty]
  have c7: "calc_final ''Soft Value'' 1.5 0.5 = 0.9"
    by (simp add: get_val_zimage_def)
  from c1 c2 c3 c4 c5 c6 c7 show ?thesis by simp
qed

text \<open>
  C6 as stated fails: no resolver of the repository reads both key forms. The block-based
  Z-Image tuners take the index from the second path segment of a key that starts with
  \<open>layers.\<close>, so the prefixed key is no target at all; the Qwen tuners search for
  \<open>.layers.N.\<close> with its leading dot, which the unprefixed key does not contain, and
  they have no fallback for \<open>final_layer.weight\<close>.
\<close>

theorem one_resolver_counterexample:
  "(\<forall>p. key_scale p ''model.layers.7.q_proj.weight'' = (1.0, False))
   \<and> qwen_layer_idx ''layers.7.attention.q_proj.weight'' = None
   \<and> qwen_layer_idx ''final_layer.weight'' = None"
  by (simp add: prefixed_positional no_prefix_regex final_layer_regex)

text \<open>
  C6, amended. The positional resolver of the block-based Z-Image tuners returns index 7
  for \<open>layers.7.attention.q_proj.weight\<close> (the tensor gets the scale of the second block
  times the attention multiplier) and, for \<open>final_layer.weight\<close>, the scale of the last
  block (Simple) or of layer 29 (Lab). The pattern resolver of the Qwen tuners returns
  index 7 for \<open>model.layers.7.q_proj.weight\<close>.
\<close>

theorem key_resolution:
  "startswith ''layers.7.attention.q_proj.weight'' ''layers.''
   \<and> layer_idx ''layers.7.attention.q_proj.weight'' = Some 7
   \<and> key_scale p ''layers.7.attention.q_proj.weight'' = (b2 p * g_att p, True)
   \<and> key_scale p ''final_layer.weight'' = (b6 p, True)
   \<and> key_scale_lab mode base_strength kwargs ''final_layer.weight'' =
       (get_val_zimage_lab mode base_strength (kwargs_get kwargs ''Layer_29'' 1.0), True)
   \<and> qwen_layer_idx ''model.layers.7.q_proj.weight'' = Some 7"
  using layer_7_positional
  by (simp add: layer_7_key_scale final_layer_simple final_layer_lab layer_7_regex)

text \<open>
  C10. In the live Qwen Lab tuner a key with neither \<open>norm\<close> nor \<open>bias\<close> and with no
  layer index gets a patch of strength \<open>transform(base_scale) - 1\<close> whenever that is not
  zero. The three other Qwen tuners register nothing for such a key.
\<close>

theorem base_scale_on_unindexed_keys:
  assumes "(key, payload) \<in> set (key_patches clip)"
    and "\<not> str_in ''norm'' key" and "\<not> str_in ''bias'' key"
    and "qwen_layer_idx key = None"
    and "get_target_weight_qwen mode base - 1.0 \<noteq> 0"
  shows "(key, payload, get_target_weight_qwen mode base - 1.0, 1.0)
           \<in> set (patch_calls (fst (tune_qwen_lab clip mode base kwargs)))
       \<and> key \<notin> fst ` set (drop (length (patch_calls clip))
                   (patch_calls (fst (tune_qwen clip mode base kwargs))))
       \<and> key \<notin> fst ` set (drop (length (patch_calls clip))
                   (patch_calls (fst (tune_qwen_simple clip mode base kwargs))))
       \<and> key \<notin> fst ` set (drop (length (patch_calls clip))
                   (patch_calls (fst (tune_qwen_lab_te clip mode base kwargs))))"
proof (intro conjI)
  let ?ls = "live_lab_scales mode kwargs LAYER_CONFIG_live Map.empty"
  let ?w = "get_target_weight_qwen mode base"
  let ?keep = "\<lambda>(key, payload). \<not> (str_in ''norm'' key \<or> str_in ''bias'' key)
                  \<and> fst (live_lab_target ?ls ?w key) - 1.0 \<noteq> 0"
  let ?call = "\<lambda>(key, payload). (key, payload, fst (live_lab_target ?ls ?w key) - 1.0, 1.0::real)"
  have t: "live_lab_target ?ls ?w key = (?w, False)"
    using assms(4) by (simp add: live_lab_target_def)
  with assms have "(key, payload) \<in> set (filter ?keep (key_patches clip))" by simp
  then have "?call (key, payload) \<in> ?call ` set (filter ?keep (key_patches clip))"
    by (rule imageI)
  with t show "(key, payload, ?w - 1.0, 1.0)
           \<in> set (patch_calls (fst (tune_qwen_lab clip mode base kwargs)))"
    by (simp add: tune_qwen_lab_calls live_lab_loop_calls)
  show "key \<notin> fst ` set (drop (length (patch_calls clip))
                   (patch_calls (fst (tune_qwen clip mode base kwargs))))"
    unfolding tune_qwen_calls using assms(4)
    by (intro patch_loop_skips) (simp add: live_strength_def)
  show "key \<notin> fst ` set (drop (length (patch_calls clip))
                   (patch_calls (fst (tune_qwen_simple clip mode base kwargs))))"
    unfolding tune_qwen_simple_calls using assms(4)
    by (intro patch_loop_skips) (simp add: te_strength_def)
  show "key \<notin> fst ` set (drop (length (patch_calls clip))
                   (patch_calls (fst (tune_qwen_lab_te clip mode base kwargs))))"
    unfolding tune_qwen_lab_te_calls using assms(4)
    by (intro patch_loop_skips) (simp add: te_strength_def)
qed

theorem base_scale_on_unindexed_keys_witness:
  "(''model.embed_tokens.weight'', PList [PTensor [1, 2]], 0.1, 1.0)
       \<in> set (patch_calls (fst (tune_qwen_lab demo_clip ''Soft Value'' 1.5 Map.empty)))
   \<and> ''model.embed_tokens.weight'' \<notin> fst ` set
         (patch_calls (fst (tune_qwen demo_clip ''Soft Value'' 1.5 Map.empty)))
   \<and> ''model.embed_tokens.weight'' \<notin> fst ` set
         (patch_calls (fst (tune_qwen_simple demo_clip ''Soft Value'' 1.5 Map.empty)))
   \<and> ''model.embed_tokens.weight'' \<notin> fst ` set
         (patch_calls (fst (tune_qwen_lab_te demo_clip ''Soft Value'' 1.5 Map.empty)))"
proof -
  have k: "(''model.embed_tokens.weight'', PList [PTensor [1, 2]]) \<in> set (key_patches demo_clip)"
    by (simp add: demo_clip_def)
  have n: "\<not> str_in ''norm'' ''model.embed_tokens.weight''"
          "\<not> str_in ''bias'' ''model.embed_tokens.weight''"
    by simp_all
  have r: "qwen_layer_idx ''model.embed_tokens.weight'' = None"
    by (simp add: qwen_layer_idx_def match_here_def is_digit_def)
  have ne: "get_target_weight_qwen ''Soft Value'' 1.5 - 1.0 \<noteq> 0"
    by (simp add: get_target_weight_qwen_def)
  have s: "get_target_weight_qwen ''Soft Value'' 1.5 - 1.0 = 0.1"
    by (simp add: get_target_weight_qwen_def)
  have e: "drop (length (patch_calls demo_clip)) xs = xs" for xs :: "patch_call list"
    by (simp add: demo_clip_def)
  from base_scale_on_unindexed_keys [OF k n r ne, of Map.empty]
  show ?thesis unfolding s e .
qed

section \<open>Properties of the rounding\<close>

lemma round_mag_finite:
  assumes "m \<noteq> 0" and "ilog2 m = k" and "max k (emin f) = e"
    and "pow2 (e - int (prec f) + 1) = u" and "round_half_even (m / u) = n"
    and "of_int n * u = r" and "r < pow2 (emax f + 1)"
  shows "round_mag f neg m = Fin neg r"
  using assms by (simp add: round_mag_def Let_def)

lemma round_real_pos:
  assumes "0 < x" and "ilog2 x = k" and "max k (emin f) = e"
    and "pow2 (e - int (prec f) + 1) = u" and "round_half_even (x / u) = n"
    and "of_int n * u = r" and "r < pow2 (emax f + 1)"
  shows "round_real f x = Fin False r"
  using assms round_mag_finite [of x k f e u n r False] by (simp add: round_real_def)

lemmas round_eval = ilog2_def bitlen.simps pow2_def round_half_even_def Let_def

lemma round_one: "round_mag f neg 1 = Fin neg 1"
  by (cases f) (simp_all add: round_mag_def round_eval)

lemma fmul_pos: "fmul f (Fin False a) (Fin False b) = round_mag f False (a * b)"
  by simp

section \<open>Properties of the Simple Qwen tuner in binary64\<close>

lemma py_float_08: "py_float 0.8 = Fin False (3602879701896397 / 4503599627370496)"
  unfolding py_float_def
  by (rule round_real_pos [where k = "-1" and e = "-1" and u = "1 / 9007199254740992"
        and n = 7205759403792794]) (simp_all add: round_eval)

lemma py_float_02: "py_float 0.2 = Fin False (3602879701896397 / 18014398509481984)"
  unfolding py_float_def
  by (rule round_real_pos [where k = "-3" and e = "-3" and u = "1 / 36028797018963968"
        and n = 7205759403792794]) (simp_all add: round_eval)

lemma py_float_010: "py_float 0.10 = Fin False (3602879701896397 / 36028797018963968)"
  unfolding py_float_def
  by (rule round_real_pos [where k = "-4" and e = "-4" and u = "1 / 72057594037927936"
        and n = 7205759403792794]) (simp_all add: round_eval)

lemma py_float_11: "py_float 1.10 = Fin False (2476979795053773 / 2251799813685248)"
  unfolding py_float_def
  by (rule round_real_pos [where k = "0" and e = "0" and u = "1 / 4503599627370496"
        and n = 4953959590107546]) (simp_all add: round_eval)

lemma py_float_15: "py_float 1.5 = Fin False (3 / 2)"
  unfolding py_float_def
  by (rule round_real_pos [where k = "0" and e = "0" and u = "1 / 4503599627370496"
        and n = 6755399441055744]) (simp_all add: round_eval)

lemma py_float_10: "py_float 1.0 = Fin False 1"
  by (simp add: py_float_def round_real_def round_one)

text \<open>The slider at 1.5: \<open>0.2 * 1.5\<close> is 0.30000000000000004, and \<open>0.8\<close> plus that is 1.1.\<close>

lemma soft_product_15:
  "fmul Binary64 (py_float 0.2) (py_float 1.5) = Fin False (1351079888211149 / 4503599627370496)"
  unfolding py_float_02 py_float_15 fmul_pos
  by (rule round_mag_finite [where k = "-2" and e = "-2" and u = "1 / 18014398509481984"
        and n = 5404319552844596]) (simp_all add: round_eval)

lemma soft_sum_15:
  "fadd Binary64 (py_float 0.8) (Fin False (1351079888211149 / 4503599627370496)) = py_float 1.10"
proof -
  have "round_real Binary64 (4953959590107546 / 4503599627370496)
          = Fin False (2476979795053773 / 2251799813685248)"
    by (rule round_real_pos [where k = "0" and e = "0" and u = "1 / 4503599627370496"
          and n = 4953959590107546]) (simp_all add: round_eval)
  then show ?thesis
    unfolding py_float_08 py_float_11 by (simp add: signed_def)
qed

lemma get_val_f64_15: "get_val_f64 ''Soft Value'' (py_float 1.5) = py_float 1.10"
  unfolding get_val_f64_def soft_product_15 soft_sum_15 by simp

text \<open>The slider at 1.0: \<open>0.2 * 1.0\<close> is 0.2, and \<open>0.8 + 0.2\<close> is 1.0.\<close>

lemma soft_product_10: "fmul Binary64 (py_float 0.2) (py_float 1.0) = py_float 0.2"
  unfolding py_float_02 py_float_10 fmul_pos
  by (rule round_mag_finite [where k = "-3" and e = "-3" and u = "1 / 36028797018963968"
        and n = 7205759403792794]) (simp_all add: round_eval)

lemma soft_sum_10: "fadd Binary64 (py_float 0.8) (py_float 0.2) = py_float 1.0"
proof -
  have "round_real Binary64 (18014398509481985 / 18014398509481984) = Fin False 1"
    by (rule round_real_pos [where k = "0" and e = "0" and u = "1 / 4503599627370496"
          and n = 4503599627370496]) (simp_all add: round_eval)
  then show ?thesis
    unfolding py_float_08 py_float_02 py_float_10 by (simp add: signed_def)
qed

lemma get_val_f64_10: "get_val_f64 ''Soft Value'' (py_float 1.0) = py_float 1.0"
  unfolding get_val_f64_def soft_product_10 soft_sum_10 by simp

lemma target_11: "fmul Binary64 (py_float 1.10) (py_float 1.0) = py_float 1.10"
  unfolding py_float_11 py_float_10 fmul_pos
  by (rule round_mag_finite [where k = "0" and e = "0" and u = "1 / 4503599627370496"
        and n = 4953959590107546]) (simp_all add: round_eval)

lemma target_10: "fmul Binary64 (py_float 1.0) (py_float 1.0) = py_float 1.0"
  unfolding py_float_10 fmul_pos by (simp add: round_one)

lemma strength_11:
  "fsub Binary64 (py_float 1.10) (py_float 1.0) = Fin False (225179981368525 / 2251799813685248)"
proof -
  have "round_real Binary64 (225179981368525 / 2251799813685248)
          = Fin False (225179981368525 / 2251799813685248)"
    by (rule round_real_pos [where k = "-4" and e = "-4" and u = "1 / 72057594037927936"
          and n = 7205759403792800]) (simp_all add: round_eval)
  then show ?thesis
    unfolding fsub_def py_float_11 py_float_10 by (simp add: signed_def)
qed

lemma strength_10: "fsub Binary64 (py_float 1.0) (py_float 1.0) = Fin False 0"
  unfolding fsub_def py_float_10 by (simp add: signed_def)

lemma patch_loop_f64_calls:
  "fst (patch_loop_f64 f es calls n) =
     calls @ map (\<lambda>(key, payload). (key, payload, the (f key), py_float 1.0))
               (filter (\<lambda>(key, payload). f key \<noteq> None) es)"
  by (induction f es calls n rule: patch_loop_f64.induct) (auto split: option.splits)

lemma patch_loop_f64_registers:
  assumes "(key, payload) \<in> set es" and "f key = Some strength"
  shows "(key, payload, strength, py_float 1.0) \<in> set (fst (patch_loop_f64 f es calls n))"
proof -
  let ?g = "\<lambda>(key, payload). (key, payload, the (f key), py_float 1.0)"
  from assms have "(key, payload) \<in> set (filter (\<lambda>(key, payload). f key \<noteq> None) es)"
    by simp
  then have "?g (key, payload) \<in> ?g ` set (filter (\<lambda>(key, payload). f key \<noteq> None) es)"
    by (rule imageI)
  with assms(2) show ?thesis by (simp add: patch_loop_f64_calls)
qed

lemma tune_qwen_simple_f64_calls:
  "patch_calls_f64 (fst (tune_qwen_simple_f64 clip mode base_strength kwargs)) =
     fst (patch_loop_f64
            (te_strength_f64 (fst (simple_layer_scales_f64 mode base_strength kwargs))
               (get_val_f64 mode base_strength))
            (weight_payloads (state_dict_f64 clip)) (patch_calls_f64 clip) 0)"
  by (simp add: tune_qwen_simple_f64_def Let_def split: prod.splits)

lemma zone_indices_f64_lookup:
  "fst (zone_indices_f64 final_val w_base rng (ls, dl)) i =
     (if i \<in> set rng then Some final_val else ls i)"
  by (induction rng arbitrary: ls dl) simp_all

lemma simple_scales_zone_f64:
  assumes "(name, rng) \<in> set group_inputs" and "i \<in> set rng"
  shows "fst (simple_layer_scales_f64 mode base_strength kwargs) i =
           Some (get_val_f64 mode (kwargs_get_f64 kwargs name (py_float 1.0)))"
proof -
  have step: "\<And>f w r maps j. fst (zone_indices_f64 f w r maps) j =
      (if j \<in> set r then Some f else fst maps j)"
    by (metis zone_indices_f64_lookup prod.collapse)
  from assms(1) have "(name, rng) = (''Zone_1_Embedding_00_05'', [0..<6])
      \<or> (name, rng) = (''Zone_2_Syntax_Low_06_11'', [6..<12])
      \<or> (name, rng) = (''Zone_3_Syntax_High_12_17'', [12..<18])
      \<or> (name, rng) = (''Zone_4_Semantics_18_23'', [18..<24])
      \<or> (name, rng) = (''Zone_5_Context_24_29'', [24..<30])
      \<or> (name, rng) = (''Zone_6_Abstract_30_35'', [30..<36])"
    by (simp add: group_inputs_def del: upt_rec_numeral)
  then show ?thesis
    using assms(2)
    by (elim disjE)
       (simp_all add: group_inputs_def simple_layer_scales_f64_def Let_def step
          del: upt_rec_numeral)
qed

lemma strength_11_ne_zero: "ne_zero (fsub Binary64 (py_float 1.10) (py_float 1.0))"
  unfolding strength_11 by simp

lemma zone_target_scale:
  assumes "(zone, rng) \<in> set group_inputs" and "kwargs zone = Some (py_float 1.5)"
    and "idx \<in> set rng"
  shows "te_target_scale_f64 (fst (simple_layer_scales_f64 ''Soft Value'' (py_float 1.0) kwargs))
           (get_val_f64 ''Soft Value'' (py_float 1.0)) idx = Some (py_float 1.10)"
proof -
  have kg: "kwargs_get_f64 kwargs zone (py_float 1.0) = py_float 1.5"
    using assms(2) by (simp add: kwargs_get_f64_def)
  have ls: "fst (simple_layer_scales_f64 ''Soft Value'' (py_float 1.0) kwargs) idx
              = Some (py_float 1.10)"
    unfolding simple_scales_zone_f64 [OF assms(1,3)] kg get_val_f64_15 by (rule refl)
  show ?thesis
    unfolding te_target_scale_f64_def get_val_f64_10 ls by (simp only: option.case target_11)
qed

lemma other_zone_target_scale:
  assumes "(zone, rng) \<in> set group_inputs" and "kwargs zone = None" and "idx \<in> set rng"
  shows "te_target_scale_f64 (fst (simple_layer_scales_f64 ''Soft Value'' (py_float 1.0) kwargs))
           (get_val_f64 ''Soft Value'' (py_float 1.0)) idx = Some (py_float 1.0)"
proof -
  have kg: "kwargs_get_f64 kwargs zone (py_float 1.0) = py_float 1.0"
    using assms(2) by (simp add: kwargs_get_f64_def)
  have ls: "fst (simple_layer_scales_f64 ''Soft Value'' (py_float 1.0) kwargs) idx
              = Some (py_float 1.0)"
    unfolding simple_scales_zone_f64 [OF assms(1,3)] kg get_val_f64_10 by (rule refl)
  show ?thesis
    unfolding te_target_scale_f64_def get_val_f64_10 ls by (simp only: option.case target_10)
qed

lemma zone_strength:
  assumes "(zone, rng) \<in> set group_inputs" and "kwargs zone = Some (py_float 1.5)"
    and "idx \<in> set rng" and "qwen_layer_idx key = Some idx"
    and "\<not> str_in ''norm'' key" and "\<not> str_in ''bias'' key"
  shows "te_strength_f64 (fst (simple_layer_scales_f64 ''Soft Value'' (py_float 1.0) kwargs))
           (get_val_f64 ''Soft Value'' (py_float 1.0)) key
         = Some (fsub Binary64 (py_float 1.10) (py_float 1.0))"
  unfolding te_strength_f64_def
  using assms(4-6) zone_target_scale [of zone rng kwargs idx, OF assms(1-3)] strength_11_ne_zero
  by (simp add: Let_def)

text \<open>
  C9, as the specification has it: a patch of strength 0.10. With the slider of the third
  zone at 1.5 the tuner registers one patch, for the one weight of layer 13 that is not a
  norm, and its strength is the float 0.10000000000000009, not the float 0.10.
\<close>

theorem zone_strength_counterexample:
  "patch_calls_f64 (fst (tune_qwen_simple_f64 demo_clip_f64 ''Soft Value'' (py_float 1.0)
                           [''Zone_3_Syntax_High_12_17'' \<mapsto> py_float 1.5]))
     = [(''model.layers.13.self_attn.q_proj.weight'', PList [PTensor [3, 4]],
         Fin False (225179981368525 / 2251799813685248), py_float 1.0)]
   \<and> Fin False (225179981368525 / 2251799813685248) \<noteq> py_float 0.10"
proof -
  let ?kw = "[''Zone_3_Syntax_High_12_17'' \<mapsto> py_float 1.5]"
  let ?f = "te_strength_f64 (fst (simple_layer_scales_f64 ''Soft Value'' (py_float 1.0) ?kw))
              (get_val_f64 ''Soft Value'' (py_float 1.0))"
  have z3: "(''Zone_3_Syntax_High_12_17'', [12..<18]) \<in> set group_inputs"
    and z4: "(''Zone_4_Semantics_18_23'', [18..<24]) \<in> set group_inputs"
    by (simp_all add: group_inputs_def del: upt_rec_numeral)
  have i13: "(13::nat) \<in> set [12..<18]" and i20: "(20::nat) \<in> set [18..<24]"
    by (simp_all del: upt_rec_numeral)
  have r13: "qwen_layer_idx ''model.layers.13.self_attn.q_proj.weight'' = Some 13"
    and r20: "qwen_layer_idx ''model.layers.20.self_attn.q_proj.weight'' = Some 20"
    by (simp_all add: qwen_layer_idx_def match_here_def is_digit_def int_of_digits_def
          digit_val_def)
  have a: "?f ''model.layers.13.self_attn.q_proj.weight''
             = Some (Fin False (225179981368525 / 2251799813685248))"
    using zone_strength [of "''Zone_3_Syntax_High_12_17''" "[12..<18]" ?kw 13
            "''model.layers.13.self_attn.q_proj.weight''", OF z3 _ i13 r13] strength_11
    by simp
  have b: "?f ''model.layers.13.input_layernorm.weight'' = None"
    by (simp add: te_strength_f64_def)
  have "te_target_scale_f64 (fst (simple_layer_scales_f64 ''Soft Value'' (py_float 1.0) ?kw))
          (get_val_f64 ''Soft Value'' (py_float 1.0)) 20 = Some (py_float 1.0)"
    by (rule other_zone_target_scale [of "''Zone_4_Semantics_18_23''" "[18..<24]" ?kw 20,
              OF z4 _ i20]) simp
  then have c: "?f ''model.layers.20.self_attn.q_proj.weight'' = None"
    unfolding te_strength_f64_def using r20 strength_10 by (simp add: Let_def)
  have "patch_calls_f64 (fst (tune_qwen_simple_f64 demo_clip_f64 ''Soft Value'' (py_float 1.0)
                           ?kw))
     = [(''model.layers.13.self_attn.q_proj.weight'', PList [PTensor [3, 4]],
         Fin False (225179981368525 / 2251799813685248), py_float 1.0)]"
    unfolding tune_qwen_simple_f64_calls
    using a b c by (simp add: demo_clip_f64_def weight_payloads_def)
  moreover have "Fin False (225179981368525 / 2251799813685248) \<noteq> py_float 0.10"
    unfolding py_float_010 by simp
  ultimately show ?thesis by simp
qed

text \<open>
  C9, amended. In the Simple Qwen tuner, Soft mode, base strength 1.0 and the slider of one
  zone at 1.5: every index of that zone gets the multiplier 1.10, exactly the float of that
  literal, and every tensor of the state dictionary whose key carries such an index, and
  neither \<open>norm\<close> nor \<open>bias\<close>, gets a patch on its own weight whose strength is the
  float \<open>1.10 - 1.0\<close>. That float is 225179981368525 / 2251799813685248, which is
  0.10000000000000009: it is 0.10 to within \<open>10\<^sup>-\<^sup>1\<^sup>6\<close>.
\<close>

theorem zone_scenario_binary64:
  assumes "(zone, rng) \<in> set group_inputs" and "kwargs zone = Some (py_float 1.5)"
    and "idx \<in> set rng"
  shows "te_target_scale_f64 (fst (simple_layer_scales_f64 ''Soft Value'' (py_float 1.0) kwargs))
           (get_val_f64 ''Soft Value'' (py_float 1.0)) idx = Some (py_float 1.10)
       \<and> ((key, w) \<in> set (state_dict_f64 clip) \<and> qwen_layer_idx key = Some idx
            \<and> \<not> str_in ''norm'' key \<and> \<not> str_in ''bias'' key \<longrightarrow>
          (key, PList [PTensor w], fsub Binary64 (py_float 1.10) (py_float 1.0), py_float 1.0)
            \<in> set (patch_calls_f64
                     (fst (tune_qwen_simple_f64 clip ''Soft Value'' (py_float 1.0) kwargs))))
       \<and> fsub Binary64 (py_float 1.10) (py_float 1.0)
           = Fin False (225179981368525 / 2251799813685248)
       \<and> \<bar>225179981368525 / 2251799813685248 - 0.10\<bar> < (1 / 10 ^ 16 :: real)"
proof (intro conjI impI)
  show "te_target_scale_f64 (fst (simple_layer_scales_f64 ''Soft Value'' (py_float 1.0) kwargs))
           (get_val_f64 ''Soft Value'' (py_float 1.0)) idx = Some (py_float 1.10)"
    by (rule zone_target_scale [of zone rng kwargs idx, OF assms])
next
  assume k: "(key, w) \<in> set (state_dict_f64 clip) \<and> qwen_layer_idx key = Some idx
            \<and> \<not> str_in ''norm'' key \<and> \<not> str_in ''bias'' key"
  then have "(key, PList [PTensor w]) \<in> set (weight_payloads (state_dict_f64 clip))"
    by (force simp: weight_payloads_def)
  moreover from k have
    "te_strength_f64 (fst (simple_layer_scales_f64 ''Soft Value'' (py_float 1.0) kwargs))
       (get_val_f64 ''Soft Value'' (py_float 1.0)) key
     = Some (fsub Binary64 (py_float 1.10) (py_float 1.0))"
    by (elim conjE) (rule zone_strength [of zone rng kwargs idx key, OF assms])
  ultimately show
    "(key, PList [PTensor w], fsub Binary64 (py_float 1.10) (py_float 1.0), py_float 1.0)
       \<in> set (patch_calls_f64
                (fst (tune_qwen_simple_f64 clip ''Soft Value'' (py_float 1.0) kwargs)))"
    unfolding tune_qwen_simple_f64_calls by (rule patch_loop_f64_registers)
next
  show "fsub Binary64 (py_float 1.10) (py_float 1.0)
          = Fin False (225179981368525 / 2251799813685248)"
    by (rule strength_11)
next
  show "\<bar>225179981368525 / 2251799813685248 - 0.10\<bar> < (1 / 10 ^ 16 :: real)"
    by simp
qed

theorem zone_scenario_binary64_witness:
  "te_target_scale_f64
     (fst (simple_layer_scales_f64 ''Soft Value'' (py_float 1.0)
             [''Zone_3_Syntax_High_12_17'' \<mapsto> py_float 1.5]))
     (get_val_f64 ''Soft Value'' (py_float 1.0)) 13 = Some (py_float 1.10)
   \<and> (''model.layers.13.self_attn.q_proj.weight'', PList [PTensor [3, 4]],
       Fin False (225179981368525 / 2251799813685248), py_float 1.0)
       \<in> set (patch_calls_f64
                (fst (tune_qwen_simple_f64 demo_clip_f64 ''Soft Value'' (py_float 1.0)
                        [''Zone_3_Syntax_High_12_17'' \<mapsto> py_float 1.5])))"
proof -
  have z: "(''Zone_3_Syntax_High_12_17'', [12..<18]) \<in> set group_inputs"
    by (simp add: group_inputs_def del: upt_rec_numeral)
  have i: "(13::nat) \<in> set [12..<18]" by (simp del: upt_rec_numeral)
  have k: "(''model.layers.13.self_attn.q_proj.weight'', [3, 4])
             \<in> set (state_dict_f64 demo_clip_f64)"
    by (simp add: demo_clip_f64_def)
  have r: "qwen_layer_idx ''model.layers.13.self_attn.q_proj.weight'' = Some 13"
    by (simp add: qwen_layer_idx_def match_here_def is_digit_def int_of_digits_def digit_val_def)
  have n: "\<not> str_in ''norm'' ''model.layers.13.self_attn.q_proj.weight''"
          "\<not> str_in ''bias'' ''model.layers.13.self_attn.q_proj.weight''"
    by simp_all
  have kw: "[''Zone_3_Syntax_High_12_17'' \<mapsto> py_float 1.5] ''Zone_3_Syntax_High_12_17''
              = Some (py_float 1.5)"
    by simp
  note t = zone_scenario_binary64 [of "''Zone_3_Syntax_High_12_17''" "[12..<18]"
         "[''Zone_3_Syntax_High_12_17'' \<mapsto> py_float 1.5]" 13
         "''model.layers.13.self_attn.q_proj.weight''" "[3, 4]" demo_clip_f64, OF z kw i]
  from t have s: "fsub Binary64 (py_float 1.10) (py_float 1.0)
                    = Fin False (225179981368525 / 2251799813685248)"
    by simp
  have "(''model.layers.13.self_attn.q_proj.weight'', PList [PTensor [3, 4]],
      fsub Binary64 (py_float 1.10) (py_float 1.0), py_float 1.0)
       \<in> set (patch_calls_f64
                (fst (tune_qwen_simple_f64 demo_clip_f64 ''Soft Value'' (py_float 1.0)
                        [''Zone_3_Syntax_High_12_17'' \<mapsto> py_float 1.5])))"
    by (rule t [THEN conjunct2, THEN conjunct1, THEN mp]) (intro conjI k r n)
  with t [THEN conjunct1] show ?thesis unfolding s by (rule conjI)
qed

section \<open>Properties of the export reconciler\<close>

lemma chunks_concat: "length xs = n * k \<Longrightarrow> concat (chunks k n xs) = xs"
  by (induction n arbitrary: xs) simp_all

lemma chunks_length: "length xs = n * k \<Longrightarrow> c \<in> set (chunks k n xs) \<Longrightarrow> length c = k"
proof (induction n arbitrary: xs)
  case 0
  then show ?case by simp
next
  case (Suc n)
  from Suc.prems(1) have rest: "length (drop k xs) = n * k" by simp
  from Suc.prems(2) have "c = take k xs \<or> c \<in> set (chunks k n (drop k xs))" by simp
  then show ?case
  proof
    assume "c = take k xs"
    with Suc.prems(1) show ?thesis by simp
  next
    assume "c \<in> set (chunks k n (drop k xs))"
    with rest show ?thesis by (rule Suc.IH)
  qed
qed

lemma expand_same: "length xs = prod_list s \<Longrightarrow> expand s s xs = xs"
proof (induction s arbitrary: xs)
  case Nil
  then show ?case by simp
next
  case (Cons a s)
  from Cons.prems have len: "length xs = a * prod_list s" by simp
  have "map (expand s s) (chunks (prod_list s) a xs) = chunks (prod_list s) a xs"
  proof (rule map_idI)
    fix c assume "c \<in> set (chunks (prod_list s) a xs)"
    with len have "length c = prod_list s" by (rule chunks_length)
    then show "expand s s c = c" by (rule Cons.IH)
  qed
  with len show ?case by (simp add: chunks_concat)
qed

lemma broadcast_same: "broadcast_shapes s s = Some s"
  by (induction s) simp_all

lemma tensor_add_same_shape:
  assumes "shape a = shape b" and "well_formed a" and "well_formed b"
  shows "tensor_add a b = Some \<lparr>shape = shape a, elems = map2 (fadd Binary32) (elems a) (elems b)\<rparr>"
  using assms
  by (simp add: tensor_add_def pad_shape_def broadcast_same expand_same well_formed_def numel_def)

lemma well_formed_add_scaled:
  assumes "well_formed w" and "well_formed r" and "numel r = numel w"
  shows "well_formed (add_scaled w (r, s))"
  using assms by (simp add: well_formed_def add_scaled_def numel_def)

lemma numel_add_scaled: "numel (add_scaled w p) = numel w"
  by (simp add: add_scaled_def numel_def)

lemma well_formed_float: "well_formed (to_dtype dt t) = well_formed t"
  by (simp add: well_formed_def to_dtype_def numel_def)

lemma numel_float: "numel (to_dtype dt t) = numel t"
  by (simp add: to_dtype_def numel_def)

lemma map2_map_right: "map2 f xs (map g ys) = map2 (\<lambda>x y. f x (g y)) xs ys"
  by (induction xs ys rule: list_induct2') simp_all

lemma apply_patches_step:
  assumes "find_tensor p_data = Some r" and "find_strength p_data = Some s"
    and "numel r = numel w" and "well_formed r" and "well_formed w"
  shows "apply_patches (p_data # rest) w c = apply_patches rest (add_scaled w (r, s)) (c + 1)"
proof -
  define p_float where "p_float = to_dtype Float32 r"
  define p_viewed where "p_viewed = (if shape p_float \<noteq> shape w
      then (case view p_float (shape w) of Some t \<Rightarrow> t | None \<Rightarrow> p_float) else p_float)"
  have n: "prod_list (shape w) = numel p_float"
    using assms(3) by (simp add: p_float_def numel_def to_dtype_def)
  have sh: "shape p_viewed = shape w"
    using n by (simp add: p_viewed_def view_def)
  have el: "elems p_viewed = map (fcast Binary32) (elems r)"
    using n by (simp add: p_viewed_def view_def p_float_def to_dtype_def)
  have wf: "well_formed (mul_scalar p_viewed s)"
    using assms(3,4) by (simp add: well_formed_def mul_scalar_def numel_def sh el)
  have "tensor_add w (mul_scalar p_viewed s) = Some (add_scaled w (r, s))"
    using tensor_add_same_shape [of w "mul_scalar p_viewed s"] assms(5) wf
    by (simp add: mul_scalar_def sh el add_scaled_def map2_map_right)
  then show ?thesis
    using assms(1,2) by (simp add: Let_def p_viewed_def [symmetric] p_float_def [symmetric])
qed

lemma apply_patches_accumulate:
  assumes "list_all2 (patch_of v) ps rs" and "numel w = numel v" and "well_formed w"
  shows "apply_patches ps w c = Some (foldl add_scaled w rs, c + length ps)"
  using assms
proof (induction ps rs arbitrary: w c rule: list_all2_induct)
  case Nil
  then show ?case by simp
next
  case (Cons p_data ps p rs)
  obtain r s where p: "p = (r, s)" by (cases p)
  from Cons.hyps(1) p have ft: "find_tensor p_data = Some r"
    and fs: "find_strength p_data = Some s"
    and nr: "numel r = numel v" and wr: "well_formed r"
    by (simp_all add: patch_of_def)
  from nr Cons.prems(1) have nw: "numel r = numel w" by simp
  have "apply_patches (p_data # ps) w c = apply_patches ps (add_scaled w (r, s)) (c + 1)"
    using ft fs nw wr Cons.prems(2) by (rule apply_patches_step)
  also have "\<dots> = Some (foldl add_scaled (add_scaled w (r, s)) rs, c + 1 + length ps)"
  proof (rule Cons.IH)
    show "numel (add_scaled w (r, s)) = numel v"
      using Cons.prems(1) by (simp add: numel_add_scaled)
    show "well_formed (add_scaled w (r, s))"
      using Cons.prems(2) wr nw by (rule well_formed_add_scaled)
  qed
  finally show ?case by (simp add: p)
qed

lemma export_loop_step:
  assumes "export_loop dt sm ram_sd patches (a # ks) fsd c = Some (fsd', c')"
    and "sm (clean_key a) = Some rk"
  obtains rw w' n' where "map_of ram_sd rk = Some rw"
    and "apply_patches (found_patches patches rk (clean_key a)) (to_dtype Float32 rw) c
           = Some (w', n')"
    and "export_loop dt sm ram_sd patches ks (fsd(a \<mapsto> to_dtype dt w')) n' = Some (fsd', c')"
  using assms by (auto simp: Let_def split: option.splits)

lemma export_loop_other:
  assumes "export_loop dt sm ram_sd patches ks fsd c = Some (fsd', c')"
    and "k \<notin> set ks"
  shows "fsd' k = fsd k"
  using assms
proof (induction ks arbitrary: fsd c)
  case Nil
  then show ?case by simp
next
  case (Cons a ks)
  from Cons.prems(2) have notin: "k \<notin> set ks" and ne: "k \<noteq> a" by simp_all
  show ?case
  proof (cases "sm (clean_key a)")
    case None
    with Cons.prems(1) have "export_loop dt sm ram_sd patches ks fsd c = Some (fsd', c')"
      by (simp add: Let_def)
    then show ?thesis using notin by (rule Cons.IH)
  next
    case (Some rk)
    with Cons.prems(1) obtain w' n' where
      "export_loop dt sm ram_sd patches ks (fsd(a \<mapsto> to_dtype dt w')) n' = Some (fsd', c')"
      by (rule export_loop_step)
    then have "fsd' k = (fsd(a \<mapsto> to_dtype dt w')) k" using notin by (rule Cons.IH)
    with ne show ?thesis by simp
  qed
qed

lemma export_loop_value:
  assumes "export_loop dt sm ram_sd patches ks fsd c = Some (fsd', c')"
    and "orig_key \<in> set ks"
    and "sm (clean_key orig_key) = Some ram_key"
    and "map_of ram_sd ram_key = Some v"
  shows "\<exists>w' n n'.
           apply_patches (found_patches patches ram_key (clean_key orig_key))
             (to_dtype Float32 v) n = Some (w', n')
           \<and> fsd' orig_key = Some (to_dtype dt w')"
  using assms(1,2)
proof (induction ks arbitrary: fsd c)
  case Nil
  then show ?case by simp
next
  case (Cons a ks)
  show ?case
  proof (cases "orig_key \<in> set ks")
    case True
    show ?thesis
    proof (cases "sm (clean_key a)")
      case None
      with Cons.prems(1) have "export_loop dt sm ram_sd patches ks fsd c = Some (fsd', c')"
        by (simp add: Let_def)
      then show ?thesis using True by (rule Cons.IH)
    next
      case (Some rk)
      with Cons.prems(1) obtain w' n' where
        "export_loop dt sm ram_sd patches ks (fsd(a \<mapsto> to_dtype dt w')) n' = Some (fsd', c')"
        by (rule export_loop_step)
      then show ?thesis using True by (rule Cons.IH)
    qed
  next
    case False
    with Cons.prems(2) have a: "a = orig_key" by simp
    from Cons.prems(1) assms(3) obtain rw w' n' where
      rw: "map_of ram_sd ram_key = Some rw"
      and ap: "apply_patches (found_patches patches ram_key (clean_key orig_key))
                 (to_dtype Float32 rw) c = Some (w', n')"
      and rest: "export_loop dt sm ram_sd patches ks (fsd(orig_key \<mapsto> to_dtype dt w')) n'
                   = Some (fsd', c')"
      unfolding a by (rule export_loop_step)
    from rest False have "fsd' orig_key = (fsd(orig_key \<mapsto> to_dtype dt w')) orig_key"
      by (rule export_loop_other)
    with rw ap assms(4) show ?thesis by auto
  qed
qed

lemma save_qwen_loop:
  assumes "save_qwen (Some original_keys) ram_sd patches save_precision
             = Inr (final_sd, count_patched)"
  shows "export_loop (dtype_of save_precision)
           (build_suffix_map (map fst ram_sd) Map.empty) ram_sd patches original_keys
           Map.empty 0 = Some (final_sd, count_patched)"
  using assms by (simp add: save_qwen_def split: option.splits)

lemma accumulated_value:
  assumes "well_formed v" and "list_all2 (patch_of v) ps rs"
  shows "apply_patches ps (to_dtype Float32 v) c = Some (accumulated v rs, c + length ps)"
  unfolding accumulated_def
  using assms(2) by (rule apply_patches_accumulate) (simp_all add: numel_float well_formed_float assms(1))

lemma accumulated_one:
  "accumulated v [(v, s)] =
     \<lparr>shape = shape v,
      elems = map (\<lambda>x. fadd Binary32 (fcast Binary32 x)
                          (fmul Binary32 (fcast Binary32 x) (fcast Binary32 s))) (elems v)\<rparr>"
proof -
  have "\<And>f g xs. map2 f (map g xs) xs = map (\<lambda>x. f (g x) x) xs"
    subgoal for f g xs by (induction xs) simp_all
    done
  then show ?thesis
    by (simp add: accumulated_def add_scaled_def to_dtype_def)
qed

text \<open>
  The sum broadcasts as that of torch: a row is added to every row of a matrix, a column
  of shape \<open>[2, 1]\<close> and a row give a matrix, and sizes 3 and 2 do not broadcast. A patch
  whose tensor is a row, on a weight that is a matrix, cannot be viewed as the matrix; it
  is broadcast and the sum is written. A patch whose tensor does not broadcast makes the
  export fail.
\<close>

lemma tensor_add_row:
  "tensor_add \<lparr>shape = [2, 2], elems = [a, b, c, d]\<rparr> \<lparr>shape = [2], elems = [x, y]\<rparr>
   = Some \<lparr>shape = [2, 2],
           elems = [fadd Binary32 a x, fadd Binary32 b y, fadd Binary32 c x, fadd Binary32 d y]\<rparr>"
  by (simp add: tensor_add_def pad_shape_def Let_def numeral_2_eq_2)

lemma tensor_add_column:
  "tensor_add \<lparr>shape = [2, 1], elems = [a, b]\<rparr> \<lparr>shape = [2], elems = [x, y]\<rparr>
   = Some \<lparr>shape = [2, 2],
           elems = [fadd Binary32 a x, fadd Binary32 a y, fadd Binary32 b x, fadd Binary32 b y]\<rparr>"
  by (simp add: tensor_add_def pad_shape_def Let_def numeral_2_eq_2)

lemma tensor_add_mismatch:
  "tensor_add \<lparr>shape = [3], elems = [a, b, c]\<rparr> \<lparr>shape = [2], elems = [x, y]\<rparr> = None"
  by (simp add: tensor_add_def pad_shape_def Let_def)

lemma broadcast_patch_is_written:
  "apply_patches [VList [VNum s, VList [VTensor \<lparr>shape = [2], elems = [x, y]\<rparr>]]]
     \<lparr>shape = [2, 2], elems = [a, b, c, d]\<rparr> n
   = Some (\<lparr>shape = [2, 2],
            elems = [fadd Binary32 a (fmul Binary32 (fcast Binary32 x) (fcast Binary32 s)),
                     fadd Binary32 b (fmul Binary32 (fcast Binary32 y) (fcast Binary32 s)),
                     fadd Binary32 c (fmul Binary32 (fcast Binary32 x) (fcast Binary32 s)),
                     fadd Binary32 d (fmul Binary32 (fcast Binary32 y) (fcast Binary32 s))]\<rparr>,
           n + 1)"
  by (simp add: to_dtype_def view_def numel_def mul_scalar_def tensor_add_def pad_shape_def
        Let_def numeral_2_eq_2)

lemma mismatched_patch_fails:
  "save_qwen (Some [''w'']) [(''w'', \<lparr>shape = [3], elems = [a, b, c]\<rparr>)]
     [''w'' \<mapsto> [VList [VNum s, VList [VTensor \<lparr>shape = [2], elems = [x, y]\<rparr>]]]]
     save_precision
   = Inl ExportFailed"
  by (simp add: save_qwen_def clean_key_def found_patches_def to_dtype_def view_def numel_def
        mul_scalar_def tensor_add_def pad_shape_def Let_def)

text \<open>
  C8. The patches stored for a key, each with a reference tensor of as many elements as the
  tensor \<open>v\<close> in memory, are accumulated on the float32 copy of \<open>v\<close>, each product and
  each sum rounded to float32, and the result is cast once, to float32 when the requested
  precision is \<^verbatim>\<open>fp32\<close> and to float16 otherwise: that is what a successful export writes
  under a template key matched to the key of \<open>v\<close>, and an export of \<open>v\<close> alone does
  succeed, counting the patches. With one stored patch whose tensor is \<open>v\<close> and whose
  strength is 0.1 every element \<open>x\<close> is written as the cast of \<open>x + x * 0.1\<close>, the
  float32 sum of \<open>x\<close> and of its float32 product with the float32 nearest to the float 0.1.
\<close>

theorem export_round_trip:
  assumes "well_formed v" and "list_all2 (patch_of v) ps rs"
  shows "(save_qwen (Some original_keys) ram_sd patches save_precision
            = Inr (final_sd, count_patched)
          \<and> orig_key \<in> set original_keys
          \<and> build_suffix_map (map fst ram_sd) Map.empty (clean_key orig_key) = Some ram_key
          \<and> map_of ram_sd ram_key = Some v
          \<and> found_patches patches ram_key (clean_key orig_key) = ps
          \<longrightarrow> final_sd orig_key =
                Some (to_dtype (if save_precision = ''fp32'' then Float32 else Float16)
                        (accumulated v rs)))
       \<and> (clean_key ram_key = clean_key orig_key \<longrightarrow>
            save_qwen (Some [orig_key]) [(ram_key, v)] [ram_key \<mapsto> ps] save_precision
              = Inr ([orig_key \<mapsto> to_dtype (if save_precision = ''fp32'' then Float32
                                               else Float16) (accumulated v rs)],
                     length ps))
       \<and> (rs = [(v, py_float 0.1)] \<longrightarrow>
            accumulated v rs =
              \<lparr>shape = shape v,
               elems = map (\<lambda>x. fadd Binary32 (fcast Binary32 x)
                                   (fmul Binary32 (fcast Binary32 x)
                                      (fcast Binary32 (py_float 0.1)))) (elems v)\<rparr>)"
proof (intro conjI impI)
  assume a: "save_qwen (Some original_keys) ram_sd patches save_precision
            = Inr (final_sd, count_patched)
          \<and> orig_key \<in> set original_keys
          \<and> build_suffix_map (map fst ram_sd) Map.empty (clean_key orig_key) = Some ram_key
          \<and> map_of ram_sd ram_key = Some v
          \<and> found_patches patches ram_key (clean_key orig_key) = ps"
  then have e: "export_loop (dtype_of save_precision)
               (build_suffix_map (map fst ram_sd) Map.empty) ram_sd patches original_keys
               Map.empty 0 = Some (final_sd, count_patched)"
    by (simp add: save_qwen_loop)
  from a have m: "orig_key \<in> set original_keys"
    and sm: "build_suffix_map (map fst ram_sd) Map.empty (clean_key orig_key) = Some ram_key"
    and mo: "map_of ram_sd ram_key = Some v"
    and fp: "found_patches patches ram_key (clean_key orig_key) = ps"
    by simp_all
  from export_loop_value [OF e m sm mo] obtain w' n n' where
    ap: "apply_patches ps (to_dtype Float32 v) n = Some (w', n')"
    and fs: "final_sd orig_key = Some (to_dtype (dtype_of save_precision) w')"
    unfolding fp by blast
  from ap accumulated_value [OF assms, of n] have "w' = accumulated v rs" by simp
  with fs show "final_sd orig_key =
      Some (to_dtype (if save_precision = ''fp32'' then Float32 else Float16)
              (accumulated v rs))"
    by (simp add: dtype_of_def)
next
  assume "clean_key ram_key = clean_key orig_key"
  then show "save_qwen (Some [orig_key]) [(ram_key, v)] [ram_key \<mapsto> ps] save_precision
              = Inr ([orig_key \<mapsto> to_dtype (if save_precision = ''fp32'' then Float32
                                               else Float16) (accumulated v rs)],
                     length ps)"
    using accumulated_value [OF assms, of 0]
    by (simp add: save_qwen_def Let_def found_patches_def dtype_of_def)
next
  assume "rs = [(v, py_float 0.1)]"
  then show "accumulated v rs =
              \<lparr>shape = shape v,
               elems = map (\<lambda>x. fadd Binary32 (fcast Binary32 x)
                                   (fmul Binary32 (fcast Binary32 x)
                                      (fcast Binary32 (py_float 0.1)))) (elems v)\<rparr>"
    by (simp only: accumulated_one)
qed

text \<open>The strength 0.1 as a float32, and the elements 1 and 2 with one patch.\<close>

lemma py_float_01: "py_float 0.1 = Fin False (3602879701896397 / 36028797018963968)"
  unfolding py_float_def
  by (rule round_real_pos [where k = "-4" and e = "-4" and u = "1 / 72057594037927936"
        and n = 7205759403792794]) (simp_all add: round_eval)

lemma float32_strength_01: "round_mag Binary32 False (3602879701896397 / 36028797018963968) = Fin False (13421773 / 134217728)"
  by (rule round_mag_finite [where k = "-4" and e = "-4" and u = "1 / 134217728" and n = 13421773])
     (simp_all add: round_eval)

lemma float32_product_1: "round_mag Binary32 False (13421773 / 134217728) = Fin False (13421773 / 134217728)"
  by (rule round_mag_finite [where k = "-4" and e = "-4" and u = "1 / 134217728" and n = 13421773])
     (simp_all add: round_eval)

lemma float32_product_2: "round_mag Binary32 False (13421773 / 67108864) = Fin False (13421773 / 67108864)"
  by (rule round_mag_finite [where k = "-3" and e = "-3" and u = "1 / 67108864" and n = 13421773])
     (simp_all add: round_eval)

lemma float32_sum_1: "round_real Binary32 (147639501 / 134217728) = Fin False (9227469 / 8388608)"
  by (rule round_real_pos [where k = "0" and e = "0" and u = "1 / 8388608" and n = 9227469])
     (simp_all add: round_eval)

lemma float32_sum_2: "round_real Binary32 (147639501 / 67108864) = Fin False (9227469 / 4194304)"
  by (rule round_real_pos [where k = "1" and e = "1" and u = "1 / 4194304" and n = 9227469])
     (simp_all add: round_eval)

lemma float32_two: "round_mag Binary32 False (2) = Fin False (2)"
  by (rule round_mag_finite [where k = "1" and e = "1" and u = "1 / 4194304" and n = 8388608])
     (simp_all add: round_eval)

lemma float32_kept_1: "round_mag Binary32 False (9227469 / 8388608) = Fin False (9227469 / 8388608)"
  by (rule round_mag_finite [where k = "0" and e = "0" and u = "1 / 8388608" and n = 9227469])
     (simp_all add: round_eval)

lemma float32_kept_2: "round_mag Binary32 False (9227469 / 4194304) = Fin False (9227469 / 4194304)"
  by (rule round_mag_finite [where k = "1" and e = "1" and u = "1 / 4194304" and n = 9227469])
     (simp_all add: round_eval)

lemma float16_cast_1: "round_mag Binary16 False (9227469 / 8388608) = Fin False (563 / 512)"
  by (rule round_mag_finite [where k = "0" and e = "0" and u = "1 / 1024" and n = 1126])
     (simp_all add: round_eval)

lemma float16_cast_2: "round_mag Binary16 False (9227469 / 4194304) = Fin False (563 / 256)"
  by (rule round_mag_finite [where k = "1" and e = "1" and u = "1 / 512" and n = 1126])
     (simp_all add: round_eval)

lemma float32_nearest_1: "round_real Binary32 (11 / 10) = Fin False (9227469 / 8388608)"
  by (rule round_real_pos [where k = "0" and e = "0" and u = "1 / 8388608" and n = 9227469])
     (simp_all add: round_eval)

lemma float32_nearest_2: "round_real Binary32 (11 / 5) = Fin False (9227469 / 4194304)"
  by (rule round_real_pos [where k = "1" and e = "1" and u = "1 / 4194304" and n = 9227469])
     (simp_all add: round_eval)

lemma float16_nearest_1: "round_real Binary16 (11 / 10) = Fin False (563 / 512)"
  by (rule round_real_pos [where k = "0" and e = "0" and u = "1 / 1024" and n = 1126])
     (simp_all add: round_eval)

lemma float16_nearest_2: "round_real Binary16 (11 / 5) = Fin False (563 / 256)"
  by (rule round_real_pos [where k = "1" and e = "1" and u = "1 / 512" and n = 1126])
     (simp_all add: round_eval)

text \<open>The strength 0.0004 as a float32, and the element 1 with two patches.\<close>

lemma py_float_00004: "py_float 0.0004 = Fin False (7378697629483821 / 18446744073709551616)"
  unfolding py_float_def
  by (rule round_real_pos [where k = "-12" and e = "-12" and u = "1 / 18446744073709551616"
        and n = 7378697629483821]) (simp_all add: round_eval)

lemma float32_strength_00004: "round_mag Binary32 False (7378697629483821 / 18446744073709551616) = Fin False (13743895 / 34359738368)"
  by (rule round_mag_finite [where k = "-12" and e = "-12" and u = "1 / 34359738368" and n = 13743895])
     (simp_all add: round_eval)

lemma float32_product_00004: "round_mag Binary32 False (13743895 / 34359738368) = Fin False (13743895 / 34359738368)"
  by (rule round_mag_finite [where k = "-12" and e = "-12" and u = "1 / 34359738368" and n = 13743895])
     (simp_all add: round_eval)

lemma float32_sum_first: "round_real Binary32 (34373482263 / 34359738368) = Fin False (8391963 / 8388608)"
  by (rule round_real_pos [where k = "0" and e = "0" and u = "1 / 8388608" and n = 8391963])
     (simp_all add: round_eval)

lemma float32_sum_second: "round_real Binary32 (34387224343 / 34359738368) = Fin False (4197659 / 4194304)"
  by (rule round_real_pos [where k = "0" and e = "0" and u = "1 / 8388608" and n = 8395318])
     (simp_all add: round_eval)

lemma float16_cast_second: "round_mag Binary16 False (4197659 / 4194304) = Fin False (1025 / 1024)"
  by (rule round_mag_finite [where k = "0" and e = "0" and u = "1 / 1024" and n = 1025])
     (simp_all add: round_eval)

lemma float16_cast_first: "round_mag Binary16 False (8391963 / 8388608) = Fin False (1)"
  by (rule round_mag_finite [where k = "0" and e = "0" and u = "1 / 1024" and n = 1024])
     (simp_all add: round_eval)

lemma float32_of_01: "fcast Binary32 (py_float 0.1) = Fin False (13421773 / 134217728)"
  by (simp add: py_float_01 float32_strength_01)

lemma element_1:
  "fadd Binary32 (fcast Binary32 (Fin False 1))
     (fmul Binary32 (fcast Binary32 (Fin False 1)) (fcast Binary32 (py_float 0.1)))
   = Fin False (9227469 / 8388608)"
  by (simp add: float32_of_01 round_one float32_product_1 signed_def Let_def float32_sum_1)

lemma element_2:
  "fadd Binary32 (fcast Binary32 (Fin False 2))
     (fmul Binary32 (fcast Binary32 (Fin False 2)) (fcast Binary32 (py_float 0.1)))
   = Fin False (9227469 / 4194304)"
  by (simp add: float32_of_01 float32_two float32_product_2 signed_def Let_def float32_sum_2)

lemma float32_of_00004:
  "fcast Binary32 (py_float 0.0004) = Fin False (13743895 / 34359738368)"
  unfolding py_float_00004 by (simp add: float32_strength_00004)

lemma element_twice:
  "fadd Binary32
     (fadd Binary32 (fcast Binary32 (Fin False 1))
        (fmul Binary32 (fcast Binary32 (Fin False 1)) (fcast Binary32 (py_float 0.0004))))
     (fmul Binary32 (fcast Binary32 (Fin False 1)) (fcast Binary32 (py_float 0.0004)))
   = Fin False (4197659 / 4194304)"
  unfolding float32_of_00004
  by (simp add: round_one float32_product_00004 signed_def Let_def float32_sum_first
        float32_sum_second)

lemma element_once:
  "fadd Binary32 (fcast Binary32 (Fin False 1))
     (fmul Binary32 (fcast Binary32 (Fin False 1)) (fcast Binary32 (py_float 0.0004)))
   = Fin False (8391963 / 8388608)"
  unfolding float32_of_00004
  by (simp add: round_one float32_product_00004 signed_def Let_def float32_sum_first)

text \<open>
  At the elements 1 and 2 the values written are the float16 and the float32 nearest to
  \<open>1.1 x\<close>. With the two patches of strength 0.0004, a cast to float16 after each patch
  would lose both: the element would stay 1.
\<close>

lemma written_values_are_nearest:
  "round_real Binary16 (1.1 * 1) = Fin False (563 / 512)
   \<and> round_real Binary16 (1.1 * 2) = Fin False (563 / 256)
   \<and> round_real Binary32 (1.1 * 1) = Fin False (9227469 / 8388608)
   \<and> round_real Binary32 (1.1 * 2) = Fin False (9227469 / 4194304)"
  by (simp add: float16_nearest_1 float16_nearest_2 float32_nearest_1 float32_nearest_2)

lemma cast_after_each_patch_differs:
  "to_dtype Float16
     (add_scaled (to_dtype Float16 (add_scaled (to_dtype Float32 unit_tensor)
                                       (unit_tensor, py_float 0.0004)))
        (unit_tensor, py_float 0.0004))
   = \<lparr>shape = [1], elems = [Fin False 1]\<rparr>"
proof -
  have a: "add_scaled (to_dtype Float32 unit_tensor) (unit_tensor, py_float 0.0004)
             = \<lparr>shape = [1], elems = [Fin False (8391963 / 8388608)]\<rparr>"
    unfolding add_scaled_def to_dtype_def unit_tensor_def using element_once by simp
  have b: "to_dtype Float16 \<lparr>shape = [1], elems = [Fin False (8391963 / 8388608)]\<rparr>
             = \<lparr>shape = [1], elems = [Fin False 1]\<rparr>"
    by (simp add: to_dtype_def float16_cast_first)
  have c: "add_scaled \<lparr>shape = [1], elems = [Fin False 1]\<rparr> (unit_tensor, py_float 0.0004)
             = \<lparr>shape = [1], elems = [Fin False (8391963 / 8388608)]\<rparr>"
    unfolding add_scaled_def unit_tensor_def using element_once by (simp add: round_one)
  show ?thesis unfolding a b c by (rule refl)
qed

theorem export_round_trip_witness:
  "well_formed demo_tensor
   \<and> list_all2 (patch_of demo_tensor) [demo_patch demo_tensor (py_float 0.1)]
        [(demo_tensor, py_float 0.1)]
   \<and> save_qwen (Some [''model.layers.0.q.weight''])
         [(''qwen3_4b.transformer.model.layers.0.q.weight'', demo_tensor)]
         [''qwen3_4b.transformer.model.layers.0.q.weight''
            \<mapsto> [demo_patch demo_tensor (py_float 0.1)]] ''fp16''
       = Inr ([''model.layers.0.q.weight''
                 \<mapsto> \<lparr>shape = [2], elems = [Fin False (563 / 512), Fin False (563 / 256)]\<rparr>], 1)
   \<and> save_qwen (Some [''model.layers.0.q.weight''])
         [(''qwen3_4b.transformer.model.layers.0.q.weight'', demo_tensor)]
         [''qwen3_4b.transformer.model.layers.0.q.weight''
            \<mapsto> [demo_patch demo_tensor (py_float 0.1)]] ''fp32''
       = Inr ([''model.layers.0.q.weight''
                 \<mapsto> \<lparr>shape = [2], elems = [Fin False (9227469 / 8388608),
                                            Fin False (9227469 / 4194304)]\<rparr>], 1)
   \<and> save_qwen (Some [''model.layers.0.q.weight''])
         [(''qwen3_4b.transformer.model.layers.0.q.weight'', unit_tensor)]
         [''qwen3_4b.transformer.model.layers.0.q.weight''
            \<mapsto> [demo_patch unit_tensor (py_float 0.0004),
                demo_patch unit_tensor (py_float 0.0004)]] ''fp16''
       = Inr ([''model.layers.0.q.weight''
                 \<mapsto> \<lparr>shape = [1], elems = [Fin False (1025 / 1024)]\<rparr>], 2)"
proof -
  let ?orig = "''model.layers.0.q.weight''"
  let ?ram = "''qwen3_4b.transformer.model.layers.0.q.weight''"
  have wf: "well_formed demo_tensor"
    by (simp add: well_formed_def numel_def demo_tensor_def)
  have la: "list_all2 (patch_of demo_tensor) [demo_patch demo_tensor (py_float 0.1)]
              [(demo_tensor, py_float 0.1)]"
    by (simp add: patch_of_def demo_patch_def wf)
  have wf1: "well_formed unit_tensor"
    by (simp add: well_formed_def numel_def unit_tensor_def)
  have la1: "list_all2 (patch_of unit_tensor)
               [demo_patch unit_tensor (py_float 0.0004), demo_patch unit_tensor (py_float 0.0004)]
               [(unit_tensor, py_float 0.0004), (unit_tensor, py_float 0.0004)]"
    by (simp add: patch_of_def demo_patch_def wf1)
  have ck: "clean_key ?ram = clean_key ?orig"
    by (simp add: clean_key_def)
  note t16 = export_round_trip [where v = demo_tensor and orig_key = ?orig and ram_key = ?ram
      and save_precision = "''fp16''", OF wf la]
  note t32 = export_round_trip [where v = demo_tensor and orig_key = ?orig and ram_key = ?ram
      and save_precision = "''fp32''", OF wf la]
  note t2 = export_round_trip [where v = unit_tensor and orig_key = ?orig and ram_key = ?ram
      and save_precision = "''fp16''", OF wf1 la1]
  have "accumulated demo_tensor [(demo_tensor, py_float 0.1)] =
          \<lparr>shape = shape demo_tensor,
           elems = map (\<lambda>x. fadd Binary32 (fcast Binary32 x)
                               (fmul Binary32 (fcast Binary32 x)
                                  (fcast Binary32 (py_float 0.1)))) (elems demo_tensor)\<rparr>"
    by (rule t16 [THEN conjunct2, THEN conjunct2, THEN mp]) (rule refl)
  also have "\<dots> = \<lparr>shape = [2], elems = [Fin False (9227469 / 8388608),
                                          Fin False (9227469 / 4194304)]\<rparr>"
    unfolding demo_tensor_def ftensor.simps list.map element_1 element_2 by (rule refl)
  finally have acc: "accumulated demo_tensor [(demo_tensor, py_float 0.1)] =
      \<lparr>shape = [2], elems = [Fin False (9227469 / 8388608), Fin False (9227469 / 4194304)]\<rparr>" .
  have "accumulated unit_tensor [(unit_tensor, py_float 0.0004), (unit_tensor, py_float 0.0004)]
          = \<lparr>shape = [1], elems = [Fin False (4197659 / 4194304)]\<rparr>"
    unfolding accumulated_def add_scaled_def to_dtype_def unit_tensor_def
    using element_twice by simp
  then have acc2: "to_dtype Float16 (accumulated unit_tensor
        [(unit_tensor, py_float 0.0004), (unit_tensor, py_float 0.0004)])
          = \<lparr>shape = [1], elems = [Fin False (1025 / 1024)]\<rparr>"
    by (simp add: to_dtype_def float16_cast_second)
  have a16: "to_dtype Float16 (accumulated demo_tensor [(demo_tensor, py_float 0.1)])
          = \<lparr>shape = [2], elems = [Fin False (563 / 512), Fin False (563 / 256)]\<rparr>"
    unfolding acc by (simp add: to_dtype_def float16_cast_1 float16_cast_2)
  have a32: "to_dtype Float32 (accumulated demo_tensor [(demo_tensor, py_float 0.1)])
          = \<lparr>shape = [2], elems = [Fin False (9227469 / 8388608),
                                    Fin False (9227469 / 4194304)]\<rparr>"
    unfolding acc by (simp add: to_dtype_def float32_kept_1 float32_kept_2)
  have r16: "save_qwen (Some [?orig]) [(?ram, demo_tensor)]
               [?ram \<mapsto> [demo_patch demo_tensor (py_float 0.1)]] ''fp16''
       = Inr ([?orig \<mapsto> \<lparr>shape = [2], elems = [Fin False (563 / 512),
                                                  Fin False (563 / 256)]\<rparr>], 1)"
    using t16 [THEN conjunct2, THEN conjunct1, THEN mp, OF ck] unfolding a16 [symmetric]
    by simp
  have r32: "save_qwen (Some [?orig]) [(?ram, demo_tensor)]
               [?ram \<mapsto> [demo_patch demo_tensor (py_float 0.1)]] ''fp32''
       = Inr ([?orig \<mapsto> \<lparr>shape = [2], elems = [Fin False (9227469 / 8388608),
                                                  Fin False (9227469 / 4194304)]\<rparr>], 1)"
    using t32 [THEN conjunct2, THEN conjunct1, THEN mp, OF ck] unfolding a32 [symmetric]
    by simp
  have r2: "save_qwen (Some [?orig]) [(?ram, unit_tensor)]
               [?ram \<mapsto> [demo_patch unit_tensor (py_float 0.0004),
                         demo_patch unit_tensor (py_float 0.0004)]] ''fp16''
       = Inr ([?orig \<mapsto> \<lparr>shape = [1], elems = [Fin False (1025 / 1024)]\<rparr>], 2)"
    using t2 [THEN conjunct2, THEN conjunct1, THEN mp, OF ck] unfolding acc2 [symmetric]
    by simp
  from wf la r16 r32 r2 show ?thesis by (intro conjI)
qed

end
